(* ===== verification/Prelude.thy ===== *)
theory Prelude
  imports Main
begin

text \<open>
  Shared vocabulary of the development: the names of the model's basic types
  (timestamps, row identifiers), the named collections of facts the component
  theories add to, and generic lemmas on lists and options that several
  components use (row tables are lists; a query's result is a filtered list).
\<close>

section \<open>Collections of facts\<close>

text \<open>
  \<open>route_simps\<close> collects the characteristic equations of the request handlers;
  \<open>db_inv_intros\<close> the preservation lemmas of the database invariant.
\<close>

named_theorems route_simps "characteristic equations of the request handlers"
named_theorems db_inv_intros "preservation of the database invariant"

section \<open>Basic types\<close>

text \<open>
  Time is the server clock in whole seconds (JavaScript's \<open>Date.now() / 1000\<close>
  rounded down, as \<open>jsonwebtoken\<close> uses it); row identifiers are the database's
  generated keys, modelled as naturals drawn from a counter.
\<close>

type_synonym timestamp = nat
type_synonym row_id = nat

section \<open>Generic lemmas on lists\<close>

lemma map_filter_eq_Nil_iff:
  "(filter P xs = []) = (\<forall>x\<in>set xs. \<not> P x)"
  by (induction xs) auto

lemma filter_singleton_unique:
  assumes "filter P xs = [x]" and "y \<in> set xs" and "P y"
  shows "y = x"
proof -
  have "y \<in> set (filter P xs)" using assms(2,3) by simp
  with assms(1) show ?thesis by simp
qed

lemma distinct_map_append_single:
  "distinct (map f (xs @ [x])) = (distinct (map f xs) \<and> f x \<notin> f ` set xs)"
  by auto

lemma distinct_count_list_le: "distinct xs \<Longrightarrow> count_list xs x \<le> 1"
  by (induction xs) (auto simp: count_list_0_iff)

lemma filter_map_if_same:
  assumes "\<And>x. P x \<Longrightarrow> P (f x)"
  shows "filter P (map (\<lambda>x. if P x then f x else x) xs) = map f (filter P xs)"
  using assms by (induction xs) auto

lemma filter_le1_member:
  assumes "length (filter P xs) \<le> 1" "x \<in> set xs" "P x"
  shows "filter P xs = [x]"
proof -
  have "x \<in> set (filter P xs)" using assms(2,3) by simp
  with assms(1) show ?thesis
    by (cases "filter P xs" rule: remdups_adj.cases) auto
qed

lemma map_if_key_id: "\<forall>x\<in>set xs. key x \<noteq> k \<Longrightarrow> map (\<lambda>x. if key x = k then f x else x) xs = xs"
  by (induction xs) auto

lemma distinct_filter_map_update:
  assumes "distinct (map key xs)" "distinct (filter P (map g xs))"
    and "\<And>x y. x \<in> set xs \<Longrightarrow> key x = k \<Longrightarrow> P (g (f x)) \<Longrightarrow> y \<in> set xs \<Longrightarrow> key y \<noteq> k \<Longrightarrow> g y \<noteq> g (f x)"
  shows "distinct (filter P (map g (map (\<lambda>x. if key x = k then f x else x) xs)))"
  using assms
proof (induction xs)
  case Nil
  then show ?case by simp
next
  case (Cons a xs)
  show ?case
  proof (cases "key a = k")
    case True
    with Cons.prems(1) have "\<forall>x\<in>set xs. key x \<noteq> k" by (auto simp: image_iff)
    then have id: "map (\<lambda>x. if key x = k then f x else x) xs = xs" by (rule map_if_key_id)
    have "g (f a) \<notin> set (filter P (map g xs))" if "P (g (f a))"
      using Cons.prems(3)[of a] True \<open>\<forall>x\<in>set xs. key x \<noteq> k\<close> that by fastforce
    with True Cons.prems(2) show ?thesis by (simp add: id split: if_splits)
  next
    case False
    have "distinct (filter P (map g (map (\<lambda>x. if key x = k then f x else x) xs)))"
      using Cons.prems by (intro Cons.IH) (auto split: if_splits)
    moreover have "g a \<notin> set (filter P (map g (map (\<lambda>x. if key x = k then f x else x) xs)))"
    proof
      assume "g a \<in> set (filter P (map g (map (\<lambda>x. if key x = k then f x else x) xs)))"
      then obtain y where y: "y \<in> set xs" "g a = g (if key y = k then f y else y)" "P (g a)"
        by auto
      show False
      proof (cases "key y = k")
        case True
        with y Cons.prems(3)[of y a] \<open>key a \<noteq> k\<close> show False by auto
      next
        case False
        with y Cons.prems(2) show False by auto
      qed
    qed
    ultimately show ?thesis using False by auto
  qed
qed

lemma distinct_filter_map_filter:
  "distinct (filter Q (map g xs)) \<Longrightarrow> distinct (filter Q (map g (filter P xs)))"
  by (induction xs) auto

end
