(* ===== verification/Json.thy ===== *)
theory Json
  imports Prelude "HOL-Library.Sublist"
begin

text \<open>
  The JavaScript values that the route handlers receive and inspect. Every
  handler starts with \<open>await request.json()\<close> and destructures the result; it then
  tests fields with JavaScript truthiness (\<open>!x\<close>), prints them into strings
  (template literals, \<open>String(x)\<close>) and reads numbers with
  \<open>Number.parseInt\<close>. This theory models exactly those operations of the language,
  so that the handlers' guards are the code's guards:
  \<^item> \<open>jval\<close>: a parsed JSON value (numbers are integers here: fractional JSON
    numbers are not modelled);
  \<^item> \<open>get_prop\<close>: property access on a parsed body (an absent key is JavaScript's
    \<open>undefined\<close>, the value \<open>None\<close>; for duplicate keys \<open>JSON.parse\<close> keeps the last);
  \<^item> \<open>destructure\<close>: \<open>request.json()\<close> followed by a destructuring pattern, which
    throws on malformed JSON and on \<open>null\<close>;
  \<^item> \<open>truthy\<close>, \<open>js_string\<close>, \<open>parse_int\<close>: JavaScript's \<open>ToBoolean\<close>,
    \<open>ToString\<close> and \<open>Number.parseInt\<close> with no radix.
\<close>

section \<open>Values\<close>

datatype jval =
    JNull
  | JBool bool
  | JNum int
  | JStr string
  | JArr "jval list"
  | JObj "(string \<times> jval) list"

text \<open>Exceptions the handlers' \<open>try\<close> blocks catch.\<close>

datatype js_error =
    SyntaxError string
  | TypeError string
  | PlainError string

text \<open>
  \<open>obj.key\<close> on a parsed body. Only objects have the keys the handlers read
  (field names such as \<open>email\<close> or \<open>quantity\<close>, none of which is a built-in
  property of strings or arrays).
\<close>

fun get_prop :: "jval \<Rightarrow> string \<Rightarrow> jval option" where
  "get_prop (JObj kvs) k = map_of (rev kvs) k"
| "get_prop _ k = None"

text \<open>
  \<open>const {...} = await request.json()\<close>: a body that is not JSON makes
  \<open>request.json()\<close> reject (\<open>None\<close> is such a body), and destructuring \<open>null\<close>
  throws a \<open>TypeError\<close>. Every other value destructures (primitives yield
  \<open>undefined\<close> fields).
\<close>

definition destructure :: "jval option \<Rightarrow> js_error + jval" where
  "destructure body =
     (case body of
        None \<Rightarrow> Inl (SyntaxError ''Unexpected token in JSON'')
      | Some JNull \<Rightarrow> Inl (TypeError ''Cannot destructure null'')
      | Some v \<Rightarrow> Inr v)"

section \<open>ToBoolean\<close>

text \<open>\<open>!x\<close> is \<open>\<not> truthy x\<close>; \<open>None\<close> is \<open>undefined\<close>.\<close>

fun truthy :: "jval option \<Rightarrow> bool" where
  "truthy None = False"
| "truthy (Some JNull) = False"
| "truthy (Some (JBool b)) = b"
| "truthy (Some (JNum n)) = (n \<noteq> 0)"
| "truthy (Some (JStr s)) = (s \<noteq> [])"
| "truthy (Some (JArr vs)) = True"
| "truthy (Some (JObj kvs)) = True"

section \<open>ToString\<close>

definition digit_char :: "nat \<Rightarrow> char" where
  "digit_char d = char_of (48 + d)"

text \<open>The decimal digits of a natural number, most significant first.\<close>

fun dec_digits :: "nat \<Rightarrow> nat list" where
  "dec_digits n = (if n < 10 then [n] else dec_digits (n div 10) @ [n mod 10])"

declare dec_digits.simps [simp del]

definition nat_dec :: "nat \<Rightarrow> string" where
  "nat_dec n = map digit_char (dec_digits n)"

definition int_dec :: "int \<Rightarrow> string" where
  "int_dec i = (if i < 0 then CHR ''-'' # nat_dec (nat (- i)) else nat_dec (nat i))"

fun join_comma :: "string list \<Rightarrow> string" where
  "join_comma [] = []"
| "join_comma [s] = s"
| "join_comma (s # ss) = s @ CHR '','' # join_comma ss"

text \<open>
  \<open>String(v)\<close>. An array prints as its elements joined by commas, with
  \<open>null\<close> elements empty (\<open>Array.prototype.join\<close>); an object prints as
  \<open>[object Object]\<close>. \<open>undefined\<close> (the value \<open>None\<close>) prints as \<open>undefined\<close>,
  which is what a template literal shows for a missing field.
\<close>

fun js_string :: "jval \<Rightarrow> string" where
  "js_string JNull = ''null''"
| "js_string (JBool b) = (if b then ''true'' else ''false'')"
| "js_string (JNum n) = int_dec n"
| "js_string (JStr s) = s"
| "js_string (JArr vs) = join_comma (map (\<lambda>v. if v = JNull then [] else js_string v) vs)"
| "js_string (JObj kvs) = ''[object Object]''"

definition js_string_opt :: "jval option \<Rightarrow> string" where
  "js_string_opt v = (case v of None \<Rightarrow> ''undefined'' | Some x \<Rightarrow> js_string x)"

section \<open>Number.parseInt\<close>

text \<open>
  \<open>Number.parseInt(x)\<close> with no radix (ECMAScript, \<open>parseInt\<close>): convert to a
  string, drop leading white space, read an optional sign, switch to radix 16 on a
  \<open>0x\<close> or \<open>0X\<close> prefix, then read the longest run of digits of the radix;
  no digit at all is \<open>NaN\<close> (here \<open>None\<close>). White space is the ASCII part of
  JavaScript's \<open>StrWhiteSpaceChar\<close> (tab, line feed, vertical tab, form feed,
  carriage return, space).
\<close>

definition is_js_space :: "char \<Rightarrow> bool" where
  "is_js_space c = (let n = (of_char c :: nat) in n = 32 \<or> (9 \<le> n \<and> n \<le> 13))"

definition radix_digit :: "nat \<Rightarrow> char \<Rightarrow> nat option" where
  "radix_digit r c =
     (let n = (of_char c :: nat);
          d = (if 48 \<le> n \<and> n \<le> 57 then Some (n - 48)
               else if 97 \<le> n \<and> n \<le> 122 then Some (n - 87)
               else if 65 \<le> n \<and> n \<le> 90 then Some (n - 55)
               else None)
      in case d of None \<Rightarrow> None | Some v \<Rightarrow> if v < r then Some v else None)"

fun digit_run :: "nat \<Rightarrow> string \<Rightarrow> nat list" where
  "digit_run r [] = []"
| "digit_run r (c # cs) =
     (case radix_digit r c of None \<Rightarrow> [] | Some d \<Rightarrow> d # digit_run r cs)"

definition digits_val :: "nat \<Rightarrow> nat list \<Rightarrow> nat" where
  "digits_val r ds = foldl (\<lambda>acc d. acc * r + d) 0 ds"

definition parse_int :: "string \<Rightarrow> int option" where
  "parse_int s =
     (let s1 = dropWhile is_js_space s;
          (sign, s2) = (case s1 of
                          c # rest \<Rightarrow> if c = CHR ''-'' then (-1 :: int, rest)
                                      else if c = CHR ''+'' then (1, rest) else (1, s1)
                        | [] \<Rightarrow> (1, s1));
          (r, s3) = (if take 2 s2 = ''0x'' \<or> take 2 s2 = ''0X'' then (16, drop 2 s2)
                     else (10, s2));
          ds = digit_run r s3
      in if ds = [] then None else Some (sign * int (digits_val r ds)))"

text \<open>\<open>Number.parseInt(v)\<close> on any value: \<open>ToString\<close> first.\<close>

definition js_parse_int :: "jval option \<Rightarrow> int option" where
  "js_parse_int v = parse_int (js_string_opt v)"

section \<open>Object spread\<close>

text \<open>
  The own enumerable properties that \<open>{ ...v }\<close> copies: an object's properties
  (for a key given twice the parsed object holds the last value, which \<open>rev\<close>
  puts first for \<open>map_of\<close>), a string's or an array's indices, and nothing for
  \<open>null\<close>, booleans and numbers.
\<close>

fun spread :: "jval \<Rightarrow> (string \<times> jval) list" where
  "spread (JObj kvs) = rev kvs"
| "spread (JStr s) = map (\<lambda>i. (nat_dec i, JStr [s ! i])) [0..<length s]"
| "spread (JArr vs) = map (\<lambda>i. (nat_dec i, vs ! i)) [0..<length vs]"
| "spread _ = []"

section \<open>JSON.stringify of an object literal\<close>

text \<open>
  \<open>JSON.stringify\<close> drops the properties whose value is \<open>undefined\<close>: the body
  that \<open>supabase-js\<close> sends for \<open>{ email, phone: x.customer_phone, name }\<close> has
  no \<open>phone\<close> column when the request had no \<open>customer_phone\<close>.
\<close>

fun defined_fields :: "(string \<times> jval option) list \<Rightarrow> (string \<times> jval) list" where
  "defined_fields [] = []"
| "defined_fields ((k, None) # fs) = defined_fields fs"
| "defined_fields ((k, Some v) # fs) = (k, v) # defined_fields fs"

section \<open>String.prototype.toLowerCase and includes\<close>

text \<open>
  Strings are UTF-8 byte lists. \<open>toLowerCase\<close> maps the Latin capitals: ASCII
  \<open>A\<close>--\<open>Z\<close> and the two-byte Latin-1 letters \<open>U+00C0\<close>--\<open>U+00DE\<close> except
  \<open>U+00D7\<close> (bytes \<open>C3 80\<close>--\<open>C3 9E\<close>, lowered by adding \<open>0x20\<close> to the second
  byte). Other scripts are left as they are: the model covers the Italian
  alphabet of the site, not the full Unicode case table.
\<close>

definition ascii_upper :: "char \<Rightarrow> bool" where
  "ascii_upper c = (65 \<le> (of_char c :: nat) \<and> (of_char c :: nat) \<le> 90)"

definition latin1_upper_tail :: "char \<Rightarrow> bool" where
  "latin1_upper_tail c = (0x80 \<le> (of_char c :: nat) \<and> (of_char c :: nat) \<le> 0x9E \<and> c \<noteq> CHR 0x97)"

definition shift_case :: "char \<Rightarrow> char" where
  "shift_case c = char_of (of_char c + (32::nat))"

definition lower_ascii :: "char \<Rightarrow> char" where
  "lower_ascii c = (if ascii_upper c then shift_case c else c)"

fun js_lower :: "string \<Rightarrow> string" where
  "js_lower [] = []"
| "js_lower (c # d # cs) =
     (if c = CHR 0xC3 \<and> latin1_upper_tail d then c # shift_case d # js_lower cs
      else lower_ascii c # js_lower (d # cs))"
| "js_lower [c] = [lower_ascii c]"

text \<open>\<open>s.includes(t)\<close>: \<open>t\<close> occurs in \<open>s\<close> at some position.\<close>

fun str_includes :: "string \<Rightarrow> string \<Rightarrow> bool" where
  "str_includes [] t = (t = [])"
| "str_includes (c # s) t = (take (length t) (c # s) = t \<or> str_includes s t)"

section \<open>Properties of the conversions\<close>

subsection \<open>Request bodies\<close>

lemma destructure_JObj [simp]: "destructure (Some (JObj kvs)) = Inr (JObj kvs)"
  by (simp add: destructure_def)

lemma get_prop_Some_JObj: "get_prop v k = Some x \<Longrightarrow> \<exists>kvs. v = JObj kvs"
  by (cases v) auto

lemma js_string_opt_JStr [simp]: "js_string_opt (Some (JStr s)) = s"
  by (simp add: js_string_opt_def)

lemma map_of_defined_fields:
  "distinct (map fst fs) \<Longrightarrow>
   map_of (defined_fields fs) k = (case map_of fs k of Some (Some v) \<Rightarrow> Some v | _ \<Rightarrow> None)"
  by (induction fs rule: defined_fields.induct) (auto simp: map_of_eq_None_iff [THEN iffD2])

lemma truthy_not_null: "truthy (Some x) \<Longrightarrow> x \<noteq> JNull"
  by auto

lemma destructure_Some_Inr: "destructure (Some v) = Inr v' \<Longrightarrow> v' = v"
  by (cases v) (auto simp: destructure_def)

subsection \<open>Digits\<close>

lemma of_char_digit_char: "d < 10 \<Longrightarrow> (of_char (digit_char d) :: nat) = 48 + d"
  by (simp add: digit_char_def)

lemma digit_char_eq_iff:
  assumes "d < 10" shows "digit_char d = c \<longleftrightarrow> (of_char c :: nat) = 48 + d"
  using assms by (auto simp: digit_char_def char_of_eq_iff take_bit_eq_mod)

lemma dec_digits_lt: "d \<in> set (dec_digits n) \<Longrightarrow> d < 10"
proof (induction n rule: dec_digits.induct)
  case (1 n)
  then show ?case by (subst (asm) dec_digits.simps) (auto split: if_splits)
qed

lemma dec_digits_not_Nil: "dec_digits n \<noteq> []"
  by (subst dec_digits.simps) simp

lemma digits_val_snoc: "digits_val r (ds @ [d]) = digits_val r ds * r + d"
  by (simp add: digits_val_def)

lemma digits_val_dec_digits: "digits_val 10 (dec_digits n) = n"
proof (induction n rule: dec_digits.induct)
  case (1 n)
  show ?case
  proof (cases "n < 10")
    case True
    then show ?thesis by (subst dec_digits.simps) (simp add: digits_val_def)
  next
    case False
    with "1.IH" show ?thesis by (subst dec_digits.simps) (simp add: digits_val_snoc)
  qed
qed

lemma radix_digit_digit_char: "d < 10 \<Longrightarrow> radix_digit 10 (digit_char d) = Some d"
  by (simp add: radix_digit_def of_char_digit_char)

lemma digit_run_digit_chars:
  "\<forall>d\<in>set ds. d < 10 \<Longrightarrow> digit_run 10 (map digit_char ds) = ds"
  by (induction ds) (auto simp: radix_digit_digit_char)

lemma nat_dec_char: "c \<in> set (nat_dec n) \<Longrightarrow> \<exists>d<10. c = digit_char d"
  by (auto simp: nat_dec_def dest: dec_digits_lt)

lemma digit_char_not_special:
  assumes "d < 10"
  shows "\<not> is_js_space (digit_char d)" "digit_char d \<noteq> CHR ''-''" "digit_char d \<noteq> CHR ''+''"
    "digit_char d \<noteq> CHR ''x''" "digit_char d \<noteq> CHR ''X''"
  using assms by (simp_all add: is_js_space_def of_char_digit_char digit_char_eq_iff)

lemma nat_dec_Cons: "\<exists>c cs. nat_dec n = c # cs \<and> (\<exists>d<10. c = digit_char d)"
  using dec_digits_not_Nil [of n] dec_digits_lt [of _ n]
  by (cases "dec_digits n") (auto simp: nat_dec_def)

lemma take2_hex_in_set:
  "take 2 s = [a, b] \<Longrightarrow> b \<in> set s"
  by (metis in_set_takeD list.set_intros(1) list.set_intros(2))

subsection \<open>Number.parseInt reads back what String prints\<close>

lemma parse_int_unsigned:
  assumes ne: "s = c # cs" and c: "\<not> is_js_space c" "c \<noteq> CHR ''-''" "c \<noteq> CHR ''+''"
    and nohex: "\<not> (take 2 s = ''0x'' \<or> take 2 s = ''0X'')"
  shows "parse_int s = (if digit_run 10 s = [] then None else Some (int (digits_val 10 (digit_run 10 s))))"
proof -
  have d: "dropWhile is_js_space s = s" using ne c by simp
  have sg: "(case s of c # rest \<Rightarrow> if c = CHR ''-'' then (-1 :: int, rest)
              else if c = CHR ''+'' then (1, rest) else (1, s) | [] \<Rightarrow> (1, s)) = (1, s)"
    using ne c by simp
  show ?thesis
    by (simp only: parse_int_def Let_def d sg nohex if_False prod.case) simp
qed

lemma parse_int_nat_dec:
  "parse_int (nat_dec n) = Some (int n)"
proof -
  obtain c cs where nc: "nat_dec n = c # cs" and cd: "\<exists>d<10. c = digit_char d"
    using nat_dec_Cons by blast
  have nsp: "\<not> is_js_space c" "c \<noteq> CHR ''-''" "c \<noteq> CHR ''+''"
    using cd digit_char_not_special by auto
  have nohex: "\<not> (take 2 (nat_dec n) = ''0x'' \<or> take 2 (nat_dec n) = ''0X'')"
    using take2_hex_in_set [of "nat_dec n"] nat_dec_char [of _ n] digit_char_not_special
    by fastforce
  have run: "digit_run 10 (nat_dec n) = dec_digits n"
    by (simp add: nat_dec_def digit_run_digit_chars dec_digits_lt)
  show ?thesis
    using parse_int_unsigned [OF nc nsp nohex] run dec_digits_not_Nil [of n]
    by (simp add: digits_val_dec_digits)
qed

lemma parse_int_int_dec: "parse_int (int_dec i) = Some i"
proof (cases "i < 0")
  case False
  then show ?thesis by (simp add: int_dec_def parse_int_nat_dec)
next
  case True
  let ?s = "nat_dec (nat (- i))"
  obtain c cs where nc: "?s = c # cs" and cd: "\<exists>d<10. c = digit_char d"
    using nat_dec_Cons by blast
  have nsp: "\<not> is_js_space c" "c \<noteq> CHR ''-''" "c \<noteq> CHR ''+''"
    using cd digit_char_not_special by auto
  have nohex: "\<not> (take 2 ?s = ''0x'' \<or> take 2 ?s = ''0X'')"
    using take2_hex_in_set [of ?s] nat_dec_char [of _ "nat (- i)"] digit_char_not_special
    by fastforce
  have run: "digit_run 10 ?s = dec_digits (nat (- i))"
    by (simp add: nat_dec_def digit_run_digit_chars dec_digits_lt)
  have sp: "\<not> is_js_space (CHR ''-'')" by (simp add: is_js_space_def)
  have "parse_int (CHR ''-'' # ?s) = Some (- int (nat (- i)))"
    using nohex run dec_digits_not_Nil [of "nat (- i)"] sp
    by (simp add: parse_int_def digits_val_dec_digits)
  with True show ?thesis by (simp add: int_dec_def)
qed

lemma js_parse_int_JNum: "js_parse_int (Some (JNum n)) = Some n"
  by (simp add: js_parse_int_def js_string_opt_def parse_int_int_dec)
lemma take_length_prefix: "take (length t) s = t \<longleftrightarrow> prefix t s"
  by (metis append_eq_conv_conj prefix_def)

lemma str_includes_sublist: "str_includes s t \<longleftrightarrow> sublist t s"
  by (induction s) (auto simp: take_length_prefix sublist_Cons_right)

lemma char_eq_of_char: "c = d \<longleftrightarrow> (of_char c :: nat) = of_char d"
  by (simp add: of_char_eq_iff)

lemma lower_ascii_plain: "\<not> ascii_upper (lower_ascii c) \<and> (lower_ascii c = CHR 0xC3 \<longleftrightarrow> c = CHR 0xC3)
    \<and> (\<not> latin1_upper_tail c \<longrightarrow> \<not> latin1_upper_tail (lower_ascii c))"
  by (auto simp: lower_ascii_def ascii_upper_def latin1_upper_tail_def shift_case_def char_eq_of_char)

lemma lower_ascii_idem: "lower_ascii (lower_ascii c) = lower_ascii c"
  using lower_ascii_plain [of c] unfolding lower_ascii_def [of "lower_ascii c"] by simp

lemma shift_case_latin1:
  "latin1_upper_tail c \<Longrightarrow> \<not> latin1_upper_tail (shift_case c) \<and> \<not> ascii_upper (shift_case c) \<and> shift_case c \<noteq> CHR 0xC3"
  by (auto simp: latin1_upper_tail_def ascii_upper_def shift_case_def char_eq_of_char)

lemma js_lower_Cons_plain:
  "\<not> ascii_upper c \<Longrightarrow> c \<noteq> CHR 0xC3 \<Longrightarrow> js_lower (c # s) = c # js_lower s"
  by (cases s) (auto simp: lower_ascii_def)

lemma js_lower_Cons_hd: "\<exists>r. js_lower (c # s) = lower_ascii c # r"
  by (cases s) (auto simp: lower_ascii_def ascii_upper_def)

lemma js_lower_C3_plain:
  "\<not> latin1_upper_tail d \<Longrightarrow> js_lower (CHR 0xC3 # d # s) = CHR 0xC3 # js_lower (d # s)"
  by (simp add: lower_ascii_def ascii_upper_def)

lemma js_lower_length: "length (js_lower s) = length s"
  by (induction s rule: js_lower.induct) auto

lemma js_lower_idem: "js_lower (js_lower s) = js_lower s"
proof (induction s rule: js_lower.induct)
  case 1
  then show ?case by simp
next
  case (2 c d cs)
  show ?case
  proof (cases "c = CHR 0xC3 \<and> latin1_upper_tail d")
    case True
    with 2 show ?thesis
      by (simp add: shift_case_latin1 js_lower_Cons_plain js_lower_C3_plain lower_ascii_plain)
  next
    case False
    note IH = "2.IH"(2)[OF False]
    show ?thesis
    proof (cases "c = CHR 0xC3")
      case True
      with False have nt: "\<not> latin1_upper_tail d" by simp
      obtain r where r: "js_lower (d # cs) = lower_ascii d # r" using js_lower_Cons_hd by blast
      have "js_lower (CHR 0xC3 # js_lower (d # cs)) = CHR 0xC3 # js_lower (js_lower (d # cs))"
        unfolding r by (rule js_lower_C3_plain) (simp add: lower_ascii_plain nt)
      with True nt IH show ?thesis by (simp add: lower_ascii_def ascii_upper_def)
    next
      case c: False
      then show ?thesis using False IH lower_ascii_plain [of c]
        by (simp add: js_lower_Cons_plain)
    qed
  qed
next
  case (3 c)
  then show ?case by (simp add: lower_ascii_idem)
qed

end
