(* ===== verification/Crypto.thy ===== *)
theory Crypto
  imports Json
begin

text \<open>
  The two libraries \<open>src/lib/auth.ts\<close> and the settings routes call: \<open>bcryptjs\<close>
  (\<open>hash\<close>, \<open>compare\<close>) and \<open>jsonwebtoken\<close> (\<open>sign\<close>, \<open>verify\<close>). Their code is
  not part of the repository; they are modelled from their documented behaviour,
  with the cryptography idealised:
  \<^item> a bcrypt hash records its cost, its salt and the password's key, which is the
    first 72 bytes of the password (bcrypt ignores the rest); \<open>compare\<close> succeeds
    exactly when the keys agree (a collision-free hash); a stored value that is not a
    bcrypt hash never matches; a password that is not a string makes both functions
    throw (\<open>Illegal arguments\<close>);
  \<^item> a JSON web token carries its claims and an HMAC over them; the HMAC is a
    constructor of the secret and the claims (an unforgeable signature); \<open>verify\<close>
    checks the signature and rejects a token once the clock reaches \<open>exp\<close>
    (\<open>jsonwebtoken\<close> rejects when \<open>now >= exp\<close>). \<open>expiresIn: "24h"\<close> sets
    \<open>exp = iat + 86400\<close>.
\<close>

section \<open>bcryptjs\<close>

datatype pw_hash =
    BHash nat string string   \<comment> \<open>cost, salt, 72-byte key\<close>
  | BRaw string               \<comment> \<open>a stored value that is not a bcrypt hash\<close>

definition bcrypt_key_bytes :: nat where
  "bcrypt_key_bytes = 72"

text \<open>\<open>bcrypt.hash(password, rounds)\<close>, with the salt it draws given explicitly.\<close>

definition bcrypt_hash :: "jval option \<Rightarrow> nat \<Rightarrow> string \<Rightarrow> js_error + pw_hash" where
  "bcrypt_hash pw rounds salt =
     (case pw of
        Some (JStr s) \<Rightarrow> Inr (BHash rounds salt (take bcrypt_key_bytes s))
      | _ \<Rightarrow> Inl (TypeError ''Illegal arguments''))"

text \<open>\<open>bcrypt.compare(password, hash)\<close>.\<close>

definition bcrypt_compare :: "jval option \<Rightarrow> pw_hash \<Rightarrow> js_error + bool" where
  "bcrypt_compare pw h =
     (case pw of
        Some (JStr s) \<Rightarrow>
          Inr (case h of BHash r salt k \<Rightarrow> take bcrypt_key_bytes s = k | BRaw _ \<Rightarrow> False)
      | _ \<Rightarrow> Inl (TypeError ''Illegal arguments''))"

section \<open>jsonwebtoken\<close>

record claims =
  adminId :: row_id
  claim_email :: string
  iat :: timestamp
  exp :: timestamp

datatype signature = HMAC string claims

datatype token = Token claims signature

definition token_claims :: "token \<Rightarrow> claims" where
  "token_claims t = (case t of Token c s \<Rightarrow> c)"

text \<open>\<open>"24h"\<close> in seconds.\<close>

definition token_lifetime :: nat where
  "token_lifetime = 24 * 60 * 60"

text \<open>\<open>jwt.sign({ adminId, email }, secret, { expiresIn: "24h" })\<close> at time \<open>now\<close>.\<close>

definition jwt_sign :: "row_id \<Rightarrow> string \<Rightarrow> string \<Rightarrow> timestamp \<Rightarrow> token" where
  "jwt_sign aid email secret now =
     (let c = \<lparr>adminId = aid, claim_email = email, iat = now, exp = now + token_lifetime\<rparr>
      in Token c (HMAC secret c))"

text \<open>\<open>jwt.verify(token, secret)\<close> at time \<open>now\<close>: the claims, or \<open>None\<close> where it throws.\<close>

definition jwt_verify :: "token \<Rightarrow> string \<Rightarrow> timestamp \<Rightarrow> claims option" where
  "jwt_verify t secret now =
     (case t of Token c s \<Rightarrow>
        if s = HMAC secret c \<and> now < exp c then Some c else None)"

section \<open>Properties\<close>

lemma bcrypt_hash_Inr_iff:
  "bcrypt_hash pw r salt = Inr h \<longleftrightarrow>
     (\<exists>s. pw = Some (JStr s) \<and> h = BHash r salt (take bcrypt_key_bytes s))"
  by (auto simp: bcrypt_hash_def split: option.splits jval.splits)

lemma bcrypt_compare_string:
  "bcrypt_compare (Some (JStr s)) h =
     Inr (case h of BHash r salt k \<Rightarrow> take bcrypt_key_bytes s = k | BRaw _ \<Rightarrow> False)"
  by (simp add: bcrypt_compare_def)

lemma bcrypt_compare_Inr:
  "bcrypt_compare pw h = Inr b \<Longrightarrow> \<exists>s. pw = Some (JStr s)"
  by (auto simp: bcrypt_compare_def split: option.splits jval.splits)

text \<open>A hash accepts exactly the passwords that share its password's first 72 bytes.\<close>

lemma bcrypt_compare_hash:
  assumes "bcrypt_hash (Some (JStr pw)) r salt = Inr h"
  shows "bcrypt_compare (Some (JStr pw')) h =
           Inr (take bcrypt_key_bytes pw' = take bcrypt_key_bytes pw)"
  using assms by (auto simp: bcrypt_hash_def bcrypt_compare_def)

lemma jwt_verify_sign:
  "jwt_verify (jwt_sign aid email secret now) secret' t =
     (if secret' = secret \<and> t < now + token_lifetime
      then Some \<lparr>adminId = aid, claim_email = email, iat = now, exp = now + token_lifetime\<rparr>
      else None)"
  by (auto simp: jwt_verify_def jwt_sign_def Let_def)

lemma jwt_verify_Some:
  "jwt_verify t secret now = Some c \<Longrightarrow>
     t = Token c (HMAC secret c) \<and> now < exp c"
  by (auto simp: jwt_verify_def split: token.splits if_splits)

end
