(* ===== verification/Db.thy ===== *)
theory Db
  imports Crypto
begin

text \<open>
  The Supabase (PostgreSQL) database the handlers share, and the request
  environment. The client library \<open>@/lib/supabase/server\<close> is not part of the
  repository; the tables, and the query forms the handlers use, are modelled from
  the calls the handlers make:
  \<^item> \<open>env\<close>: what a request sees of the world besides the database: the clock,
    the salt \<open>bcrypt.hash\<close> draws, the \<open>JWT_SECRET\<close> and \<open>SMTP_USER\<close>
    variables, whether the mail transport delivers, the formatted current date, and
    which database calls fail (\<open>{ error }\<close> results);
  \<^item> \<open>db\<close>: the five tables, each a list of rows in insertion order, and the
    counter from which generated keys are drawn;
  \<^item> \<open>single\<close>: \<open>.single()\<close>, an error unless exactly one row matches;
  \<^item> \<open>insert_order\<close>, \<open>insert_message\<close>: \<open>.insert([row]).select().single()\<close>;
  \<^item> \<open>upsert_client\<close>: \<open>.upsert(row, { onConflict: "email" })\<close>, which needs a
    unique constraint on \<open>clients.email\<close> and so implies one;
  \<^item> \<open>db_inv\<close>: keys below the counter and distinct, client e-mails distinct.
  Columns that hold values from a request store the JSON value itself; the
  database's own coercions (a string into an integer column) are not modelled.
\<close>

section \<open>Calls, errors and the request environment\<close>

datatype db_call =
    SelectAdmin | UpdateAdmin
  | SelectProduct | SelectProducts
  | InsertOrder | SelectOrders | UpdateOrder | DeleteOrder
  | InsertMessage | SelectMessages | UpdateMessage | DeleteMessage
  | UpsertClient | InsertClient | SelectClients | UpdateClient | DeleteClient

datatype db_error =
    NoRows
  | MultipleRows
  | UniqueViolation
  | UnknownColumn string
  | CallFailed db_call

record env =
  now :: timestamp
  failing :: "db_call set"
  salt :: string
  jwt_secret_var :: "string option"
  smtp_user :: "string option"
  mail_delivers :: bool
  date_text :: string

definition guard_call :: "env \<Rightarrow> db_call \<Rightarrow> db_error + 'a \<Rightarrow> db_error + 'a" where
  "guard_call e c r = (if c \<in> failing e then Inl (CallFailed c) else r)"

section \<open>Tables\<close>

record admin_user =
  a_id :: row_id
  a_email :: string
  password_hash :: pw_hash
  notification_email :: "string option"
  a_created :: timestamp
  a_updated :: timestamp

record product =
  p_id :: row_id
  p_name :: string
  sizes :: "string list"

record order_row =
  o_id :: row_id
  customer_name :: jval
  customer_email :: jval
  customer_phone :: jval
  product_name :: jval
  product_size :: jval
  quantity :: jval
  o_status :: jval
  o_notes :: jval
  o_created :: timestamp
  o_updated :: timestamp

record message_row =
  m_id :: row_id
  m_name :: jval
  m_email :: jval
  request_type :: jval
  m_message :: jval
  m_status :: jval
  m_created :: timestamp
  m_updated :: timestamp

record client =
  c_id :: row_id
  c_email :: jval
  c_phone :: jval
  c_name :: jval
  c_created :: timestamp
  c_updated :: timestamp

record db =
  admin_users :: "admin_user list"
  products :: "product list"
  orders :: "order_row list"
  messages :: "message_row list"
  clients :: "client list"
  next_id :: row_id

section \<open>Queries\<close>

text \<open>\<open>.single()\<close> on the rows a query selected.\<close>

fun single :: "'a list \<Rightarrow> db_error + 'a" where
  "single [] = Inl NoRows"
| "single [x] = Inr x"
| "single (x # y # zs) = Inl MultipleRows"

text \<open>\<open>.select(...).eq(col, v).single()\<close>: a filter, then \<open>.single()\<close>.\<close>

definition select_single :: "env \<Rightarrow> db_call \<Rightarrow> ('a \<Rightarrow> bool) \<Rightarrow> 'a list \<Rightarrow> db_error + 'a" where
  "select_single e c P rows = guard_call e c (single (filter P rows))"

section \<open>Inserts\<close>

text \<open>
  \<open>.insert([row]).select().single()\<close>: the database assigns the key and the
  \<open>created_at\<close>/\<open>updated_at\<close> defaults and returns the stored row.
\<close>

definition insert_order :: "env \<Rightarrow> order_row \<Rightarrow> db \<Rightarrow> db_error + (order_row \<times> db)" where
  "insert_order e r d = guard_call e InsertOrder
     (let row = r\<lparr>o_id := next_id d, o_created := now e, o_updated := now e\<rparr>
      in Inr (row, d\<lparr>orders := orders d @ [row], next_id := Suc (next_id d)\<rparr>))"

definition insert_message :: "env \<Rightarrow> message_row \<Rightarrow> db \<Rightarrow> db_error + (message_row \<times> db)" where
  "insert_message e r d = guard_call e InsertMessage
     (let row = r\<lparr>m_id := next_id d, m_created := now e, m_updated := now e\<rparr>
      in Inr (row, d\<lparr>messages := messages d @ [row], next_id := Suc (next_id d)\<rparr>))"

section \<open>Upsert of a client\<close>

text \<open>
  The columns of an upsert are the properties of the object sent (after
  \<open>JSON.stringify\<close> dropped the undefined ones). On a conflict on \<open>email\<close> the
  existing row takes the new values of exactly those columns
  (\<open>ON CONFLICT (email) DO UPDATE SET c = EXCLUDED.c\<close>); otherwise a row is
  inserted, with \<open>NULL\<close> in the columns not sent. \<open>NULL\<close> e-mails never
  conflict.
\<close>

definition col_or :: "(string \<times> jval) list \<Rightarrow> string \<Rightarrow> jval \<Rightarrow> jval" where
  "col_or cols k dflt = (case map_of cols k of Some v \<Rightarrow> v | None \<Rightarrow> dflt)"

definition merge_client :: "(string \<times> jval) list \<Rightarrow> client \<Rightarrow> client" where
  "merge_client cols c =
     c\<lparr>c_email := col_or cols ''email'' (c_email c),
       c_phone := col_or cols ''phone'' (c_phone c),
       c_name := col_or cols ''name'' (c_name c)\<rparr>"

definition new_client :: "env \<Rightarrow> row_id \<Rightarrow> (string \<times> jval) list \<Rightarrow> client" where
  "new_client e i cols =
     \<lparr>c_id = i, c_email = col_or cols ''email'' JNull, c_phone = col_or cols ''phone'' JNull,
      c_name = col_or cols ''name'' JNull, c_created = now e, c_updated = now e\<rparr>"

definition upsert_client :: "env \<Rightarrow> (string \<times> jval) list \<Rightarrow> db \<Rightarrow> db_error + db" where
  "upsert_client e cols d = guard_call e UpsertClient
     (let em = col_or cols ''email'' JNull
      in if em \<noteq> JNull \<and> (\<exists>c\<in>set (clients d). c_email c = em)
         then Inr (d\<lparr>clients := map (\<lambda>c. if c_email c = em then merge_client cols c else c)
                                   (clients d)\<rparr>)
         else Inr (d\<lparr>clients := clients d @ [new_client e (next_id d) cols],
                     next_id := Suc (next_id d)\<rparr>))"

text \<open>
  A best-effort call whose result the handler ignores (\<open>await supabase...upsert()\<close>
  with no check of \<open>error\<close>): the new state if the call succeeded, else the old one.
\<close>

definition ignore_error :: "db \<Rightarrow> db_error + db \<Rightarrow> db" where
  "ignore_error d r = (case r of Inl _ \<Rightarrow> d | Inr d' \<Rightarrow> d')"

section \<open>The table invariant\<close>

definition unique_emails :: "client list \<Rightarrow> bool" where
  "unique_emails cs = distinct (filter (\<lambda>m. m \<noteq> JNull) (map c_email cs))"

definition keys_ok :: "row_id list \<Rightarrow> row_id \<Rightarrow> bool" where
  "keys_ok ks n = (distinct ks \<and> list_all (\<lambda>k. k < n) ks)"

definition db_inv :: "db \<Rightarrow> bool" where
  "db_inv d =
     (keys_ok (map o_id (orders d)) (next_id d)
      \<and> keys_ok (map m_id (messages d)) (next_id d)
      \<and> keys_ok (map c_id (clients d)) (next_id d)
      \<and> unique_emails (clients d))"

section \<open>Sample data\<close>

text \<open>
  A small concrete database and request environment on which the witnesses of the
  development evaluate the handlers: one admin row, one product with two sizes, no
  orders, messages or clients.
\<close>

abbreviation demo_env :: env where
  "demo_env \<equiv> \<lparr>now = 1000, failing = {}, salt = ''salt2'', jwt_secret_var = Some ''k3y'',
                smtp_user = Some ''shop@x.com'', mail_delivers = True, date_text = ''1/1/2026, 00:16:40''\<rparr>"

abbreviation demo_admin :: admin_user where
  "demo_admin \<equiv> \<lparr>a_id = 1, a_email = ''admin@x.com'', password_hash = BHash 10 ''salt1'' ''right1'',
                  notification_email = Some ''admin@x.com'', a_created = 0, a_updated = 0\<rparr>"

abbreviation demo_product :: product where
  "demo_product \<equiv> \<lparr>p_id = 2, p_name = ''Olio Extra Vergine'', sizes = [''500ml'', ''1L'']\<rparr>"

abbreviation demo_db :: db where
  "demo_db \<equiv> \<lparr>admin_users = [demo_admin], products = [demo_product], orders = [],
               messages = [], clients = [], next_id = 3\<rparr>"

section \<open>Properties of the queries\<close>

lemma single_Inr_iff: "single xs = Inr x \<longleftrightarrow> xs = [x]"
  by (cases xs rule: single.cases) auto

lemma select_single_Inr_iff:
  "select_single e c P rows = Inr x \<longleftrightarrow> c \<notin> failing e \<and> filter P rows = [x]"
  by (simp add: select_single_def guard_call_def single_Inr_iff)

lemma guard_call_Inr_iff:
  "guard_call e c r = Inr x \<longleftrightarrow> c \<notin> failing e \<and> r = Inr x"
  by (simp add: guard_call_def)

lemma keys_ok_snoc: "keys_ok ks n \<Longrightarrow> keys_ok (ks @ [n]) (Suc n)"
  by (auto simp: keys_ok_def list_all_iff)

lemma keys_ok_Suc: "keys_ok ks n \<Longrightarrow> keys_ok ks (Suc n)"
  by (auto simp: keys_ok_def list_all_iff)

lemma insert_order_Inr:
  "insert_order e r d = Inr (row, d') \<longleftrightarrow>
     InsertOrder \<notin> failing e \<and> row = r\<lparr>o_id := next_id d, o_created := now e, o_updated := now e\<rparr>
     \<and> d' = d\<lparr>orders := orders d @ [row], next_id := Suc (next_id d)\<rparr>"
  by (auto simp: insert_order_def guard_call_def Let_def)

lemma insert_message_Inr:
  "insert_message e r d = Inr (row, d') \<longleftrightarrow>
     InsertMessage \<notin> failing e \<and> row = r\<lparr>m_id := next_id d, m_created := now e, m_updated := now e\<rparr>
     \<and> d' = d\<lparr>messages := messages d @ [row], next_id := Suc (next_id d)\<rparr>"
  by (auto simp: insert_message_def guard_call_def Let_def)

lemma insert_order_db_inv [db_inv_intros]:
  "insert_order e r d = Inr (row, d') \<Longrightarrow> db_inv d \<Longrightarrow> db_inv d'"
  by (auto simp: insert_order_Inr db_inv_def keys_ok_snoc keys_ok_Suc)

lemma insert_message_db_inv [db_inv_intros]:
  "insert_message e r d = Inr (row, d') \<Longrightarrow> db_inv d \<Longrightarrow> db_inv d'"
  by (auto simp: insert_message_Inr db_inv_def keys_ok_snoc keys_ok_Suc)

subsection \<open>The upsert keeps one row per e-mail\<close>

lemma merge_client_email:
  "map_of cols ''email'' = Some em \<Longrightarrow> c_email (merge_client cols c) = em"
  by (simp add: merge_client_def col_or_def)

lemma merge_client_id: "c_id (merge_client cols c) = c_id c"
  by (simp add: merge_client_def)

lemma col_or_email_not_null:
  "col_or cols ''email'' JNull \<noteq> JNull \<Longrightarrow> map_of cols ''email'' = Some (col_or cols ''email'' JNull)"
  by (auto simp: col_or_def split: option.splits)

lemma upsert_client_cases:
  assumes "upsert_client e cols d = Inr d'"
  obtains (merge) "col_or cols ''email'' JNull \<noteq> JNull"
      "\<exists>c\<in>set (clients d). c_email c = col_or cols ''email'' JNull"
      "d' = d\<lparr>clients := map (\<lambda>c. if c_email c = col_or cols ''email'' JNull
                                   then merge_client cols c else c) (clients d)\<rparr>"
  | (insert) "col_or cols ''email'' JNull = JNull
        \<or> (\<forall>c\<in>set (clients d). c_email c \<noteq> col_or cols ''email'' JNull)"
      "d' = d\<lparr>clients := clients d @ [new_client e (next_id d) cols], next_id := Suc (next_id d)\<rparr>"
  using assms by (auto simp: upsert_client_def guard_call_def Let_def split: if_splits)

lemma map_c_email_merge:
  assumes "map_of cols ''email'' = Some em"
  shows "map (c_email \<circ> (\<lambda>c. if c_email c = em then merge_client cols c else c)) cs = map c_email cs"
  using assms by (induction cs) (auto simp: merge_client_email)

lemma map_c_id_merge:
  "map (c_id \<circ> (\<lambda>c. if P c then merge_client cols c else c)) cs = map c_id cs"
  by (induction cs) (auto simp: merge_client_id)

lemma unique_emails_snoc:
  assumes "unique_emails cs" and "c_email c = JNull \<or> (\<forall>x\<in>set cs. c_email x \<noteq> c_email c)"
  shows "unique_emails (cs @ [c])"
  using assms by (auto simp: unique_emails_def)

lemma upsert_client_db_inv [db_inv_intros]:
  assumes "upsert_client e cols d = Inr d'" and "db_inv d"
  shows "db_inv d'"
  using assms(1)
proof (cases rule: upsert_client_cases)
  case merge
  then show ?thesis
    using assms(2) col_or_email_not_null [OF merge(1)]
    by (simp add: db_inv_def unique_emails_def map_c_email_merge map_c_id_merge)
next
  case insert
  have "unique_emails (clients d @ [new_client e (next_id d) cols])"
    using assms(2) insert(1) by (intro unique_emails_snoc) (auto simp: db_inv_def new_client_def)
  with insert(2) assms(2) show ?thesis
    by (auto simp: db_inv_def keys_ok_snoc keys_ok_Suc new_client_def)
qed

lemma length_filter_unique_email:
  assumes "unique_emails cs" and "em \<noteq> JNull"
  shows "length (filter (\<lambda>c. c_email c = em) cs) \<le> 1"
proof -
  have "length (filter (\<lambda>c. c_email c = em) cs) = count_list (filter (\<lambda>m. m \<noteq> JNull) (map c_email cs)) em"
    using assms(2) by (induction cs) auto
  also have "\<dots> \<le> 1"
    using assms(1) unfolding unique_emails_def by (rule distinct_count_list_le)
  finally show ?thesis .
qed

lemma col_or_defined_fields:
  "distinct (map fst fs) \<Longrightarrow>
   col_or (defined_fields fs) k dflt = (case map_of fs k of Some (Some v) \<Rightarrow> v | _ \<Rightarrow> dflt)"
  by (simp add: col_or_def map_of_defined_fields split: option.splits)

lemma upsert_client_succeeds:
  "UpsertClient \<notin> failing e \<Longrightarrow> \<exists>d'. upsert_client e cols d = Inr d'"
  by (simp add: upsert_client_def guard_call_def Let_def)

lemma ignore_error_db_inv:
  "db_inv d \<Longrightarrow> (\<And>d'. r = Inr d' \<Longrightarrow> db_inv d') \<Longrightarrow> db_inv (ignore_error d r)"
  by (auto simp: ignore_error_def split: sum.splits)

text \<open>
  After an upsert with a non-null e-mail there is exactly one row with that e-mail:
  the existing one, merged with the columns sent, or the new one.
\<close>

lemma upsert_client_email_rows:
  assumes "upsert_client e cols d = Inr d'" "unique_emails (clients d)"
    and "map_of cols ''email'' = Some em" "em \<noteq> JNull"
  shows "filter (\<lambda>c. c_email c = em) (clients d') =
           (case filter (\<lambda>c. c_email c = em) (clients d) of
              [] \<Rightarrow> [new_client e (next_id d) cols]
            | c0 # _ \<Rightarrow> [merge_client cols c0])"
proof -
  have em: "col_or cols ''email'' JNull = em" using assms(3) by (simp add: col_or_def)
  from assms(1) show ?thesis
  proof (cases rule: upsert_client_cases)
    case merge
    then obtain c0 where c0: "c0 \<in> set (clients d)" "c_email c0 = em" by (auto simp: em)
    have one: "filter (\<lambda>c. c_email c = em) (clients d) = [c0]"
      using length_filter_unique_email [OF assms(2,4)] c0 by (rule filter_le1_member)
    have "filter (\<lambda>c. c_email c = em)
            (map (\<lambda>c. if c_email c = em then merge_client cols c else c) (clients d))
          = map (merge_client cols) (filter (\<lambda>c. c_email c = em) (clients d))"
      by (rule filter_map_if_same) (simp add: merge_client_email [OF assms(3)])
    with merge(3) one em show ?thesis by simp
  next
    case insert
    then have none: "filter (\<lambda>c. c_email c = em) (clients d) = []"
      using assms(4) by (auto simp: em map_filter_eq_Nil_iff)
    have "c_email (new_client e (next_id d) cols) = em" by (simp add: new_client_def em)
    with insert(2) none show ?thesis by simp
  qed
qed

end
