(* ===== verification/Http.thy ===== *)
theory Http
  imports Db
begin

text \<open>
  What a handler returns: \<open>NextResponse.json(body, { status })\<close>, the status
  defaulting to 200. Each body constructor is one JSON shape the handlers build;
  its arguments are the shape's fields in the order the code writes them.
\<close>

text \<open>The UTF-8 bytes of the one non-ASCII letter the handlers' messages contain.\<close>

definition e_grave :: string where
  "e_grave = [CHR 0xC3, CHR 0xA8]"

text \<open>The public fields of the admin row: \<open>{ id, email, notification_email }\<close>.\<close>

datatype admin_pub = AdminPub row_id string "string option"

definition admin_pub_of :: "admin_user \<Rightarrow> admin_pub" where
  "admin_pub_of a = AdminPub (a_id a) (a_email a) (notification_email a)"

datatype body =
    BError string                                \<comment> \<open>\<open>{ error }\<close>\<close>
  | BErrorDetails string db_error                \<comment> \<open>\<open>{ error, details }\<close>\<close>
  | BMessage string                              \<comment> \<open>\<open>{ message }\<close>\<close>
  | BLogin string token admin_pub                \<comment> \<open>\<open>{ message, token, admin }\<close>\<close>
  | BAdmin admin_pub                             \<comment> \<open>\<open>{ admin }\<close>\<close>
  | BFixed string bool "admin_user option"       \<comment> \<open>\<open>{ message, hashTest, admin }\<close>\<close>
  | BDebug bool string bool timestamp            \<comment> \<open>\<open>{ adminExists, email, passwordValid, createdAt }\<close>\<close>
  | BTestAuth string admin_pub timestamp bool string
      \<comment> \<open>\<open>{ message, admin: { id, email, created_at, notification_email }, passwordTest, suggestion }\<close>\<close>
  | BOrderCreated string row_id                  \<comment> \<open>\<open>{ message, order_id }\<close>\<close>
  | BMessageCreated string row_id                \<comment> \<open>\<open>{ message, id }\<close>\<close>
  | BProducts "product list"                     \<comment> \<open>\<open>{ products }\<close>\<close>
  | BOrders "order_row list"                     \<comment> \<open>\<open>{ orders }\<close>\<close>
  | BOrder order_row                             \<comment> \<open>\<open>{ order }\<close>\<close>
  | BMessages "message_row list"                 \<comment> \<open>\<open>{ messages }\<close>\<close>
  | BMessageRow message_row                      \<comment> \<open>\<open>{ message }\<close> holding a row\<close>
  | BClients "client list"                       \<comment> \<open>\<open>{ clients }\<close>\<close>
  | BClient client                               \<comment> \<open>\<open>{ client }\<close>\<close>

datatype response = Response nat body

definition status :: "response \<Rightarrow> nat" where
  "status r = (case r of Response s b \<Rightarrow> s)"

text \<open>The \<open>catch\<close> branch every handler ends with.\<close>

definition internal_error :: response where
  "internal_error = Response 500 (BError ''Errore interno del server'')"

end
