(* ===== verification/Auth.thy ===== *)
theory Auth
  imports Http
begin

text \<open>
  Authentication and credential management: \<open>src/lib/auth.ts\<close> and the routes
  that use the admin row.
  \<^item> \<open>jwt_secret\<close>, \<open>authenticateAdmin\<close>, \<open>verifyAdminToken\<close>,
    \<open>updateAdminPassword\<close>, \<open>updateNotificationEmail\<close>: the functions of
    \<open>lib/auth.ts\<close> (the last three are exported but called by no handler);
  \<^item> \<open>login_POST\<close>: \<open>app/api/admin/auth/login/route.ts\<close>;
  \<^item> \<open>settings_GET\<close>, \<open>settings_password_PUT\<close>, \<open>settings_email_PUT\<close>: the
    routes under \<open>app/api/admin/settings/\<close>, which read the admin row with an
    unfiltered \<open>.single()\<close> and update it by key;
  \<^item> \<open>fix_password_POST\<close>, \<open>debug_GET\<close>, \<open>test_auth_GET\<close>: the maintenance
    routes, which reset or probe the password of a fixed account.
  A handler that changes the database returns the response and the new state.
\<close>

section \<open>lib/auth.ts\<close>

definition default_jwt_secret :: string where
  "default_jwt_secret = ''your-secret-key-change-in-production''"

text \<open>\<open>process.env.JWT_SECRET || "..."\<close>: unset and empty both fall back.\<close>

definition jwt_secret :: "env \<Rightarrow> string" where
  "jwt_secret e =
     (case jwt_secret_var e of
        None \<Rightarrow> default_jwt_secret
      | Some s \<Rightarrow> if s = [] then default_jwt_secret else s)"

text \<open>
  \<open>authenticateAdmin(email, password)\<close>: \<open>None\<close> is its \<open>return null\<close>; an
  exception of \<open>bcrypt.compare\<close> propagates (\<open>Inl\<close>).
\<close>

definition authenticateAdmin ::
  "env \<Rightarrow> string \<Rightarrow> jval option \<Rightarrow> db \<Rightarrow> js_error + (admin_user \<times> token) option" where
  "authenticateAdmin e email password d =
     (case select_single e SelectAdmin (\<lambda>a. a_email a = email) (admin_users d) of
        Inl _ \<Rightarrow> Inr None
      | Inr admin \<Rightarrow>
          (case bcrypt_compare password (password_hash admin) of
             Inl err \<Rightarrow> Inl err
           | Inr valid \<Rightarrow>
               if \<not> valid then Inr None
               else Inr (Some (admin, jwt_sign (a_id admin) (a_email admin) (jwt_secret e) (now e)))))"

definition verifyAdminToken :: "env \<Rightarrow> token \<Rightarrow> claims option" where
  "verifyAdminToken e t = jwt_verify t (jwt_secret e) (now e)"

text \<open>\<open>.update(fields).eq("id", id)\<close> on the admin table.\<close>

definition update_admins :: "(admin_user \<Rightarrow> bool) \<Rightarrow> (admin_user \<Rightarrow> admin_user) \<Rightarrow> db \<Rightarrow> db" where
  "update_admins P f d = d\<lparr>admin_users := map (\<lambda>a. if P a then f a else a) (admin_users d)\<rparr>"

definition updateAdminPassword :: "env \<Rightarrow> row_id \<Rightarrow> string \<Rightarrow> db \<Rightarrow> bool \<times> db" where
  "updateAdminPassword e aid pw d =
     (case bcrypt_hash (Some (JStr pw)) 10 (salt e) of
        Inl _ \<Rightarrow> (False, d)
      | Inr h \<Rightarrow>
          if UpdateAdmin \<in> failing e then (False, d)
          else (True, update_admins (\<lambda>a. a_id a = aid)
                        (\<lambda>a. a\<lparr>password_hash := h, a_updated := now e\<rparr>) d))"

definition updateNotificationEmail :: "env \<Rightarrow> row_id \<Rightarrow> string \<Rightarrow> db \<Rightarrow> bool \<times> db" where
  "updateNotificationEmail e aid m d =
     (if UpdateAdmin \<in> failing e then (False, d)
      else (True, update_admins (\<lambda>a. a_id a = aid)
                    (\<lambda>a. a\<lparr>notification_email := Some m, a_updated := now e\<rparr>) d))"

section \<open>POST /api/admin/auth/login\<close>

definition login_POST :: "env \<Rightarrow> jval option \<Rightarrow> db \<Rightarrow> response" where
  "login_POST e body d =
     (case destructure body of
        Inl _ \<Rightarrow> internal_error
      | Inr v \<Rightarrow>
          (let email = get_prop v ''email''; password = get_prop v ''password''
           in if \<not> truthy email \<or> \<not> truthy password
              then Response 400 (BError ''Email e password sono richiesti'')
              else (case authenticateAdmin e (js_string_opt email) password d of
                      Inl _ \<Rightarrow> internal_error
                    | Inr None \<Rightarrow> Response 401 (BError ''Credenziali non valide'')
                    | Inr (Some (admin, tok)) \<Rightarrow>
                        Response 200 (BLogin ''Login successful'' tok (admin_pub_of admin)))))"

section \<open>GET /api/admin/settings\<close>

definition settings_GET :: "env \<Rightarrow> db \<Rightarrow> response" where
  "settings_GET e d =
     (case select_single e SelectAdmin (\<lambda>a. True) (admin_users d) of
        Inl _ \<Rightarrow> Response 500 (BError ''Errore nel recupero delle impostazioni'')
      | Inr admin \<Rightarrow> Response 200 (BAdmin (admin_pub_of admin)))"

section \<open>PUT /api/admin/settings/password\<close>

definition settings_password_PUT :: "env \<Rightarrow> jval option \<Rightarrow> db \<Rightarrow> response \<times> db" where
  "settings_password_PUT e body d =
     (case destructure body of
        Inl _ \<Rightarrow> (internal_error, d)
      | Inr v \<Rightarrow>
          (let cur = get_prop v ''currentPassword''; new = get_prop v ''newPassword''
           in if \<not> truthy cur \<or> \<not> truthy new
              then (Response 400 (BError ''Password attuale e nuova password sono richieste''), d)
              else (case select_single e SelectAdmin (\<lambda>a. True) (admin_users d) of
                      Inl _ \<Rightarrow> (Response 404 (BError ''Amministratore non trovato''), d)
                    | Inr admin \<Rightarrow>
                        (case bcrypt_compare cur (password_hash admin) of
                           Inl _ \<Rightarrow> (internal_error, d)
                         | Inr valid \<Rightarrow>
                             if \<not> valid
                             then (Response 401 (BError ''Password attuale non corretta''), d)
                             else (case bcrypt_hash new 10 (salt e) of
                                     Inl _ \<Rightarrow> (internal_error, d)
                                   | Inr h \<Rightarrow>
                                       if UpdateAdmin \<in> failing e
                                       then (Response 500 (BError
                                               ''Errore nell'aggiornamento della password''), d)
                                       else (Response 200 (BMessage ''Password aggiornata con successo''),
                                             update_admins (\<lambda>a. a_id a = a_id admin)
                                               (\<lambda>a. a\<lparr>password_hash := h, a_updated := now e\<rparr>) d))))))"

section \<open>PUT /api/admin/settings/email\<close>

definition settings_email_PUT :: "env \<Rightarrow> jval option \<Rightarrow> db \<Rightarrow> response \<times> db" where
  "settings_email_PUT e body d =
     (case destructure body of
        Inl _ \<Rightarrow> (internal_error, d)
      | Inr v \<Rightarrow>
          (let ne = get_prop v ''notificationEmail''
           in if \<not> truthy ne
              then (Response 400 (BError (''Email di notifica '' @ e_grave @ '' richiesta'')), d)
              else (case select_single e SelectAdmin (\<lambda>a. True) (admin_users d) of
                      Inl _ \<Rightarrow> (Response 404 (BError ''Amministratore non trovato''), d)
                    | Inr admin \<Rightarrow>
                        if UpdateAdmin \<in> failing e
                        then (Response 500 (BError ''Errore nell'aggiornamento dell'email''), d)
                        else (Response 200 (BMessage ''Email di notifica aggiornata con successo''),
                              update_admins (\<lambda>a. a_id a = a_id admin)
                                (\<lambda>a. a\<lparr>notification_email := Some (js_string_opt ne),
                                       a_updated := now e\<rparr>) d))))"

section \<open>Maintenance routes\<close>

definition fixed_admin_email :: string where
  "fixed_admin_email = ''oliodivaleria@server.com''"

definition fixed_password :: string where
  "fixed_password = ''662002''"

text \<open>
  \<open>POST /api/admin/fix-password\<close>: rehashes the fixed password into every row
  with the fixed e-mail (\<open>.update().eq("email", ...).select()\<close>, no
  \<open>updated_at\<close>), then reports the first updated row.
\<close>

definition fix_password_POST :: "env \<Rightarrow> db \<Rightarrow> response \<times> db" where
  "fix_password_POST e d =
     (case bcrypt_hash (Some (JStr fixed_password)) 10 (salt e) of
        Inl _ \<Rightarrow> (Response 500 (BError ''Failed to fix password''), d)
      | Inr h \<Rightarrow>
          if UpdateAdmin \<in> failing e
          then (Response 500 (BError ''Failed to update password''), d)
          else
            (let d' = update_admins (\<lambda>a. a_email a = fixed_admin_email)
                        (\<lambda>a. a\<lparr>password_hash := h\<rparr>) d;
                 updated = filter (\<lambda>a. a_email a = fixed_admin_email) (admin_users d');
                 valid = (bcrypt_compare (Some (JStr fixed_password)) h = Inr True)
             in (Response 200 (BFixed ''Password hash fixed successfully'' valid
                                 (case updated of [] \<Rightarrow> None | a # _ \<Rightarrow> Some a)), d')))"

text \<open>\<open>GET /api/admin/debug\<close>: whether the fixed account's password is the fixed one.\<close>

definition debug_GET :: "env \<Rightarrow> db \<Rightarrow> response" where
  "debug_GET e d =
     (case select_single e SelectAdmin (\<lambda>a. a_email a = fixed_admin_email) (admin_users d) of
        Inl err \<Rightarrow> Response 404 (BErrorDetails ''Admin user not found'' err)
      | Inr admin \<Rightarrow>
          (case bcrypt_compare (Some (JStr fixed_password)) (password_hash admin) of
             Inl _ \<Rightarrow> Response 500 (BError ''Debug failed'')
           | Inr valid \<Rightarrow> Response 200 (BDebug True (a_email admin) valid (a_created admin))))"

text \<open>\<open>GET /api/admin/test-auth\<close>: the same probe, with the admin's public fields.\<close>

definition test_auth_GET :: "env \<Rightarrow> db \<Rightarrow> response" where
  "test_auth_GET e d =
     (case select_single e SelectAdmin (\<lambda>a. a_email a = fixed_admin_email) (admin_users d) of
        Inl err \<Rightarrow> Response 500 (BErrorDetails ''Database error'' err)
      | Inr admin \<Rightarrow>
          (case bcrypt_compare (Some (JStr fixed_password)) (password_hash admin) of
             Inl _ \<Rightarrow> Response 500 (BError ''Test failed'')
           | Inr valid \<Rightarrow>
               Response 200 (BTestAuth ''Authentication test successful'' (admin_pub_of admin)
                  (a_created admin) valid
                  (if valid then ''Login should work with these credentials''
                   else ''Password hash might be incorrect''))))"

section \<open>Properties\<close>

subsection \<open>Shared lemmas\<close>

text \<open>\<open>authenticateAdmin\<close> on a string password, case by case.\<close>

lemma authenticateAdmin_string:
  "authenticateAdmin e em (Some (JStr pw)) d =
     Inr (if SelectAdmin \<notin> failing e \<and> (\<exists>a. filter (\<lambda>a. a_email a = em) (admin_users d) = [a]
              \<and> bcrypt_compare (Some (JStr pw)) (password_hash a) = Inr True)
          then Some (let a = hd (filter (\<lambda>a. a_email a = em) (admin_users d))
                     in (a, jwt_sign (a_id a) (a_email a) (jwt_secret e) (now e)))
          else None)"
  by (auto simp: authenticateAdmin_def select_single_def guard_call_def bcrypt_compare_string
           single_Inr_iff split: sum.splits list.splits)

lemmas login_simps = login_POST_def authenticateAdmin_string Let_def

lemma verifyAdminToken_at:
  "verifyAdminToken (e\<lparr>now := t\<rparr>) (jwt_sign aid m (jwt_secret e) n) =
     (if t < n + token_lifetime
      then Some \<lparr>adminId = aid, claim_email = m, iat = n, exp = n + token_lifetime\<rparr> else None)"
  by (simp add: verifyAdminToken_def jwt_secret_def jwt_verify_sign)

lemma update_admins_single:
  "admin_users d = [a] \<Longrightarrow> admin_users (update_admins (\<lambda>x. a_id x = a_id a) f d) = [f a]"
  by (simp add: update_admins_def)

lemma update_admins_other_tables [simp]:
  "orders (update_admins P f d) = orders d" "messages (update_admins P f d) = messages d"
  "clients (update_admins P f d) = clients d" "products (update_admins P f d) = products d"
  "next_id (update_admins P f d) = next_id d"
  by (simp_all add: update_admins_def)

subsection \<open>Login\<close>

text \<open>
  C1: for a login request with non-empty string credentials, the handler answers
  401 with the single generic message \<open>Credenziali non valide\<close> exactly when the
  credentials do not identify the admin: whether the e-mail is unknown (or shared by
  several rows) or the password is wrong, the caller sees the same response.
\<close>

theorem login_POST_401_iff:
  assumes "get_prop v ''email'' = Some (JStr em)" "em \<noteq> []"
    and "get_prop v ''password'' = Some (JStr pw)" "pw \<noteq> []"
  shows "login_POST e (Some v) d = Response 401 (BError ''Credenziali non valide'') \<longleftrightarrow>
         \<not> (SelectAdmin \<notin> failing e \<and> (\<exists>a. filter (\<lambda>a. a_email a = em) (admin_users d) = [a]
              \<and> bcrypt_compare (Some (JStr pw)) (password_hash a) = Inr True))"
proof -
  obtain kvs where v: "v = JObj kvs" using get_prop_Some_JObj assms(1) by blast
  show ?thesis using assms by (auto simp: v login_simps)
qed

theorem login_POST_401_iff_witness:
  "get_prop (JObj [(''email'', JStr ''admin@x.com''), (''password'', JStr ''wrong'')]) ''email''
     = Some (JStr ''admin@x.com'')
   \<and> get_prop (JObj [(''email'', JStr ''admin@x.com''), (''password'', JStr ''wrong'')]) ''password''
     = Some (JStr ''wrong'')
   \<and> login_POST demo_env (Some (JObj [(''email'', JStr ''admin@x.com''), (''password'', JStr ''wrong'')]))
       demo_db = Response 401 (BError ''Credenziali non valide'')"
  using login_POST_401_iff [of "JObj [(''email'', JStr ''admin@x.com''), (''password'', JStr ''wrong'')]"
      "''admin@x.com''" "''wrong''" demo_env demo_db]
  by (simp add: bcrypt_compare_def bcrypt_key_bytes_def)

text \<open>
  C2: a login with the admin's e-mail and a password its hash accepts answers 200
  with the admin's public fields and a token that verifies, under the same secret,
  to exactly the admin's id and e-mail at every instant before 24 hours after the
  login, and to nothing from then on.
\<close>

theorem login_POST_token:
  assumes "get_prop v ''email'' = Some (JStr em)" "em \<noteq> []"
    and "get_prop v ''password'' = Some (JStr pw)" "pw \<noteq> []"
    and "SelectAdmin \<notin> failing e" "filter (\<lambda>a. a_email a = em) (admin_users d) = [a]"
    and "bcrypt_compare (Some (JStr pw)) (password_hash a) = Inr True"
  shows "\<exists>tok. login_POST e (Some v) d = Response 200 (BLogin ''Login successful'' tok (admin_pub_of a))
           \<and> (\<forall>t. verifyAdminToken (e\<lparr>now := t\<rparr>) tok =
                   (if t < now e + token_lifetime
                    then Some \<lparr>adminId = a_id a, claim_email = a_email a, iat = now e,
                               exp = now e + token_lifetime\<rparr>
                    else None))"
proof -
  obtain kvs where v: "v = JObj kvs" using get_prop_Some_JObj assms(1) by blast
  have "login_POST e (Some v) d = Response 200 (BLogin ''Login successful''
          (jwt_sign (a_id a) (a_email a) (jwt_secret e) (now e)) (admin_pub_of a))"
    using assms by (auto simp: v login_simps)
  then show ?thesis by (auto simp: verifyAdminToken_at)
qed

theorem login_POST_token_witness:
  "\<exists>tok. login_POST demo_env
           (Some (JObj [(''email'', JStr ''admin@x.com''), (''password'', JStr ''right1'')])) demo_db
         = Response 200 (BLogin ''Login successful'' tok (admin_pub_of demo_admin))
       \<and> (\<forall>t. verifyAdminToken (demo_env\<lparr>now := t\<rparr>) tok =
               (if t < now demo_env + token_lifetime
                then Some \<lparr>adminId = a_id demo_admin, claim_email = a_email demo_admin,
                           iat = now demo_env, exp = now demo_env + token_lifetime\<rparr>
                else None))"
  by (rule login_POST_token [of "JObj [(''email'', JStr ''admin@x.com''), (''password'', JStr ''right1'')]"
      "''admin@x.com''" "''right1''" demo_env demo_db demo_admin])
     (simp_all add: bcrypt_compare_def bcrypt_key_bytes_def)

subsection \<open>Password update\<close>

text \<open>
  C3: the password handler changes the database only after it has verified the
  request's current password against the stored hash of the (single) admin row:
  a wrong, missing or non-string current password never changes the stored hash.
\<close>

theorem settings_password_PUT_guarded:
  assumes "settings_password_PUT e body d = (r, d')" and "d' \<noteq> d"
  shows "\<exists>v a. destructure body = Inr v \<and> truthy (get_prop v ''newPassword'')
           \<and> select_single e SelectAdmin (\<lambda>a. True) (admin_users d) = Inr a
           \<and> bcrypt_compare (get_prop v ''currentPassword'') (password_hash a) = Inr True
           \<and> UpdateAdmin \<notin> failing e"
  using assms
  by (auto simp: settings_password_PUT_def Let_def split: sum.splits if_splits)

theorem settings_password_PUT_guarded_witness:
  "snd (settings_password_PUT demo_env
          (Some (JObj [(''currentPassword'', JStr ''right1''), (''newPassword'', JStr ''n3w'')])) demo_db)
     \<noteq> demo_db
   \<and> (\<exists>v a. destructure (Some (JObj [(''currentPassword'', JStr ''right1''), (''newPassword'', JStr ''n3w'')]))
              = Inr v \<and> truthy (get_prop v ''newPassword'')
           \<and> select_single demo_env SelectAdmin (\<lambda>a. True) (admin_users demo_db) = Inr a
           \<and> bcrypt_compare (get_prop v ''currentPassword'') (password_hash a) = Inr True
           \<and> UpdateAdmin \<notin> failing demo_env)"
proof -
  let ?b = "Some (JObj [(''currentPassword'', JStr ''right1''), (''newPassword'', JStr ''n3w'')])"
  have ne: "snd (settings_password_PUT demo_env ?b demo_db) \<noteq> demo_db"
    by (simp add: settings_password_PUT_def select_single_def guard_call_def bcrypt_compare_def
        bcrypt_hash_def bcrypt_key_bytes_def update_admins_def)
  show ?thesis
    using ne settings_password_PUT_guarded [of demo_env ?b demo_db
        "fst (settings_password_PUT demo_env ?b demo_db)" "snd (settings_password_PUT demo_env ?b demo_db)"]
    by simp
qed

text \<open>
  The password change on its success branch: the admin row gets the hash of the
  new password and the update time.
\<close>

lemma settings_password_PUT_run:
  assumes "get_prop v ''currentPassword'' = Some (JStr cur)" "cur \<noteq> []"
    and "get_prop v ''newPassword'' = Some (JStr new)" "new \<noteq> []"
    and "admin_users d = [a]" "SelectAdmin \<notin> failing e" "UpdateAdmin \<notin> failing e"
    and "bcrypt_compare (Some (JStr cur)) (password_hash a) = Inr True"
  shows "settings_password_PUT e (Some v) d =
           (Response 200 (BMessage ''Password aggiornata con successo''),
            update_admins (\<lambda>x. a_id x = a_id a)
              (\<lambda>x. x\<lparr>password_hash := BHash 10 (salt e) (take bcrypt_key_bytes new), a_updated := now e\<rparr>) d)"
proof -
  obtain kvs where v: "v = JObj kvs" using get_prop_Some_JObj assms(1) by blast
  show ?thesis
    using assms by (simp add: v settings_password_PUT_def select_single_def guard_call_def bcrypt_hash_def)
qed

text \<open>
  C4: with a current password the stored hash accepts and any non-empty new
  password, the handler answers 200 and the admin row's new hash accepts the new
  password, while the old password is accepted afterwards exactly when it agrees
  with the new one on the first 72 bytes (the part bcrypt reads).
\<close>

theorem settings_password_PUT_rehash:
  assumes "get_prop v ''currentPassword'' = Some (JStr cur)" "cur \<noteq> []"
    and "get_prop v ''newPassword'' = Some (JStr new)" "new \<noteq> []"
    and "admin_users d = [a]" "SelectAdmin \<notin> failing e" "UpdateAdmin \<notin> failing e"
    and "bcrypt_compare (Some (JStr cur)) (password_hash a) = Inr True"
  shows "\<exists>d'. settings_password_PUT e (Some v) d =
                (Response 200 (BMessage ''Password aggiornata con successo''), d')
          \<and> (\<exists>a'. admin_users d' = [a'] \<and> a_id a' = a_id a \<and> a_email a' = a_email a
                 \<and> bcrypt_compare (Some (JStr new)) (password_hash a') = Inr True
                 \<and> bcrypt_compare (Some (JStr cur)) (password_hash a') =
                      Inr (take bcrypt_key_bytes cur = take bcrypt_key_bytes new))"
proof -
  let ?h = "BHash 10 (salt e) (take bcrypt_key_bytes new)"
  have hash: "bcrypt_hash (Some (JStr new)) 10 (salt e) = Inr ?h" by (simp add: bcrypt_hash_def)
  show ?thesis
    using settings_password_PUT_run [OF assms] assms(5) bcrypt_compare_hash [OF hash]
    by (auto simp: update_admins_single)
qed

theorem settings_password_PUT_rehash_witness:
  "\<exists>d'. settings_password_PUT demo_env
          (Some (JObj [(''currentPassword'', JStr ''right1''), (''newPassword'', JStr ''n3w'')])) demo_db =
          (Response 200 (BMessage ''Password aggiornata con successo''), d')
     \<and> (\<exists>a'. admin_users d' = [a'] \<and> a_id a' = a_id demo_admin \<and> a_email a' = a_email demo_admin
            \<and> bcrypt_compare (Some (JStr ''n3w'')) (password_hash a') = Inr True
            \<and> bcrypt_compare (Some (JStr ''right1'')) (password_hash a') =
                 Inr (take bcrypt_key_bytes ''right1'' = take bcrypt_key_bytes ''n3w''))"
  by (rule settings_password_PUT_rehash
        [of "JObj [(''currentPassword'', JStr ''right1''), (''newPassword'', JStr ''n3w'')]"
            "''right1''" "''n3w''" demo_db demo_admin demo_env])
     (simp_all add: bcrypt_compare_def bcrypt_key_bytes_def)

subsection \<open>The maintenance route resets the login\<close>

text \<open>
  The login that follows a password reset, with its full response: the token
  signed for the fixed account at the time of the login.
\<close>

lemma login_after_fix_password:
  assumes "filter (\<lambda>a. a_email a = fixed_admin_email) (admin_users d) = [a]"
    and "SelectAdmin \<notin> failing e" "UpdateAdmin \<notin> failing e"
  shows "login_POST e (Some (JObj [(''email'', JStr fixed_admin_email), (''password'', JStr fixed_password)]))
           (snd (fix_password_POST e d)) =
         Response 200 (BLogin ''Login successful''
           (jwt_sign (a_id a) fixed_admin_email (jwt_secret e) (now e))
           (admin_pub_of (a\<lparr>password_hash := BHash 10 (salt e) (take bcrypt_key_bytes fixed_password)\<rparr>)))"
proof -
  let ?h = "BHash 10 (salt e) (take bcrypt_key_bytes fixed_password)"
  let ?P = "\<lambda>a. a_email a = fixed_admin_email"
  let ?d' = "update_admins ?P (\<lambda>a. a\<lparr>password_hash := ?h\<rparr>) d"
  have reset: "snd (fix_password_POST e d) = ?d'"
    using assms(3) by (simp add: fix_password_POST_def bcrypt_hash_def Let_def)
  have rows: "filter ?P (admin_users ?d') = [a\<lparr>password_hash := ?h\<rparr>]"
    using assms(1) by (simp add: update_admins_def filter_map_if_same)
  have email: "a_email a = fixed_admin_email"
    using assms(1) by (metis (mono_tags) filter_eq_ConsD)
  have ok: "bcrypt_compare (Some (JStr fixed_password)) ?h = Inr True"
    by (simp add: bcrypt_compare_def)
  show ?thesis
    using rows ok assms(2) email
    by (simp add: reset login_simps fixed_admin_email_def fixed_password_def)
qed

text \<open>
  C10: \<open>POST /api/admin/fix-password\<close>, which checks no credential, leaves the
  fixed account in a state where a login with the fixed password succeeds: for any
  database with one row for the fixed e-mail, the login that follows the reset
  answers 200.
\<close>

theorem fix_password_POST_login:
  assumes "filter (\<lambda>a. a_email a = fixed_admin_email) (admin_users d) = [a]"
    and "SelectAdmin \<notin> failing e" "UpdateAdmin \<notin> failing e"
  shows "status (login_POST e (Some (JObj [(''email'', JStr fixed_admin_email),
                                          (''password'', JStr fixed_password)]))
                   (snd (fix_password_POST e d))) = 200"
  using login_after_fix_password [OF assms] by (simp add: status_def)

theorem fix_password_POST_login_witness:
  "filter (\<lambda>a. a_email a = fixed_admin_email)
      (admin_users (demo_db\<lparr>admin_users := [demo_admin\<lparr>a_email := fixed_admin_email\<rparr>]\<rparr>))
     = [demo_admin\<lparr>a_email := fixed_admin_email\<rparr>]
   \<and> status (login_POST demo_env (Some (JObj [(''email'', JStr fixed_admin_email),
                                              (''password'', JStr fixed_password)]))
        (snd (fix_password_POST demo_env
               (demo_db\<lparr>admin_users := [demo_admin\<lparr>a_email := fixed_admin_email\<rparr>]\<rparr>)))) = 200"
  using fix_password_POST_login [of "demo_db\<lparr>admin_users := [demo_admin\<lparr>a_email := fixed_admin_email\<rparr>]\<rparr>"
      "demo_admin\<lparr>a_email := fixed_admin_email\<rparr>" demo_env]
  by simp

subsection \<open>The fallback signing secret\<close>

text \<open>
  When \<open>JWT_SECRET\<close> is not set, the token verifier accepts any token signed
  with the fallback secret written in \<open>lib/auth.ts\<close>: whoever reads the source
  can mint an admin token for any id and e-mail, valid for 24 hours from the
  \<open>iat\<close> they choose.
\<close>

theorem default_secret_token_accepted:
  assumes "jwt_secret_var e = None" "now e < t + token_lifetime"
  shows "verifyAdminToken e (jwt_sign aid m default_jwt_secret t) =
           Some \<lparr>adminId = aid, claim_email = m, iat = t, exp = t + token_lifetime\<rparr>"
  using assms by (simp add: verifyAdminToken_def jwt_secret_def jwt_verify_sign)

theorem default_secret_token_accepted_witness:
  "jwt_secret_var (demo_env\<lparr>jwt_secret_var := None\<rparr>) = None
   \<and> now (demo_env\<lparr>jwt_secret_var := None\<rparr>) < 900 + token_lifetime
   \<and> verifyAdminToken (demo_env\<lparr>jwt_secret_var := None\<rparr>) (jwt_sign 1 ''x@y.z'' default_jwt_secret 900) =
       Some \<lparr>adminId = 1, claim_email = ''x@y.z'', iat = 900, exp = 900 + token_lifetime\<rparr>"
  using default_secret_token_accepted [of "demo_env\<lparr>jwt_secret_var := None\<rparr>" 900 1 "''x@y.z''"]
  by (simp add: token_lifetime_def)

subsection \<open>Notification e-mail update\<close>

text \<open>The notification e-mail change on its success branch.\<close>

lemma settings_email_PUT_run:
  assumes "get_prop v ''notificationEmail'' = Some (JStr m)" "m \<noteq> []"
    and "admin_users d = [a]" "SelectAdmin \<notin> failing e" "UpdateAdmin \<notin> failing e"
  shows "settings_email_PUT e (Some v) d =
           (Response 200 (BMessage ''Email di notifica aggiornata con successo''),
            d\<lparr>admin_users := [a\<lparr>notification_email := Some m, a_updated := now e\<rparr>]\<rparr>)"
proof -
  obtain kvs where v: "v = JObj kvs" using get_prop_Some_JObj assms(1) by blast
  show ?thesis
    using assms by (simp add: v settings_email_PUT_def select_single_def guard_call_def update_admins_def)
qed

text \<open>
  C22: a request with any non-empty string \<open>notificationEmail\<close> sets the admin
  row's notification address to that string and refreshes \<open>updated_at\<close>, and
  changes nothing else; the handler performs no check of the address's form.
\<close>

theorem settings_email_PUT_sets:
  assumes "get_prop v ''notificationEmail'' = Some (JStr m)" "m \<noteq> []"
    and "admin_users d = [a]" "SelectAdmin \<notin> failing e" "UpdateAdmin \<notin> failing e"
  shows "settings_email_PUT e (Some v) d =
           (Response 200 (BMessage ''Email di notifica aggiornata con successo''),
            d\<lparr>admin_users := [a\<lparr>notification_email := Some m, a_updated := now e\<rparr>]\<rparr>)"
  using assms by (rule settings_email_PUT_run)

theorem settings_email_PUT_sets_witness:
  "settings_email_PUT demo_env (Some (JObj [(''notificationEmail'', JStr ''not an address'')])) demo_db =
     (Response 200 (BMessage ''Email di notifica aggiornata con successo''),
      demo_db\<lparr>admin_users := [demo_admin\<lparr>notification_email := Some ''not an address'', a_updated := 1000\<rparr>]\<rparr>)"
  using settings_email_PUT_sets [of "JObj [(''notificationEmail'', JStr ''not an address'')]"
      "''not an address''" demo_db demo_admin demo_env]
  by simp

end
