(* ===== verification/Notify.thy ===== *)
theory Notify
  imports Http
begin

text \<open>
  The notification dispatcher, \<open>src/lib/email.tsx\<close>: \<open>sendNewOrderNotification\<close>
  and \<open>sendNewMessageNotification\<close>. Each reads the admin's notification address
  (an unfiltered \<open>.single()\<close> whose error is not checked), gives up when none is
  configured, builds a transport with \<open>createTransporter\<close>, renders a fixed HTML
  template and sends it; every exception is caught and turned into \<open>false\<close>.
  A call returns that boolean and the mails actually delivered (none or one).

  The transport is \<open>nodemailer\<close>, a library outside the repository. Its module
  exports \<open>createTransport\<close>; the code calls \<open>nodemailer.createTransporter\<close>,
  which is not a function of the module, so the call throws a \<open>TypeError\<close> (the
  build does not catch this: \<open>next.config.mjs\<close> sets \<open>ignoreBuildErrors\<close>).
  \<open>createTransporter\<close> below is that call; \<open>sendMail\<close> delivers when the
  environment's transport works.

  The rendered HTML is modelled as the list of its content lines, in order: the
  lines that embed a field or are conditional. The static markup around them
  (\<open>div\<close> wrappers, headings, styles, footer) is the same in every mail and is
  not modelled.
\<close>

section \<open>Mails and the transport\<close>

record mail =
  mail_from :: "string option"
  mail_to :: string
  mail_subject :: string
  mail_html :: "string list"

datatype smtp_transport = SmtpTransport

text \<open>\<open>nodemailer.createTransporter({...})\<close>: not a function of the module.\<close>

definition createTransporter :: "env \<Rightarrow> js_error + smtp_transport" where
  "createTransporter e = Inl (TypeError ''nodemailer.createTransporter is not a function'')"

text \<open>\<open>transporter.sendMail(mailOptions)\<close>: at most one delivery attempt.\<close>

definition sendMail :: "env \<Rightarrow> smtp_transport \<Rightarrow> mail \<Rightarrow> js_error + mail" where
  "sendMail e t m = (if mail_delivers e then Inr m else Inl (PlainError ''SMTP delivery failed''))"

section \<open>Templates\<close>

text \<open>UTF-8 bytes of the emoji and accented letters in the templates.\<close>

definition cart_emoji :: string where "cart_emoji = [CHR 0xF0, CHR 0x9F, CHR 0x9B, CHR 0x92]"
definition speech_emoji :: string where "speech_emoji = [CHR 0xF0, CHR 0x9F, CHR 0x92, CHR 0xAC]"
definition a_grave :: string where "a_grave = [CHR 0xC3, CHR 0xA0]"

definition order_subject :: string where
  "order_subject = cart_emoji @ '' Nuovo Ordine - Olio di Valeria''"

definition message_subject :: string where
  "message_subject = speech_emoji @ '' Nuovo Messaggio - Olio di Valeria''"

text \<open>A \<open><p><strong>Label:</strong> ${value}</p>\<close> line.\<close>

definition field_line :: "string \<Rightarrow> jval option \<Rightarrow> string" where
  "field_line label v = ''<p><strong>'' @ label @ '':</strong> '' @ js_string_opt v @ ''</p>''"

text \<open>
  The order template, lines 44--57 of \<open>email.tsx\<close>: the phone and notes lines
  appear only when the field is truthy.
\<close>

definition order_html :: "(string \<Rightarrow> jval option) \<Rightarrow> string \<Rightarrow> string list" where
  "order_html od date =
     [field_line ''Nome'' (od ''customer_name''),
      field_line ''Email'' (od ''customer_email'')]
     @ (if truthy (od ''customer_phone'') then [field_line ''Telefono'' (od ''customer_phone'')] else [])
     @ [field_line ''Prodotto'' (od ''product_name''),
        field_line ''Formato'' (od ''product_size''),
        field_line (''Quantit'' @ a_grave) (od ''quantity''),
        field_line ''Stato'' (od ''status'')]
     @ (if truthy (od ''notes'') then [field_line ''Note'' (od ''notes'')] else [])
     @ [''<p style=\"margin: 0;\"><strong>Data ordine:</strong> '' @ date @ ''</p>'']"

text \<open>The message template, lines 101--112 of \<open>email.tsx\<close>.\<close>

definition message_html :: "(string \<Rightarrow> jval option) \<Rightarrow> string \<Rightarrow> string list" where
  "message_html md date =
     [field_line ''Nome'' (md ''name''),
      field_line ''Email'' (md ''email''),
      field_line ''Tipo di richiesta'' (md ''request_type''),
      ''<p style=\"margin: 0; white-space: pre-wrap;\">'' @ js_string_opt (md ''message'') @ ''</p>'',
      ''<p style=\"margin: 0;\"><strong>Data messaggio:</strong> '' @ date @ ''</p>'']"

section \<open>The dispatcher\<close>

text \<open>
  The shared body of both functions: look up the address, build the transport,
  send; the template is the argument. \<open>notify_via mk\<close> is that body with
  \<open>mk\<close> in place of the call to \<open>createTransporter\<close>, so that the lookup and
  the sending can be stated for a transport that is created; the code's body is
  \<open>notify\<close>.
\<close>

definition notify_via ::
  "(env \<Rightarrow> js_error + smtp_transport) \<Rightarrow> env \<Rightarrow> string \<Rightarrow> string list \<Rightarrow> db \<Rightarrow> bool \<times> mail list" where
  "notify_via mk e subj html d =
     (case select_single e SelectAdmin (\<lambda>a. True) (admin_users d) of
        Inl _ \<Rightarrow> (False, [])
      | Inr admin \<Rightarrow>
          (case notification_email admin of
             None \<Rightarrow> (False, [])
           | Some addr \<Rightarrow>
               if addr = [] then (False, [])
               else
                 (case mk e of
                    Inl _ \<Rightarrow> (False, [])
                  | Inr t \<Rightarrow>
                      (case sendMail e t \<lparr>mail_from = smtp_user e, mail_to = addr,
                                          mail_subject = subj, mail_html = html\<rparr> of
                         Inl _ \<Rightarrow> (False, [])
                       | Inr m \<Rightarrow> (True, [m])))))"

definition notify :: "env \<Rightarrow> string \<Rightarrow> string list \<Rightarrow> db \<Rightarrow> bool \<times> mail list" where
  "notify = notify_via createTransporter"

definition sendNewOrderNotification ::
  "env \<Rightarrow> (string \<Rightarrow> jval option) \<Rightarrow> db \<Rightarrow> bool \<times> mail list" where
  "sendNewOrderNotification e od d = notify e order_subject (order_html od (date_text e)) d"

definition sendNewMessageNotification ::
  "env \<Rightarrow> (string \<Rightarrow> jval option) \<Rightarrow> db \<Rightarrow> bool \<times> mail list" where
  "sendNewMessageNotification e md d = notify e message_subject (message_html md (date_text e)) d"

section \<open>Properties\<close>

text \<open>
  The dispatcher, for any transport: it reports success and sends exactly one
  mail, from \<open>SMTP_USER\<close> to the one admin row's notification address with
  the given subject and body, exactly when the lookup finds one row, that row has
  a non-empty address, the transport is created and it delivers; otherwise it
  returns \<open>false\<close> and sends nothing.
\<close>

lemma notify_via_spec:
  "notify_via mk e subj html d =
     (if (\<exists>a t. admin_users d = [a] \<and> SelectAdmin \<notin> failing e \<and> notification_email a \<noteq> None
                \<and> notification_email a \<noteq> Some [] \<and> mk e = Inr t \<and> mail_delivers e)
      then (True, [\<lparr>mail_from = smtp_user e, mail_to = the (notification_email (hd (admin_users d))),
                    mail_subject = subj, mail_html = html\<rparr>])
      else (False, []))"
  by (auto simp: notify_via_def select_single_def guard_call_def sendMail_def single_Inr_iff
      split: sum.splits option.splits list.splits)

text \<open>
  C7: neither notification function ever delivers a mail or reports success, for
  any database and payload: the call to \<open>createTransporter\<close> throws before
  \<open>sendMail\<close> is reached, and the \<open>catch\<close> turns it into \<open>false\<close>. The rest of
  the body is right: with a transport that is created, the dispatcher sends one
  mail to the configured address exactly when one admin row has a non-empty
  address and the transport delivers.
\<close>

theorem notifications_never_sent:
  "sendNewOrderNotification e od d = (False, []) \<and> sendNewMessageNotification e md d = (False, [])
   \<and> notify_via (\<lambda>e. Inr t) e subj html d =
       (if (\<exists>a. admin_users d = [a] \<and> SelectAdmin \<notin> failing e \<and> notification_email a \<noteq> None
                 \<and> notification_email a \<noteq> Some [] \<and> mail_delivers e)
        then (True, [\<lparr>mail_from = smtp_user e, mail_to = the (notification_email (hd (admin_users d))),
                      mail_subject = subj, mail_html = html\<rparr>])
        else (False, []))"
  by (simp add: sendNewOrderNotification_def sendNewMessageNotification_def notify_def notify_via_spec
      createTransporter_def)

end
