(* ===== verification/Intake.thy ===== *)
theory Intake
  imports Notify "HOL-Library.Char_ord" "HOL-Library.List_Lexorder"
begin

text \<open>
  The public intake pipeline: \<open>POST /api/orders\<close>
  (\<open>src/app/api/orders/route.ts\<close>, \<open>orders_POST\<close>) and \<open>POST /api/contact\<close>
  (\<open>src/app/api/contact/route.ts\<close>, \<open>contact_POST\<close>), and the public product
  list (\<open>GET /api/orders\<close>, \<open>orders_GET\<close>). Each submission handler
  \<^enum> validates the required fields with JavaScript truthiness;
  \<^enum> cross-validates (the product exists once and has the size; the request type
    is one of five);
  \<^enum> inserts the primary row, failing with 500 and nothing stored if that fails;
  \<^enum> upserts the client by e-mail and ignores the outcome;
  \<^enum> calls the notification dispatcher and ignores the outcome;
  \<^enum> answers 200 with the new row's key.
  A handler returns the response, the new database and the mails delivered.
\<close>

type_synonym outcome = "response \<times> db \<times> mail list"

section \<open>Field conversions of the handlers\<close>

text \<open>A destructured field stored as is: \<open>undefined\<close> becomes \<open>NULL\<close>.\<close>

definition or_null :: "jval option \<Rightarrow> jval" where
  "or_null v = (case v of None \<Rightarrow> JNull | Some x \<Rightarrow> x)"

text \<open>\<open>x || null\<close>.\<close>

definition js_or_null :: "jval option \<Rightarrow> jval" where
  "js_or_null v = (if truthy v then or_null v else JNull)"

text \<open>\<open>Number.parseInt(quantity) || 1\<close>: \<open>NaN\<close> and 0 are falsy.\<close>

definition quantity_of :: "jval option \<Rightarrow> int" where
  "quantity_of q = (case js_parse_int q of None \<Rightarrow> 1 | Some n \<Rightarrow> if n = 0 then 1 else n)"

text \<open>\<open>list.includes(v)\<close> on a list of strings (SameValueZero: only a string matches).\<close>

definition includes_str :: "string list \<Rightarrow> jval option \<Rightarrow> bool" where
  "includes_str xs v = (case v of Some (JStr s) \<Rightarrow> s \<in> set xs | _ \<Rightarrow> False)"

section \<open>POST /api/orders\<close>

text \<open>
  The required-field check
  \<open>!customer_name || !customer_email || !product_name || !product_size || !quantity\<close>
  is the negation of:
\<close>

definition order_required :: "(string \<Rightarrow> jval option) \<Rightarrow> bool" where
  "order_required f =
     (truthy (f ''customer_name'') \<and> truthy (f ''customer_email'') \<and> truthy (f ''product_name'')
      \<and> truthy (f ''product_size'') \<and> truthy (f ''quantity''))"

text \<open>\<open>completeOrderData\<close>, built from the request's fields \<open>f\<close>.\<close>

definition complete_order :: "(string \<Rightarrow> jval option) \<Rightarrow> order_row" where
  "complete_order f =
     \<lparr>o_id = 0,
      customer_name = or_null (f ''customer_name''),
      customer_email = or_null (f ''customer_email''),
      customer_phone = js_or_null (f ''customer_phone''),
      product_name = or_null (f ''product_name''),
      product_size = or_null (f ''product_size''),
      quantity = JNum (quantity_of (f ''quantity'')),
      o_status = JStr ''Appena ordinato'',
      o_notes = js_or_null (f ''notes''),
      o_created = 0, o_updated = 0\<rparr>"

text \<open>The object \<open>completeOrderData\<close> as the notification reads it.\<close>

definition order_fields :: "order_row \<Rightarrow> string \<Rightarrow> jval option" where
  "order_fields r =
     map_of [(''customer_name'', customer_name r), (''customer_email'', customer_email r),
             (''customer_phone'', customer_phone r), (''product_name'', product_name r),
             (''product_size'', product_size r), (''quantity'', quantity r),
             (''status'', o_status r), (''notes'', o_notes r)]"

text \<open>The client columns the order handler upserts: \<open>{ email, phone, name }\<close>.\<close>

definition order_client_cols :: "(string \<Rightarrow> jval option) \<Rightarrow> (string \<times> jval) list" where
  "order_client_cols f =
     defined_fields [(''email'', f ''customer_email''), (''phone'', f ''customer_phone''),
                     (''name'', f ''customer_name'')]"

definition orders_POST :: "env \<Rightarrow> jval option \<Rightarrow> db \<Rightarrow> outcome" where
  "orders_POST e body d =
     (case destructure body of
        Inl _ \<Rightarrow> (internal_error, d, [])
      | Inr v \<Rightarrow>
          (let f = get_prop v
           in if \<not> order_required f
              then (Response 400 (BError ''Tutti i campi obbligatori devono essere compilati''), d, [])
              else
                (case select_single e SelectProduct (\<lambda>p. p_name p = js_string_opt (f ''product_name''))
                        (products d) of
                   Inl _ \<Rightarrow> (Response 400 (BError ''Prodotto non valido''), d, [])
                 | Inr p \<Rightarrow>
                     if \<not> includes_str (sizes p) (f ''product_size'')
                     then (Response 400 (BError ''Formato prodotto non valido''), d, [])
                     else
                       (let row = complete_order f
                        in case insert_order e row d of
                             Inl _ \<Rightarrow> (Response 500 (BError ''Errore nella creazione dell'ordine''), d, [])
                           | Inr (order, d1) \<Rightarrow>
                               (let d2 = ignore_error d1 (upsert_client e (order_client_cols f) d1);
                                    sent = snd (sendNewOrderNotification e (order_fields row) d2)
                                in (Response 200 (BOrderCreated ''Ordine creato con successo'' (o_id order)),
                                    d2, sent))))))"

section \<open>GET /api/orders\<close>

text \<open>
  The catalogue, ordered by name (\<open>.order("name")\<close>); names compare byte by byte
  (the database's \<open>C\<close> collation; other collations are not modelled).
\<close>

definition orders_GET :: "env \<Rightarrow> db \<Rightarrow> response" where
  "orders_GET e d =
     (if SelectProducts \<in> failing e
      then Response 500 (BError ''Errore nel recupero dei prodotti'')
      else Response 200 (BProducts (sort_key p_name (products d))))"

section \<open>POST /api/contact\<close>

definition valid_request_types :: "string list" where
  "valid_request_types =
     [''Informazioni generali'', ''Ordini e consegna'', ''Collaborazioni'', ''Visita in azienda'', ''Altro'']"

text \<open>\<open>!name || !email || !request_type || !message\<close> is the negation of:\<close>

definition contact_required :: "(string \<Rightarrow> jval option) \<Rightarrow> bool" where
  "contact_required f =
     (truthy (f ''name'') \<and> truthy (f ''email'') \<and> truthy (f ''request_type'') \<and> truthy (f ''message''))"

definition contact_message :: "(string \<Rightarrow> jval option) \<Rightarrow> message_row" where
  "contact_message f =
     \<lparr>m_id = 0, m_name = or_null (f ''name''), m_email = or_null (f ''email''),
      request_type = or_null (f ''request_type''), m_message = or_null (f ''message''),
      m_status = JStr ''Nuovo'', m_created = 0, m_updated = 0\<rparr>"

text \<open>The object \<open>messageData\<close> as the notification reads it.\<close>

definition message_fields :: "message_row \<Rightarrow> string \<Rightarrow> jval option" where
  "message_fields r =
     map_of [(''name'', m_name r), (''email'', m_email r), (''request_type'', request_type r),
             (''message'', m_message r), (''status'', m_status r)]"

definition contact_client_cols :: "(string \<Rightarrow> jval option) \<Rightarrow> (string \<times> jval) list" where
  "contact_client_cols f = defined_fields [(''email'', f ''email''), (''name'', f ''name'')]"

definition contact_POST :: "env \<Rightarrow> jval option \<Rightarrow> db \<Rightarrow> outcome" where
  "contact_POST e body d =
     (case destructure body of
        Inl _ \<Rightarrow> (internal_error, d, [])
      | Inr v \<Rightarrow>
          (let f = get_prop v
           in if \<not> contact_required f
              then (Response 400 (BError ''Tutti i campi sono obbligatori''), d, [])
              else if \<not> includes_str valid_request_types (f ''request_type'')
              then (Response 400 (BError ''Tipo di richiesta non valido''), d, [])
              else
                (let row = contact_message f
                 in case insert_message e row d of
                      Inl _ \<Rightarrow> (Response 500 (BError ''Errore nell'invio del messaggio''), d, [])
                    | Inr (msg, d1) \<Rightarrow>
                        (let d2 = ignore_error d1 (upsert_client e (contact_client_cols f) d1);
                             sent = snd (sendNewMessageNotification e (message_fields row) d2)
                         in (Response 200 (BMessageCreated ''Messaggio inviato con successo'' (m_id msg)),
                             d2, sent)))))"

section \<open>Sample requests\<close>

text \<open>The order of the spec's end-to-end scenario, and variants of it.\<close>

abbreviation mario_order :: "(string \<times> jval) list" where
  "mario_order \<equiv> [(''customer_name'', JStr ''Mario Rossi''), (''customer_email'', JStr ''mario@example.com''),
                  (''product_name'', JStr ''Olio Extra Vergine''), (''product_size'', JStr ''1L''),
                  (''quantity'', JNum 2)]"

abbreviation mario_row :: order_row where
  "mario_row \<equiv> \<lparr>o_id = 3, customer_name = JStr ''Mario Rossi'', customer_email = JStr ''mario@example.com'',
      customer_phone = JNull, product_name = JStr ''Olio Extra Vergine'', product_size = JStr ''1L'',
      quantity = JNum 2, o_status = JStr ''Appena ordinato'', o_notes = JNull,
      o_created = 1000, o_updated = 1000\<rparr>"

abbreviation mario_client :: client where
  "mario_client \<equiv> \<lparr>c_id = 4, c_email = JStr ''mario@example.com'', c_phone = JNull,
      c_name = JStr ''Mario Rossi'', c_created = 1000, c_updated = 1000\<rparr>"

abbreviation known_client :: client where
  "known_client \<equiv> \<lparr>c_id = 2, c_email = JStr ''mario@example.com'', c_phone = JStr ''333'',
      c_name = JStr ''M. Rossi'', c_created = 0, c_updated = 0\<rparr>"

section \<open>Properties\<close>

subsection \<open>Evaluation and case analysis of the handlers\<close>

lemmas intake_eval = orders_POST_def contact_POST_def select_single_def guard_call_def
  insert_order_def insert_message_def includes_str_def upsert_client_def ignore_error_def
  order_client_cols_def contact_client_cols_def col_or_def complete_order_def contact_message_def
  new_client_def js_or_null_def quantity_of_def js_parse_int_def js_string_opt_def
  parse_int_int_dec Let_def or_null_def order_required_def contact_required_def
  valid_request_types_def sendNewOrderNotification_def sendNewMessageNotification_def notify_def
  notify_via_def createTransporter_def

lemma orders_POST_accepted:
  assumes "destructure body = Inr v" "order_required (get_prop v)"
    and "select_single e SelectProduct (\<lambda>p. p_name p = js_string_opt (get_prop v ''product_name''))
           (products d) = Inr p"
    and "includes_str (sizes p) (get_prop v ''product_size'')"
    and "InsertOrder \<notin> failing e"
  shows "orders_POST e body d =
           (let row = (complete_order (get_prop v))\<lparr>o_id := next_id d, o_created := now e, o_updated := now e\<rparr>;
                d1 = d\<lparr>orders := orders d @ [row], next_id := Suc (next_id d)\<rparr>;
                d2 = ignore_error d1 (upsert_client e (order_client_cols (get_prop v)) d1)
            in (Response 200 (BOrderCreated ''Ordine creato con successo'' (next_id d)), d2,
                snd (sendNewOrderNotification e (order_fields (complete_order (get_prop v))) d2)))"
  using assms by (simp add: orders_POST_def insert_order_def guard_call_def Let_def)

lemma orders_POST_cases:
  assumes "orders_POST e body d = (r, d', ms)"
  obtains (unchanged) "d' = d" "ms = []" "status r \<noteq> 200"
  | (accepted) v p where "destructure body = Inr v" "order_required (get_prop v)"
      "select_single e SelectProduct (\<lambda>p. p_name p = js_string_opt (get_prop v ''product_name''))
           (products d) = Inr p"
      "includes_str (sizes p) (get_prop v ''product_size'')" "InsertOrder \<notin> failing e"
  using assms
  by (auto simp: orders_POST_def insert_order_def guard_call_def Let_def status_def internal_error_def
           split: sum.splits if_splits)

lemma contact_POST_accepted:
  assumes "destructure body = Inr v" "contact_required (get_prop v)"
    and "includes_str valid_request_types (get_prop v ''request_type'')"
    and "InsertMessage \<notin> failing e"
  shows "contact_POST e body d =
           (let row = (contact_message (get_prop v))\<lparr>m_id := next_id d, m_created := now e, m_updated := now e\<rparr>;
                d1 = d\<lparr>messages := messages d @ [row], next_id := Suc (next_id d)\<rparr>;
                d2 = ignore_error d1 (upsert_client e (contact_client_cols (get_prop v)) d1)
            in (Response 200 (BMessageCreated ''Messaggio inviato con successo'' (next_id d)), d2,
                snd (sendNewMessageNotification e (message_fields (contact_message (get_prop v))) d2)))"
  using assms by (simp add: contact_POST_def insert_message_def guard_call_def Let_def)

lemma contact_POST_cases:
  assumes "contact_POST e body d = (r, d', ms)"
  obtains (unchanged) "d' = d" "ms = []" "status r \<noteq> 200"
  | (accepted) v where "destructure body = Inr v" "contact_required (get_prop v)"
      "includes_str valid_request_types (get_prop v ''request_type'')" "InsertMessage \<notin> failing e"
  using assms
  by (auto simp: contact_POST_def insert_message_def guard_call_def Let_def status_def internal_error_def
           split: sum.splits if_splits)

lemma order_client_cols_email:
  "map_of (order_client_cols f) ''email'' = f ''customer_email''"
  by (simp add: order_client_cols_def map_of_defined_fields split: option.splits)

lemma contact_client_cols_email:
  "map_of (contact_client_cols f) ''email'' = f ''email''"
  by (simp add: contact_client_cols_def map_of_defined_fields split: option.splits)

text \<open>
  After an accepted order whose upsert succeeded, the client table is that of an
  upsert of the order's columns into the database with the new order.
\<close>

lemma orders_POST_upserted:
  assumes "UpsertClient \<notin> failing e" and "orders_POST e (Some v) d = (Response 200 b, d', ms)"
  shows "order_required (get_prop v)
         \<and> upsert_client e (order_client_cols (get_prop v))
             (d\<lparr>orders := orders d @ [(complete_order (get_prop v))\<lparr>o_id := next_id d,
                o_created := now e, o_updated := now e\<rparr>], next_id := Suc (next_id d)\<rparr>) = Inr d'"
  using assms(2)
proof (cases rule: orders_POST_cases)
  case unchanged then show ?thesis by (simp add: status_def)
next
  case (accepted v' p)
  from accepted(1) have v': "v' = v" by (rule destructure_Some_Inr)
  let ?d1 = "d\<lparr>orders := orders d @ [(complete_order (get_prop v))\<lparr>o_id := next_id d,
                 o_created := now e, o_updated := now e\<rparr>], next_id := Suc (next_id d)\<rparr>"
  obtain d2 where up: "upsert_client e (order_client_cols (get_prop v)) ?d1 = Inr d2"
    using upsert_client_succeeds [OF assms(1)] by blast
  have "d' = d2"
    using assms(2) orders_POST_accepted [OF accepted] up by (simp add: v' Let_def ignore_error_def)
  with up accepted(2) v' show ?thesis by simp
qed

subsection \<open>The database invariant\<close>

lemma orders_POST_keeps_inv:
  assumes "db_inv d" shows "db_inv (fst (snd (orders_POST e body d)))"
proof (cases "orders_POST e body d" rule: prod_cases3)
  case (fields r d' ms)
  then show ?thesis
  proof (cases rule: orders_POST_cases)
    case unchanged with fields assms show ?thesis by simp
  next
    case (accepted v p)
    let ?row = "(complete_order (get_prop v))\<lparr>o_id := next_id d, o_created := now e, o_updated := now e\<rparr>"
    let ?d1 = "d\<lparr>orders := orders d @ [?row], next_id := Suc (next_id d)\<rparr>"
    have i1: "insert_order e (complete_order (get_prop v)) d = Inr (?row, ?d1)"
      using accepted(5) by (simp add: insert_order_Inr)
    have "db_inv ?d1" by (rule insert_order_db_inv [OF i1 assms])
    then have "db_inv (ignore_error ?d1 (upsert_client e (order_client_cols (get_prop v)) ?d1))"
      by (blast intro: ignore_error_db_inv upsert_client_db_inv)
    then show ?thesis using orders_POST_accepted [OF accepted] by (simp add: Let_def)
  qed
qed

lemma contact_POST_keeps_inv:
  assumes "db_inv d" shows "db_inv (fst (snd (contact_POST e body d)))"
proof (cases "contact_POST e body d" rule: prod_cases3)
  case (fields r d' ms)
  then show ?thesis
  proof (cases rule: contact_POST_cases)
    case unchanged with fields assms show ?thesis by simp
  next
    case (accepted v)
    let ?row = "(contact_message (get_prop v))\<lparr>m_id := next_id d, m_created := now e, m_updated := now e\<rparr>"
    let ?d1 = "d\<lparr>messages := messages d @ [?row], next_id := Suc (next_id d)\<rparr>"
    have i1: "insert_message e (contact_message (get_prop v)) d = Inr (?row, ?d1)"
      using accepted(4) by (simp add: insert_message_Inr)
    have "db_inv ?d1" by (rule insert_message_db_inv [OF i1 assms])
    then have "db_inv (ignore_error ?d1 (upsert_client e (contact_client_cols (get_prop v)) ?d1))"
      by (blast intro: ignore_error_db_inv upsert_client_db_inv)
    then show ?thesis using contact_POST_accepted [OF accepted] by (simp add: Let_def)
  qed
qed

lemma demo_db_inv: "db_inv demo_db"
  by (simp add: db_inv_def keys_ok_def unique_emails_def)

subsection \<open>One client per e-mail\<close>

text \<open>
  C5: after an accepted order whose client upsert succeeded, starting from a
  database that satisfies the invariant, exactly one client row carries the
  order's e-mail, whether the e-mail was new or already known.
\<close>

theorem orders_POST_one_client:
  assumes "db_inv d" "UpsertClient \<notin> failing e"
    and "orders_POST e (Some v) d = (Response 200 b, d', ms)"
    and "get_prop v ''customer_email'' = Some em"
  shows "length (filter (\<lambda>c. c_email c = em) (clients d')) = 1"
proof -
  let ?d1 = "d\<lparr>orders := orders d @ [(complete_order (get_prop v))\<lparr>o_id := next_id d,
                 o_created := now e, o_updated := now e\<rparr>], next_id := Suc (next_id d)\<rparr>"
  have req: "order_required (get_prop v)"
    and up: "upsert_client e (order_client_cols (get_prop v)) ?d1 = Inr d'"
    using orders_POST_upserted [OF assms(2,3)] by simp_all
  have "em \<noteq> JNull" using req assms(4) by (auto simp: order_required_def)
  moreover have "unique_emails (clients ?d1)" using assms(1) by (simp add: db_inv_def)
  ultimately show ?thesis
    using upsert_client_email_rows [OF up] assms(4)
    by (simp add: order_client_cols_email split: list.splits)
qed

theorem orders_POST_one_client_witness:
  "db_inv demo_db \<and> UpsertClient \<notin> failing demo_env
   \<and> orders_POST demo_env (Some (JObj mario_order)) demo_db =
       (Response 200 (BOrderCreated ''Ordine creato con successo'' 3),
        demo_db\<lparr>orders := [mario_row], clients := [mario_client], next_id := 5\<rparr>, [])
   \<and> get_prop (JObj mario_order) ''customer_email'' = Some (JStr ''mario@example.com'')
   \<and> length (filter (\<lambda>c. c_email c = JStr ''mario@example.com'')
        (clients (demo_db\<lparr>orders := [mario_row], clients := [mario_client], next_id := 5\<rparr>))) = 1"
proof -
  have run: "orders_POST demo_env (Some (JObj mario_order)) demo_db =
       (Response 200 (BOrderCreated ''Ordine creato con successo'' 3),
        demo_db\<lparr>orders := [mario_row], clients := [mario_client], next_id := 5\<rparr>, [])"
    by (simp add: intake_eval)
  show ?thesis
    using orders_POST_one_client [OF demo_db_inv _ run] run demo_db_inv by simp
qed

text \<open>
  C14: when the order's e-mail belongs to an existing client, that client row (and
  no other) is merged: its name becomes the order's name, and its phone becomes the
  order's \<open>customer_phone\<close> whenever the request has that field at all, even
  when it is \<open>null\<close> or empty; only a request without the field keeps the stored
  phone.
\<close>

theorem orders_POST_merges_client:
  assumes "db_inv d" "UpsertClient \<notin> failing e"
    and "orders_POST e (Some v) d = (Response 200 b, d', ms)"
    and "get_prop v ''customer_email'' = Some em" "c0 \<in> set (clients d)" "c_email c0 = em"
  shows "filter (\<lambda>c. c_email c = em) (clients d') =
           [c0\<lparr>c_phone := (case get_prop v ''customer_phone'' of None \<Rightarrow> c_phone c0 | Some ph \<Rightarrow> ph),
               c_name := or_null (get_prop v ''customer_name'')\<rparr>]"
proof -
  let ?d1 = "d\<lparr>orders := orders d @ [(complete_order (get_prop v))\<lparr>o_id := next_id d,
                 o_created := now e, o_updated := now e\<rparr>], next_id := Suc (next_id d)\<rparr>"
  have req: "order_required (get_prop v)"
    and up: "upsert_client e (order_client_cols (get_prop v)) ?d1 = Inr d'"
    using orders_POST_upserted [OF assms(2,3)] by simp_all
  have nn: "em \<noteq> JNull" using req assms(4) by (auto simp: order_required_def)
  have ue: "unique_emails (clients d)" using assms(1) by (simp add: db_inv_def)
  have one: "filter (\<lambda>c. c_email c = em) (clients d) = [c0]"
    using length_filter_unique_email [OF ue nn] assms(5,6) by (rule filter_le1_member)
  have "filter (\<lambda>c. c_email c = em) (clients d') = [merge_client (order_client_cols (get_prop v)) c0]"
    using upsert_client_email_rows [OF up] ue nn assms(4) one
    by (simp add: order_client_cols_email)
  moreover obtain nm where "get_prop v ''customer_name'' = Some nm"
    using req by (cases "get_prop v ''customer_name''") (auto simp: order_required_def)
  ultimately show ?thesis
    using assms(4,6)
    by (simp add: merge_client_def order_client_cols_def col_or_def or_null_def
        split: option.splits)
qed

theorem orders_POST_merges_client_witness:
  "filter (\<lambda>c. c_email c = JStr ''mario@example.com'')
     (clients (fst (snd (orders_POST demo_env
        (Some (JObj (mario_order @ [(''customer_phone'', JNull)])))
        (demo_db\<lparr>clients := [known_client]\<rparr>)))))
   = [known_client\<lparr>c_phone := JNull, c_name := JStr ''Mario Rossi''\<rparr>]"
proof -
  let ?d = "demo_db\<lparr>clients := [known_client]\<rparr>"
  let ?b = "Some (JObj (mario_order @ [(''customer_phone'', JNull)]))"
  have inv: "db_inv ?d" by (simp add: db_inv_def keys_ok_def unique_emails_def)
  have run: "orders_POST demo_env ?b ?d =
      (Response 200 (BOrderCreated ''Ordine creato con successo'' 3),
       fst (snd (orders_POST demo_env ?b ?d)), snd (snd (orders_POST demo_env ?b ?d)))"
    by (simp add: intake_eval)
  show ?thesis
    using orders_POST_merges_client [OF inv _ run, of "JStr ''mario@example.com''" known_client]
    by (simp add: or_null_def)
qed

subsection \<open>Validation and persistence failures\<close>

text \<open>
  C6: an order whose fields are all present, whose product exists exactly once, but
  whose size is not among the product's sizes is rejected with 400
  \<open>Formato prodotto non valido\<close>: no order, no client change, no mail.
\<close>

theorem orders_POST_bad_size:
  assumes "destructure body = Inr v" "order_required (get_prop v)"
    and "select_single e SelectProduct (\<lambda>p. p_name p = js_string_opt (get_prop v ''product_name''))
           (products d) = Inr p"
    and "\<not> includes_str (sizes p) (get_prop v ''product_size'')"
  shows "orders_POST e body d = (Response 400 (BError ''Formato prodotto non valido''), d, [])"
  using assms by (simp add: orders_POST_def)

theorem orders_POST_bad_size_witness:
  "orders_POST demo_env (Some (JObj (mario_order @ [(''product_size'', JStr ''5L'')]))) demo_db =
     (Response 400 (BError ''Formato prodotto non valido''), demo_db, [])"
  by (rule orders_POST_bad_size [of _ "JObj (mario_order @ [(''product_size'', JStr ''5L'')])" _ _ demo_product])
     (simp_all add: intake_eval)

text \<open>
  C9: when the insert of the order fails, the handler answers 400 or 500 and
  leaves the database as it was, with no client upsert and no notification: the
  pipeline halts at the primary record.
\<close>

theorem orders_POST_insert_failure:
  assumes "InsertOrder \<in> failing e"
  shows "snd (orders_POST e body d) = (d, []) \<and> status (fst (orders_POST e body d)) \<in> {400, 500}"
  using assms
  by (simp add: orders_POST_def insert_order_def guard_call_def Let_def status_def internal_error_def
      split: sum.split)

theorem orders_POST_insert_failure_witness:
  "orders_POST (demo_env\<lparr>failing := {InsertOrder}\<rparr>) (Some (JObj mario_order)) demo_db =
     (Response 500 (BError ''Errore nella creazione dell'ordine''), demo_db, [])
   \<and> snd (orders_POST (demo_env\<lparr>failing := {InsertOrder}\<rparr>) (Some (JObj mario_order)) demo_db) = (demo_db, [])"
proof -
  have "orders_POST (demo_env\<lparr>failing := {InsertOrder}\<rparr>) (Some (JObj mario_order)) demo_db =
     (Response 500 (BError ''Errore nella creazione dell'ordine''), demo_db, [])"
    by (simp add: intake_eval)
  with orders_POST_insert_failure [of "demo_env\<lparr>failing := {InsertOrder}\<rparr>" "Some (JObj mario_order)" demo_db]
  show ?thesis by simp
qed

text \<open>
  C11: a contact message whose fields are all present but whose request type is not
  one of the five categories is rejected with 400 \<open>Tipo di richiesta non valido\<close>
  and nothing is stored or sent.
\<close>

theorem contact_POST_bad_type:
  assumes "destructure body = Inr v" "contact_required (get_prop v)"
    and "\<not> includes_str valid_request_types (get_prop v ''request_type'')"
  shows "contact_POST e body d = (Response 400 (BError ''Tipo di richiesta non valido''), d, [])"
  using assms by (simp add: contact_POST_def)

theorem contact_POST_bad_type_witness:
  "contact_POST demo_env (Some (JObj [(''name'', JStr ''Anna''), (''email'', JStr ''anna@x.it''),
      (''request_type'', JStr ''Reclamo''), (''message'', JStr ''Ciao'')])) demo_db =
     (Response 400 (BError ''Tipo di richiesta non valido''), demo_db, [])"
  by (rule contact_POST_bad_type [of _ "JObj [(''name'', JStr ''Anna''), (''email'', JStr ''anna@x.it''),
      (''request_type'', JStr ''Reclamo''), (''message'', JStr ''Ciao'')]"])
     (simp_all add: intake_eval)

subsection \<open>The response does not depend on the best-effort steps\<close>

text \<open>
  C8: the order handler's response depends on the request, the database and the
  outcome of the product lookup and the order insert only: changing whether the
  client upsert fails, whether the mail transport delivers, or the sender address
  never changes the answer.
\<close>

theorem orders_POST_response_independent:
  assumes "(SelectProduct \<in> failing e') = (SelectProduct \<in> failing e)"
    and "(InsertOrder \<in> failing e') = (InsertOrder \<in> failing e)"
  shows "fst (orders_POST e' body d) = fst (orders_POST e body d)"
  using assms
  by (simp add: orders_POST_def select_single_def guard_call_def insert_order_def Let_def
      split: sum.split prod.split)

theorem orders_POST_response_independent_witness:
  "fst (orders_POST (demo_env\<lparr>failing := {UpsertClient}, mail_delivers := False\<rparr>)
          (Some (JObj mario_order)) demo_db)
   = fst (orders_POST demo_env (Some (JObj mario_order)) demo_db)
   \<and> fst (orders_POST demo_env (Some (JObj mario_order)) demo_db) =
       Response 200 (BOrderCreated ''Ordine creato con successo'' 3)"
proof -
  have "fst (orders_POST demo_env (Some (JObj mario_order)) demo_db) =
       Response 200 (BOrderCreated ''Ordine creato con successo'' 3)"
    by (simp add: intake_eval)
  with orders_POST_response_independent
    [of "demo_env\<lparr>failing := {UpsertClient}, mail_delivers := False\<rparr>" demo_env "Some (JObj mario_order)" demo_db]
  show ?thesis by simp
qed

subsection \<open>The stored order\<close>

text \<open>
  C13: an accepted order appends exactly one row to the orders table, and the
  response carries its key, the next key of the counter. The row holds the
  request's name, e-mail, product and size as sent; its phone and notes are the
  request's when truthy and \<open>null\<close> otherwise (\<open>|| null\<close>); its quantity is
  \<open>Number.parseInt(quantity)\<close>, with 1 in place of \<open>NaN\<close> and 0 (\<open>|| 1\<close>);
  its status is \<open>Appena ordinato\<close>; both timestamps are the request's time.
\<close>

theorem orders_POST_stored_row:
  assumes "orders_POST e (Some v) d = (Response 200 b, d', ms)"
  shows "\<exists>r. orders d' = orders d @ [r] \<and> o_id r = next_id d \<and> Suc (next_id d) \<le> next_id d'
           \<and> b = BOrderCreated ''Ordine creato con successo'' (o_id r)
           \<and> get_prop v ''customer_name'' = Some (customer_name r)
           \<and> get_prop v ''customer_email'' = Some (customer_email r)
           \<and> get_prop v ''product_name'' = Some (product_name r)
           \<and> get_prop v ''product_size'' = Some (product_size r)
           \<and> customer_phone r = (if truthy (get_prop v ''customer_phone'') then the (get_prop v ''customer_phone'') else JNull)
           \<and> o_notes r = (if truthy (get_prop v ''notes'') then the (get_prop v ''notes'') else JNull)
           \<and> quantity r = JNum (case js_parse_int (get_prop v ''quantity'') of
                                  None \<Rightarrow> 1 | Some n \<Rightarrow> if n = 0 then 1 else n)
           \<and> o_status r = JStr ''Appena ordinato'' \<and> o_created r = now e \<and> o_updated r = now e"
  using assms(1)
proof (cases rule: orders_POST_cases)
  case unchanged then show ?thesis by (simp add: status_def)
next
  case (accepted v' p)
  from accepted(1) have v': "v' = v" by (rule destructure_Some_Inr)
  have req: "\<exists>x. get_prop v k = Some x" if "truthy (get_prop v k)" for k
    using that by (cases "get_prop v k") auto
  have fields: "get_prop v k = Some (or_null (get_prop v k))" if "truthy (get_prop v k)" for k
    using req [OF that] by (auto simp: or_null_def)
  have d': "orders d' = orders d @ [(complete_order (get_prop v))\<lparr>o_id := next_id d, o_created := now e,
                                                               o_updated := now e\<rparr>]
         \<and> Suc (next_id d) \<le> next_id d' \<and> b = BOrderCreated ''Ordine creato con successo'' (next_id d)"
    using assms orders_POST_accepted [OF accepted]
    by (auto simp: v' Let_def ignore_error_def upsert_client_def guard_call_def split: sum.splits if_splits)
  show ?thesis
    using d' accepted(2) fields [of "''customer_name''"] fields [of "''customer_email''"]
      fields [of "''product_name''"] fields [of "''product_size''"]
    by (simp add: v' order_required_def complete_order_def js_or_null_def or_null_def quantity_of_def
        split: option.splits)
qed

theorem orders_POST_stored_row_witness:
  "orders (fst (snd (orders_POST demo_env (Some (JObj (mario_order @ [(''quantity'', JStr ''-3'')]))) demo_db)))
     = [mario_row\<lparr>quantity := JNum (-3)\<rparr>]"
proof -
  let ?v = "JObj (mario_order @ [(''quantity'', JStr ''-3'')])"
  have q: "js_parse_int (Some (JStr ''-3'')) = Some (-3)"
    by (simp add: js_parse_int_def js_string_opt_def parse_int_def is_js_space_def radix_digit_def digits_val_def)
  have run: "orders_POST demo_env (Some ?v) demo_db =
      (Response 200 (BOrderCreated ''Ordine creato con successo'' 3),
       fst (snd (orders_POST demo_env (Some ?v) demo_db)), snd (snd (orders_POST demo_env (Some ?v) demo_db)))"
    by (simp add: intake_eval)
  obtain r where r: "orders (fst (snd (orders_POST demo_env (Some ?v) demo_db))) = [r]"
    "o_id r = 3" "customer_name r = JStr ''Mario Rossi''" "customer_email r = JStr ''mario@example.com''"
    "product_name r = JStr ''Olio Extra Vergine''" "product_size r = JStr ''1L''"
    "customer_phone r = JNull" "o_notes r = JNull" "quantity r = JNum (-3)"
    "o_status r = JStr ''Appena ordinato''" "o_created r = 1000" "o_updated r = 1000"
    using orders_POST_stored_row [OF run] q by auto
  have "r = mario_row\<lparr>quantity := JNum (-3)\<rparr>"
    using r(2-) by (cases r) simp
  then show ?thesis using r(1) by simp
qed


text \<open>
  C12: an accepted contact message appends exactly one row to the messages table,
  with the next key, which the response carries; it holds the name, e-mail, text
  and request type as sent, the type is one of the five categories, its status is
  \<open>Nuovo\<close> and both timestamps are the request's time.
\<close>

theorem contact_POST_stored_message:
  assumes "contact_POST e (Some v) d = (Response 200 b, d', ms)"
  shows "\<exists>r. messages d' = messages d @ [r] \<and> m_id r = next_id d
           \<and> b = BMessageCreated ''Messaggio inviato con successo'' (m_id r)
           \<and> get_prop v ''name'' = Some (m_name r) \<and> get_prop v ''email'' = Some (m_email r)
           \<and> get_prop v ''message'' = Some (m_message r)
           \<and> get_prop v ''request_type'' = Some (request_type r) \<and> request_type r \<in> JStr ` set valid_request_types
           \<and> m_status r = JStr ''Nuovo'' \<and> m_created r = now e \<and> m_updated r = now e"
  using assms(1)
proof (cases rule: contact_POST_cases)
  case unchanged then show ?thesis by (simp add: status_def)
next
  case (accepted v')
  from accepted(1) have v': "v' = v" by (rule destructure_Some_Inr)
  have fields: "get_prop v k = Some (or_null (get_prop v k))" if "truthy (get_prop v k)" for k
    using that by (cases "get_prop v k") (auto simp: or_null_def)
  have ty: "request_type (contact_message (get_prop v)) \<in> JStr ` set valid_request_types"
    using accepted(3) by (auto simp: v' includes_str_def contact_message_def or_null_def split: option.splits jval.splits)
  have d': "messages d' = messages d @ [(contact_message (get_prop v))\<lparr>m_id := next_id d, m_created := now e,
                                                                     m_updated := now e\<rparr>]
         \<and> b = BMessageCreated ''Messaggio inviato con successo'' (next_id d)"
    using assms contact_POST_accepted [OF accepted]
    by (auto simp: v' Let_def ignore_error_def upsert_client_def guard_call_def split: sum.splits if_splits)
  show ?thesis
    using d' ty accepted(2) fields [of "''name''"] fields [of "''email''"] fields [of "''message''"]
      fields [of "''request_type''"]
    by (simp add: v' contact_required_def contact_message_def)
qed

theorem contact_POST_stored_message_witness:
  "messages (fst (snd (contact_POST demo_env (Some (JObj [(''name'', JStr ''Anna''), (''email'', JStr ''anna@x.it''),
      (''request_type'', JStr ''Altro''), (''message'', JStr ''Ciao'')])) demo_db)))
   = [\<lparr>m_id = 3, m_name = JStr ''Anna'', m_email = JStr ''anna@x.it'', request_type = JStr ''Altro'',
       m_message = JStr ''Ciao'', m_status = JStr ''Nuovo'', m_created = 1000, m_updated = 1000\<rparr>]"
proof -
  let ?v = "JObj [(''name'', JStr ''Anna''), (''email'', JStr ''anna@x.it''),
      (''request_type'', JStr ''Altro''), (''message'', JStr ''Ciao'')]"
  have run: "contact_POST demo_env (Some ?v) demo_db =
      (Response 200 (BMessageCreated ''Messaggio inviato con successo'' 3),
       fst (snd (contact_POST demo_env (Some ?v) demo_db)), snd (snd (contact_POST demo_env (Some ?v) demo_db)))"
    by (simp add: intake_eval)
  obtain r where r: "messages (fst (snd (contact_POST demo_env (Some ?v) demo_db))) = [r]"
    "m_id r = 3" "m_name r = JStr ''Anna''" "m_email r = JStr ''anna@x.it''" "m_message r = JStr ''Ciao''"
    "request_type r = JStr ''Altro''" "m_status r = JStr ''Nuovo''" "m_created r = 1000" "m_updated r = 1000"
    using contact_POST_stored_message [OF run] by auto
  then show ?thesis by (cases r) simp
qed
end
