(* ===== verification/Admin.thy ===== *)
theory Admin
  imports Intake "HOL-Library.Multiset"
begin

text \<open>
  The admin CRUD routes under \<open>src/app/api/admin/\<close>: list, create, update by key
  and delete by key for orders, messages and clients, and the product list. None of
  them checks a credential. The create handlers insert the request body as the row,
  upsert the client and notify, like the intake handlers but without validation;
  the update handlers write \<open>{ ...updateData, updated_at }\<close>.

  A payload may only name writable columns of the table: the database rejects an
  unknown column (\<open>UnknownColumn\<close>). Writing the key or the timestamps directly
  is not modelled (those columns are not in the writable lists). The \<open>[id]\<close>
  route parameter is a row key; a malformed key is not modelled. Listings are
  ordered by \<open>created_at\<close> descending, ties in insertion order reversed.
\<close>

section \<open>Rows from payloads\<close>

definition order_cols :: "string list" where
  "order_cols = [''customer_name'', ''customer_email'', ''customer_phone'', ''product_name'',
                 ''product_size'', ''quantity'', ''status'', ''notes'']"

definition message_cols :: "string list" where
  "message_cols = [''name'', ''email'', ''request_type'', ''message'', ''status'']"

definition client_cols :: "string list" where
  "client_cols = [''email'', ''phone'', ''name'']"

definition cols_known :: "string list \<Rightarrow> (string \<times> jval) list \<Rightarrow> bool" where
  "cols_known cs kvs = list_all (\<lambda>kv. fst kv \<in> set cs) kvs"

definition first_unknown :: "string list \<Rightarrow> (string \<times> jval) list \<Rightarrow> string" where
  "first_unknown cs kvs = (case filter (\<lambda>kv. fst kv \<notin> set cs) kvs of [] \<Rightarrow> [] | kv # _ \<Rightarrow> fst kv)"

text \<open>\<open>UPDATE ... SET\<close> the columns a payload names.\<close>

definition patch_order :: "(string \<times> jval) list \<Rightarrow> order_row \<Rightarrow> order_row" where
  "patch_order kvs r =
     r\<lparr>customer_name := col_or kvs ''customer_name'' (customer_name r),
       customer_email := col_or kvs ''customer_email'' (customer_email r),
       customer_phone := col_or kvs ''customer_phone'' (customer_phone r),
       product_name := col_or kvs ''product_name'' (product_name r),
       product_size := col_or kvs ''product_size'' (product_size r),
       quantity := col_or kvs ''quantity'' (quantity r),
       o_status := col_or kvs ''status'' (o_status r),
       o_notes := col_or kvs ''notes'' (o_notes r)\<rparr>"

definition blank_order :: order_row where
  "blank_order = \<lparr>o_id = 0, customer_name = JNull, customer_email = JNull, customer_phone = JNull,
     product_name = JNull, product_size = JNull, quantity = JNull, o_status = JNull, o_notes = JNull,
     o_created = 0, o_updated = 0\<rparr>"

definition patch_message :: "(string \<times> jval) list \<Rightarrow> message_row \<Rightarrow> message_row" where
  "patch_message kvs r =
     r\<lparr>m_name := col_or kvs ''name'' (m_name r),
       m_email := col_or kvs ''email'' (m_email r),
       request_type := col_or kvs ''request_type'' (request_type r),
       m_message := col_or kvs ''message'' (m_message r),
       m_status := col_or kvs ''status'' (m_status r)\<rparr>"

definition blank_message :: message_row where
  "blank_message = \<lparr>m_id = 0, m_name = JNull, m_email = JNull, request_type = JNull,
     m_message = JNull, m_status = JNull, m_created = 0, m_updated = 0\<rparr>"

text \<open>
  \<open>.update(patch).eq("id", k).select().single()\<close>: the rows with key \<open>k\<close> are
  patched and returned; when they are not exactly one the request fails and the
  transaction is rolled back, so the table is unchanged.
\<close>

definition update_rows :: "('r \<Rightarrow> row_id) \<Rightarrow> row_id \<Rightarrow> ('r \<Rightarrow> 'r) \<Rightarrow> 'r list \<Rightarrow> 'r list" where
  "update_rows key k f rs = map (\<lambda>r. if key r = k then f r else r) rs"

definition update_single ::
  "env \<Rightarrow> db_call \<Rightarrow> ('r \<Rightarrow> row_id) \<Rightarrow> row_id \<Rightarrow> ('r \<Rightarrow> 'r) \<Rightarrow> 'r list \<Rightarrow> db_error + ('r \<times> 'r list)" where
  "update_single e c key k f rs = guard_call e c
     (let rs' = update_rows key k f rs
      in case single (filter (\<lambda>r. key r = k) rs') of
           Inl err \<Rightarrow> Inl err
         | Inr r \<Rightarrow> Inr (r, rs'))"

text \<open>\<open>.delete().eq("id", k)\<close>.\<close>

definition delete_rows :: "('r \<Rightarrow> row_id) \<Rightarrow> row_id \<Rightarrow> 'r list \<Rightarrow> 'r list" where
  "delete_rows key k rs = filter (\<lambda>r. key r \<noteq> k) rs"

text \<open>\<open>.order("created_at", { ascending: false })\<close>.\<close>

definition newest_first :: "('r \<Rightarrow> timestamp) \<Rightarrow> 'r list \<Rightarrow> 'r list" where
  "newest_first t rs = rev (sort_key t rs)"

text \<open>
  The columns of \<open>{ ...updateData, updated_at }\<close> the payload may name: the
  writable ones and \<open>updated_at\<close>, which the spread overwrites.
\<close>

definition update_cols_ok :: "string list \<Rightarrow> (string \<times> jval) list \<Rightarrow> bool" where
  "update_cols_ok cs kvs = cols_known (''updated_at'' # cs) kvs"

section \<open>/api/admin/orders\<close>

definition admin_orders_GET :: "env \<Rightarrow> db \<Rightarrow> response" where
  "admin_orders_GET e d =
     (if SelectOrders \<in> failing e
      then Response 500 (BError ''Errore nel recupero degli ordini'')
      else Response 200 (BOrders (newest_first o_created (orders d))))"

text \<open>\<open>.insert([orderData]).select().single()\<close> with the body as the row.\<close>

definition insert_order_payload :: "env \<Rightarrow> jval \<Rightarrow> db \<Rightarrow> db_error + (order_row \<times> db)" where
  "insert_order_payload e v d =
     (case v of
        JObj kvs \<Rightarrow>
          if cols_known order_cols kvs then insert_order e (patch_order (rev kvs) blank_order) d
          else Inl (UnknownColumn (first_unknown order_cols kvs))
      | _ \<Rightarrow> Inl (UnknownColumn []))"

definition admin_orders_POST :: "env \<Rightarrow> jval option \<Rightarrow> db \<Rightarrow> outcome" where
  "admin_orders_POST e body d =
     (case body of
        None \<Rightarrow> (internal_error, d, [])
      | Some v \<Rightarrow>
          (case insert_order_payload e v d of
             Inl _ \<Rightarrow> (Response 500 (BError ''Errore nella creazione dell'ordine''), d, [])
           | Inr (order, d1) \<Rightarrow>
               (let f = get_prop v;
                    d2 = ignore_error d1 (upsert_client e (order_client_cols f) d1);
                    sent = snd (sendNewOrderNotification e f d2)
                in (Response 200 (BOrder order), d2, sent))))"

definition admin_order_PUT :: "env \<Rightarrow> row_id \<Rightarrow> jval option \<Rightarrow> db \<Rightarrow> response \<times> db" where
  "admin_order_PUT e k body d =
     (let err = Response 500 (BError ''Errore nell'aggiornamento dell'ordine'')
      in case body of
           None \<Rightarrow> (internal_error, d)
         | Some v \<Rightarrow>
             (let kvs = spread v
              in if \<not> update_cols_ok order_cols kvs then (err, d)
                 else
                   (case update_single e UpdateOrder o_id k
                           (\<lambda>r. (patch_order kvs r)\<lparr>o_updated := now e\<rparr>) (orders d) of
                      Inl _ \<Rightarrow> (err, d)
                    | Inr (r, rs) \<Rightarrow> (Response 200 (BOrder r), d\<lparr>orders := rs\<rparr>))))"

definition admin_order_DELETE :: "env \<Rightarrow> row_id \<Rightarrow> db \<Rightarrow> response \<times> db" where
  "admin_order_DELETE e k d =
     (if DeleteOrder \<in> failing e
      then (Response 500 (BError ''Errore nell'eliminazione dell'ordine''), d)
      else (Response 200 (BMessage ''Ordine eliminato con successo''),
            d\<lparr>orders := delete_rows o_id k (orders d)\<rparr>))"

section \<open>/api/admin/products\<close>

definition admin_products_GET :: "env \<Rightarrow> db \<Rightarrow> response" where
  "admin_products_GET e d =
     (if SelectProducts \<in> failing e
      then Response 500 (BError ''Errore nel recupero dei prodotti'')
      else Response 200 (BProducts (sort_key p_name (products d))))"

section \<open>/api/admin/messages\<close>

definition admin_messages_GET :: "env \<Rightarrow> db \<Rightarrow> response" where
  "admin_messages_GET e d =
     (if SelectMessages \<in> failing e
      then Response 500 (BError ''Errore nel recupero dei messaggi'')
      else Response 200 (BMessages (newest_first m_created (messages d))))"

definition insert_message_payload :: "env \<Rightarrow> jval \<Rightarrow> db \<Rightarrow> db_error + (message_row \<times> db)" where
  "insert_message_payload e v d =
     (case v of
        JObj kvs \<Rightarrow>
          if cols_known message_cols kvs then insert_message e (patch_message (rev kvs) blank_message) d
          else Inl (UnknownColumn (first_unknown message_cols kvs))
      | _ \<Rightarrow> Inl (UnknownColumn []))"

definition admin_messages_POST :: "env \<Rightarrow> jval option \<Rightarrow> db \<Rightarrow> outcome" where
  "admin_messages_POST e body d =
     (case body of
        None \<Rightarrow> (internal_error, d, [])
      | Some v \<Rightarrow>
          (case insert_message_payload e v d of
             Inl _ \<Rightarrow> (Response 500 (BError ''Errore nella creazione del messaggio''), d, [])
           | Inr (msg, d1) \<Rightarrow>
               (let f = get_prop v;
                    d2 = ignore_error d1 (upsert_client e (contact_client_cols f) d1);
                    sent = snd (sendNewMessageNotification e f d2)
                in (Response 200 (BMessageRow msg), d2, sent))))"

definition admin_message_PUT :: "env \<Rightarrow> row_id \<Rightarrow> jval option \<Rightarrow> db \<Rightarrow> response \<times> db" where
  "admin_message_PUT e k body d =
     (let err = Response 500 (BError ''Errore nell'aggiornamento del messaggio'')
      in case body of
           None \<Rightarrow> (internal_error, d)
         | Some v \<Rightarrow>
             (let kvs = spread v
              in if \<not> update_cols_ok message_cols kvs then (err, d)
                 else
                   (case update_single e UpdateMessage m_id k
                           (\<lambda>r. (patch_message kvs r)\<lparr>m_updated := now e\<rparr>) (messages d) of
                      Inl _ \<Rightarrow> (err, d)
                    | Inr (r, rs) \<Rightarrow> (Response 200 (BMessageRow r), d\<lparr>messages := rs\<rparr>))))"

definition admin_message_DELETE :: "env \<Rightarrow> row_id \<Rightarrow> db \<Rightarrow> response \<times> db" where
  "admin_message_DELETE e k d =
     (if DeleteMessage \<in> failing e
      then (Response 500 (BError ''Errore nell'eliminazione del messaggio''), d)
      else (Response 200 (BMessage ''Messaggio eliminato con successo''),
            d\<lparr>messages := delete_rows m_id k (messages d)\<rparr>))"

section \<open>/api/admin/clients\<close>

text \<open>
  The clients table has a unique constraint on \<open>email\<close> (the intake's upsert
  \<open>onConflict: "email"\<close> requires one); an insert or update that would give two
  rows the same non-null email fails with \<open>UniqueViolation\<close>.
\<close>

definition email_taken :: "jval \<Rightarrow> client list \<Rightarrow> bool" where
  "email_taken em cs = (em \<noteq> JNull \<and> (\<exists>c\<in>set cs. c_email c = em))"

definition insert_client_payload :: "env \<Rightarrow> jval \<Rightarrow> db \<Rightarrow> db_error + (client \<times> db)" where
  "insert_client_payload e v d =
     (case v of
        JObj kvs \<Rightarrow>
          if \<not> cols_known client_cols kvs then Inl (UnknownColumn (first_unknown client_cols kvs))
          else guard_call e InsertClient
            (let c = new_client e (next_id d) (rev kvs)
             in if email_taken (c_email c) (clients d) then Inl UniqueViolation
                else Inr (c, d\<lparr>clients := clients d @ [c], next_id := Suc (next_id d)\<rparr>))
      | _ \<Rightarrow> Inl (UnknownColumn []))"

definition admin_clients_GET :: "env \<Rightarrow> db \<Rightarrow> response" where
  "admin_clients_GET e d =
     (if SelectClients \<in> failing e
      then Response 500 (BError ''Errore nel recupero dei clienti'')
      else Response 200 (BClients (newest_first c_created (clients d))))"

definition admin_clients_POST :: "env \<Rightarrow> jval option \<Rightarrow> db \<Rightarrow> response \<times> db" where
  "admin_clients_POST e body d =
     (case body of
        None \<Rightarrow> (internal_error, d)
      | Some v \<Rightarrow>
          (case insert_client_payload e v d of
             Inl _ \<Rightarrow> (Response 500 (BError ''Errore nella creazione del cliente''), d)
           | Inr (c, d') \<Rightarrow> (Response 200 (BClient c), d')))"

text \<open>The update of a client row: the patched row's email must be free among the other rows.\<close>

definition update_client :: "env \<Rightarrow> row_id \<Rightarrow> (string \<times> jval) list \<Rightarrow> db \<Rightarrow> db_error + (client \<times> db)" where
  "update_client e k kvs d =
     (let f = \<lambda>c. (merge_client kvs c)\<lparr>c_updated := now e\<rparr>
      in if (\<exists>c\<in>set (clients d). c_id c = k \<and> email_taken (c_email (f c)) (filter (\<lambda>c. c_id c \<noteq> k) (clients d)))
         then guard_call e UpdateClient (Inl UniqueViolation)
         else (case update_single e UpdateClient c_id k f (clients d) of
                 Inl err \<Rightarrow> Inl err
               | Inr (c, cs) \<Rightarrow> Inr (c, d\<lparr>clients := cs\<rparr>)))"

definition admin_client_PUT :: "env \<Rightarrow> row_id \<Rightarrow> jval option \<Rightarrow> db \<Rightarrow> response \<times> db" where
  "admin_client_PUT e k body d =
     (let err = Response 500 (BError ''Errore nell'aggiornamento del cliente'')
      in case body of
           None \<Rightarrow> (internal_error, d)
         | Some v \<Rightarrow>
             (let kvs = spread v
              in if \<not> update_cols_ok client_cols kvs then (err, d)
                 else
                   (case update_client e k kvs d of
                      Inl _ \<Rightarrow> (err, d)
                    | Inr (c, d') \<Rightarrow> (Response 200 (BClient c), d'))))"

definition admin_client_DELETE :: "env \<Rightarrow> row_id \<Rightarrow> db \<Rightarrow> response \<times> db" where
  "admin_client_DELETE e k d =
     (if DeleteClient \<in> failing e
      then (Response 500 (BError ''Errore nell'eliminazione del cliente''), d)
      else (Response 200 (BMessage ''Cliente eliminato con successo''),
            d\<lparr>clients := delete_rows c_id k (clients d)\<rparr>))"

section \<open>The table invariant\<close>

lemma update_single_Inr:
  "update_single e c key k f rs = Inr (r, rs') \<longleftrightarrow>
     c \<notin> failing e \<and> rs' = update_rows key k f rs \<and> filter (\<lambda>r. key r = k) rs' = [r]"
  by (auto simp: update_single_def guard_call_def Let_def single_Inr_iff split: sum.splits)

lemma map_key_update_rows:
  "(\<And>r. key (f r) = key r) \<Longrightarrow> map key (update_rows key k f rs) = map key rs"
  by (induction rs) (auto simp: update_rows_def)

lemma keys_ok_filter: "keys_ok (map key rs) n \<Longrightarrow> keys_ok (map key (filter P rs)) n"
  by (auto simp: keys_ok_def list_all_iff distinct_map_filter)

lemma patch_keys [simp]:
  "o_id (patch_order kvs r) = o_id r" "m_id (patch_message kvs m) = m_id m"
  by (simp_all add: patch_order_def patch_message_def)

lemma admin_order_PUT_db_inv:
  "admin_order_PUT e k body d = (resp, d') \<Longrightarrow> db_inv d \<Longrightarrow> db_inv d'"
  by (auto simp: admin_order_PUT_def Let_def update_single_Inr db_inv_def map_key_update_rows
      split: option.splits if_splits sum.splits)

lemma admin_message_PUT_db_inv:
  "admin_message_PUT e k body d = (resp, d') \<Longrightarrow> db_inv d \<Longrightarrow> db_inv d'"
  by (auto simp: admin_message_PUT_def Let_def update_single_Inr db_inv_def map_key_update_rows
      split: option.splits if_splits sum.splits)

lemma admin_DELETE_db_inv:
  "db_inv d \<Longrightarrow> db_inv (snd (admin_order_DELETE e k d))"
  "db_inv d \<Longrightarrow> db_inv (snd (admin_message_DELETE e k d))"
  "db_inv d \<Longrightarrow> db_inv (snd (admin_client_DELETE e k d))"
  by (auto simp: admin_order_DELETE_def admin_message_DELETE_def admin_client_DELETE_def
      delete_rows_def db_inv_def keys_ok_filter unique_emails_def distinct_filter_map_filter)

lemma insert_order_payload_db_inv:
  "insert_order_payload e v d = Inr (r, d') \<Longrightarrow> db_inv d \<Longrightarrow> db_inv d'"
  by (auto simp: insert_order_payload_def intro: insert_order_db_inv split: jval.splits if_splits)

lemma insert_message_payload_db_inv:
  "insert_message_payload e v d = Inr (r, d') \<Longrightarrow> db_inv d \<Longrightarrow> db_inv d'"
  by (auto simp: insert_message_payload_def intro: insert_message_db_inv split: jval.splits if_splits)

lemma upsert_ignored_db_inv:
  "db_inv d \<Longrightarrow> db_inv (ignore_error d (upsert_client e cols d))"
  by (auto intro: ignore_error_db_inv upsert_client_db_inv)

lemma admin_orders_POST_db_inv:
  "admin_orders_POST e body d = (resp, d', ms) \<Longrightarrow> db_inv d \<Longrightarrow> db_inv d'"
  by (auto simp: admin_orders_POST_def Let_def dest: insert_order_payload_db_inv
      intro: upsert_ignored_db_inv split: option.splits sum.splits)

lemma admin_messages_POST_db_inv:
  "admin_messages_POST e body d = (resp, d', ms) \<Longrightarrow> db_inv d \<Longrightarrow> db_inv d'"
  by (auto simp: admin_messages_POST_def Let_def dest: insert_message_payload_db_inv
      intro: upsert_ignored_db_inv split: option.splits sum.splits)

lemma insert_client_payload_Inr:
  "insert_client_payload e v d = Inr (c, d') \<Longrightarrow>
     \<exists>kvs. c = new_client e (next_id d) (rev kvs) \<and> \<not> email_taken (c_email c) (clients d)
       \<and> d' = d\<lparr>clients := clients d @ [c], next_id := Suc (next_id d)\<rparr>"
  by (auto simp: insert_client_payload_def guard_call_def Let_def split: jval.splits if_splits)

lemma admin_clients_POST_db_inv:
  "admin_clients_POST e body d = (resp, d') \<Longrightarrow> db_inv d \<Longrightarrow> db_inv d'"
  by (auto simp: admin_clients_POST_def db_inv_def keys_ok_snoc keys_ok_Suc email_taken_def
      new_client_def unique_emails_snoc dest!: insert_client_payload_Inr split: option.splits sum.splits)

lemma update_client_Inr:
  "update_client e k kvs d = Inr (c, d') \<Longrightarrow>
     d' = d\<lparr>clients := update_rows c_id k (\<lambda>c. (merge_client kvs c)\<lparr>c_updated := now e\<rparr>) (clients d)\<rparr>
       \<and> \<not> (\<exists>c\<in>set (clients d). c_id c = k \<and>
             email_taken (c_email ((merge_client kvs c)\<lparr>c_updated := now e\<rparr>)) (filter (\<lambda>c. c_id c \<noteq> k) (clients d)))"
  by (auto simp: update_client_def update_single_Inr guard_call_def Let_def split: if_splits sum.splits)

lemma unique_emails_update:
  assumes "distinct (map c_id cs)" "unique_emails cs"
    and "\<not> (\<exists>c\<in>set cs. c_id c = k \<and> email_taken (c_email (f c)) (filter (\<lambda>c. c_id c \<noteq> k) cs))"
  shows "unique_emails (update_rows c_id k f cs)"
  unfolding unique_emails_def update_rows_def
  by (rule distinct_filter_map_update) (use assms in \<open>auto simp: unique_emails_def email_taken_def\<close>)

lemma admin_client_PUT_db_inv:
  "admin_client_PUT e k body d = (resp, d') \<Longrightarrow> db_inv d \<Longrightarrow> db_inv d'"
  by (auto simp: admin_client_PUT_def Let_def db_inv_def map_key_update_rows merge_client_id keys_ok_def
      dest!: update_client_Inr intro!: unique_emails_update split: option.splits if_splits sum.splits)

lemma filter_key_update_rows:
  assumes "distinct (map key rs)" "r \<in> set rs" "key r = k" "\<And>x. key (f x) = key x"
  shows "filter (\<lambda>x. key x = k) (update_rows key k f rs) = [f r]"
  using assms by (induction rs) (auto simp: update_rows_def filter_empty_conv image_iff)

lemma newest_first_mset: "mset (newest_first t rs) = mset rs"
  by (simp add: newest_first_def)

lemma newest_first_sorted: "sorted_wrt (\<lambda>a b. t b \<le> t a) (newest_first t rs)"
  by (simp add: newest_first_def sorted_wrt_rev sorted_sort_key[unfolded sorted_map] )

lemma update_single_at:
  assumes "distinct (map key rs)" "r \<in> set rs" "key r = k" "\<And>x. key (f x) = key x" "c \<notin> failing e"
  shows "update_single e c key k f rs = Inr (f r, update_rows key k f rs)"
  using assms by (simp add: update_single_def guard_call_def filter_key_update_rows)

lemma patch_message_status:
  "(\<lambda>x. (patch_message [(''status'', v)] x)\<lparr>m_updated := t\<rparr>) = (\<lambda>x. x\<lparr>m_status := v, m_updated := t\<rparr>)"
  by (simp add: fun_eq_iff patch_message_def col_or_def)

lemma admin_message_PUT_status:
  assumes "db_inv d" "x \<in> set (messages d)" "m_id x = k" "UpdateMessage \<notin> failing e"
  shows "admin_message_PUT e k (Some (JObj [(''status'', v)])) d =
           (Response 200 (BMessageRow (x\<lparr>m_status := v, m_updated := now e\<rparr>)),
            d\<lparr>messages := update_rows m_id k (\<lambda>x. x\<lparr>m_status := v, m_updated := now e\<rparr>) (messages d)\<rparr>)"
  using assms
  by (simp add: admin_message_PUT_def patch_message_status update_single_at db_inv_def keys_ok_def
      update_cols_ok_def cols_known_def message_cols_def)

lemma update_rows_key_at:
  "r \<in> set (update_rows key k f rs) \<Longrightarrow> key r = k \<Longrightarrow> (\<And>x. key (f x) = key x) \<Longrightarrow> \<exists>y\<in>set rs. r = f y"
  by (auto simp: update_rows_def split: if_splits)

section \<open>Properties\<close>

text \<open>
  C15: the administrator's order update accepts any value as the new status: a
  payload \<open>{ status: v }\<close> on an existing order answers 200 with the row whose
  status is \<open>v\<close> and \<open>updated_at\<close> is now, and writes that row, whatever \<open>v\<close>
  is; nothing restricts it to the three states of an order.
\<close>

theorem admin_order_PUT_status:
  assumes "db_inv d" "r \<in> set (orders d)" "o_id r = k" "UpdateOrder \<notin> failing e"
  shows "admin_order_PUT e k (Some (JObj [(''status'', v)])) d =
           (Response 200 (BOrder (r\<lparr>o_status := v, o_updated := now e\<rparr>)),
            d\<lparr>orders := update_rows o_id k (\<lambda>x. x\<lparr>o_status := v, o_updated := now e\<rparr>) (orders d)\<rparr>)"
proof -
  have upd: "(\<lambda>x. (patch_order [(''status'', v)] x)\<lparr>o_updated := now e\<rparr>) = (\<lambda>x. x\<lparr>o_status := v, o_updated := now e\<rparr>)"
    by (simp add: fun_eq_iff patch_order_def col_or_def)
  have "distinct (map o_id (orders d))" using assms(1) by (simp add: db_inv_def keys_ok_def)
  then have "filter (\<lambda>x. o_id x = k) (update_rows o_id k (\<lambda>x. x\<lparr>o_status := v, o_updated := now e\<rparr>) (orders d))
      = [r\<lparr>o_status := v, o_updated := now e\<rparr>]"
    using assms(2,3) by (intro filter_key_update_rows) simp_all
  with assms(4) show ?thesis
    by (simp add: admin_order_PUT_def update_single_def guard_call_def upd update_cols_ok_def
        cols_known_def order_cols_def)
qed

lemma admin_order_PUT_status_witness:
  "admin_order_PUT demo_env 3 (Some (JObj [(''status'', JStr ''Spedito'')]))
     (demo_db\<lparr>orders := [mario_row\<lparr>o_id := 3\<rparr>], next_id := 4\<rparr>)
   = (Response 200 (BOrder (mario_row\<lparr>o_id := 3, o_status := JStr ''Spedito'', o_updated := 1000\<rparr>)),
      demo_db\<lparr>orders := [mario_row\<lparr>o_id := 3, o_status := JStr ''Spedito'', o_updated := 1000\<rparr>], next_id := 4\<rparr>)"
  by (rule admin_order_PUT_status [of _ "mario_row\<lparr>o_id := 3\<rparr>", THEN trans])
     (simp_all add: db_inv_def keys_ok_def unique_emails_def update_rows_def)

text \<open>
  C16: the administrator's order creation applies none of the intake's checks: any
  object naming only order columns is stored as given (product, size, quantity and
  status unchecked) and answered with 200, when the insert itself succeeds.
\<close>

theorem admin_orders_POST_unvalidated:
  assumes "cols_known order_cols kvs" "InsertOrder \<notin> failing e"
  shows "fst (admin_orders_POST e (Some (JObj kvs)) d) =
           Response 200 (BOrder ((patch_order (rev kvs) blank_order)\<lparr>o_id := next_id d, o_created := now e, o_updated := now e\<rparr>))"
  using assms by (simp add: admin_orders_POST_def insert_order_payload_def insert_order_def guard_call_def Let_def)

lemma admin_orders_POST_unvalidated_witness:
  "fst (admin_orders_POST demo_env (Some (JObj [(''product_name'', JStr ''Vino''), (''quantity'', JNum (-3))])) demo_db) =
     Response 200 (BOrder (blank_order\<lparr>product_name := JStr ''Vino'', quantity := JNum (-3), o_id := 3,
                                         o_created := 1000, o_updated := 1000\<rparr>))"
  by (rule admin_orders_POST_unvalidated [THEN trans])
     (simp_all add: cols_known_def order_cols_def patch_order_def col_or_def blank_order_def)

text \<open>
  Creating a client whose email another client already has fails with 500
  and leaves the database unchanged (the unique constraint on \<open>email\<close>).
\<close>

theorem admin_clients_POST_duplicate:
  assumes "cols_known client_cols kvs" "map_of (rev kvs) ''email'' = Some em" "em \<noteq> JNull"
    and "c \<in> set (clients d)" "c_email c = em"
  shows "admin_clients_POST e (Some (JObj kvs)) d = (Response 500 (BError ''Errore nella creazione del cliente''), d)"
  using assms
  by (auto simp: admin_clients_POST_def insert_client_payload_def guard_call_def Let_def email_taken_def
      new_client_def col_or_def)

lemma admin_clients_POST_duplicate_witness:
  "admin_clients_POST demo_env (Some (JObj [(''email'', JStr ''mario@example.com''), (''name'', JStr ''M'')]))
     (demo_db\<lparr>clients := [known_client]\<rparr>)
   = (Response 500 (BError ''Errore nella creazione del cliente''), demo_db\<lparr>clients := [known_client]\<rparr>)"
  by (rule admin_clients_POST_duplicate [where em = "JStr ''mario@example.com''" and c = known_client])
     (simp_all add: cols_known_def client_cols_def)

text \<open>
  C19: the order listing answers 200 with exactly the stored orders, each once,
  newest first, whenever the select succeeds.
\<close>

theorem admin_orders_GET_listing:
  "SelectOrders \<notin> failing e \<Longrightarrow>
   \<exists>os. admin_orders_GET e d = Response 200 (BOrders os) \<and> mset os = mset (orders d)
        \<and> sorted_wrt (\<lambda>a b. o_created b \<le> o_created a) os"
  by (auto simp: admin_orders_GET_def newest_first_mset newest_first_sorted)

lemma admin_orders_GET_listing_witness:
  "\<exists>os. admin_orders_GET demo_env demo_db = Response 200 (BOrders os) \<and> mset os = mset (orders demo_db)
        \<and> sorted_wrt (\<lambda>a b. o_created b \<le> o_created a) os"
  by (rule admin_orders_GET_listing) simp

end
