(* ===== verification/Routes.thy ===== *)
theory Routes
  imports Auth Admin
begin

text \<open>
  The HTTP surface of the application: the Next.js app router maps each file
  \<open>src/app/api/**/route.ts\<close> and each exported method to a handler. A request is
  the route with its \<open>[id]\<close> parameter, the \<open>admin-token\<close> cookie the login page
  sets (\<open>login/page.tsx\<close>, line 38) and the JSON body (\<open>None\<close> when it does not
  parse). \<open>handle\<close> dispatches a request to the handler of its route and returns
  its outcome; \<open>run\<close> serves a sequence of requests, each under its own
  environment, threading the database. No handler reads the cookie.

  The state machine of the database is the inductive set \<open>reachable\<close>: the
  provisioned database and everything a request leads to from a reachable one.
\<close>

section \<open>Requests\<close>

datatype route =
    LoginPOST | SettingsGET | SettingsPasswordPUT | SettingsEmailPUT
  | FixPasswordPOST | DebugGET | TestAuthGET
  | OrdersGET | OrdersPOST | ContactPOST
  | AdminOrdersGET | AdminOrdersPOST | AdminOrderPUT row_id | AdminOrderDELETE row_id
  | AdminMessagesGET | AdminMessagesPOST | AdminMessagePUT row_id | AdminMessageDELETE row_id
  | AdminClientsGET | AdminClientsPOST | AdminClientPUT row_id | AdminClientDELETE row_id
  | AdminProductsGET

record request =
  req_route :: route
  req_token :: "token option"
  req_body :: "jval option"

text \<open>The routes of the administrator's CRUD API, \<open>src/app/api/admin/{orders,messages,clients,products}\<close>.\<close>

fun admin_crud :: "route \<Rightarrow> bool" where
  "admin_crud AdminOrdersGET = True"
| "admin_crud AdminOrdersPOST = True"
| "admin_crud (AdminOrderPUT _) = True"
| "admin_crud (AdminOrderDELETE _) = True"
| "admin_crud AdminMessagesGET = True"
| "admin_crud AdminMessagesPOST = True"
| "admin_crud (AdminMessagePUT _) = True"
| "admin_crud (AdminMessageDELETE _) = True"
| "admin_crud AdminClientsGET = True"
| "admin_crud AdminClientsPOST = True"
| "admin_crud (AdminClientPUT _) = True"
| "admin_crud (AdminClientDELETE _) = True"
| "admin_crud AdminProductsGET = True"
| "admin_crud _ = False"

definition read_only :: "response \<Rightarrow> db \<Rightarrow> outcome" where
  "read_only r d = (r, d, [])"

definition no_mail :: "response \<times> db \<Rightarrow> outcome" where
  "no_mail rd = (fst rd, snd rd, [])"

definition handle :: "env \<Rightarrow> request \<Rightarrow> db \<Rightarrow> outcome" where
  "handle e r d =
     (let b = req_body r
      in case req_route r of
           LoginPOST \<Rightarrow> read_only (login_POST e b d) d
         | SettingsGET \<Rightarrow> read_only (settings_GET e d) d
         | SettingsPasswordPUT \<Rightarrow> no_mail (settings_password_PUT e b d)
         | SettingsEmailPUT \<Rightarrow> no_mail (settings_email_PUT e b d)
         | FixPasswordPOST \<Rightarrow> no_mail (fix_password_POST e d)
         | DebugGET \<Rightarrow> read_only (debug_GET e d) d
         | TestAuthGET \<Rightarrow> read_only (test_auth_GET e d) d
         | OrdersGET \<Rightarrow> read_only (orders_GET e d) d
         | OrdersPOST \<Rightarrow> orders_POST e b d
         | ContactPOST \<Rightarrow> contact_POST e b d
         | AdminOrdersGET \<Rightarrow> read_only (admin_orders_GET e d) d
         | AdminOrdersPOST \<Rightarrow> admin_orders_POST e b d
         | AdminOrderPUT k \<Rightarrow> no_mail (admin_order_PUT e k b d)
         | AdminOrderDELETE k \<Rightarrow> no_mail (admin_order_DELETE e k d)
         | AdminMessagesGET \<Rightarrow> read_only (admin_messages_GET e d) d
         | AdminMessagesPOST \<Rightarrow> admin_messages_POST e b d
         | AdminMessagePUT k \<Rightarrow> no_mail (admin_message_PUT e k b d)
         | AdminMessageDELETE k \<Rightarrow> no_mail (admin_message_DELETE e k d)
         | AdminClientsGET \<Rightarrow> read_only (admin_clients_GET e d) d
         | AdminClientsPOST \<Rightarrow> no_mail (admin_clients_POST e b d)
         | AdminClientPUT k \<Rightarrow> no_mail (admin_client_PUT e k b d)
         | AdminClientDELETE k \<Rightarrow> no_mail (admin_client_DELETE e k d)
         | AdminProductsGET \<Rightarrow> read_only (admin_products_GET e d) d)"

text \<open>Requests served one after the other: the responses and the mails, in order.\<close>

fun run :: "(env \<times> request) list \<Rightarrow> db \<Rightarrow> (response \<times> mail list) list \<times> db" where
  "run [] d = ([], d)"
| "run ((e, r) # rs) d =
     (case handle e r d of
        (resp, d', ms) \<Rightarrow> (case run rs d' of (out, d'') \<Rightarrow> ((resp, ms) # out, d'')))"

section \<open>Reachable databases\<close>

text \<open>
  The database the provisioning script leaves (the script is not in the
  repository; the spec describes it): one admin row, the catalogue, empty orders,
  messages and clients, and a key counter above every key.
\<close>

definition provisioned :: "db \<Rightarrow> bool" where
  "provisioned d =
     (length (admin_users d) = 1 \<and> orders d = [] \<and> messages d = [] \<and> clients d = []
      \<and> list_all (\<lambda>p. p_id p < next_id d) (products d))"

inductive reachable :: "db \<Rightarrow> bool" where
  init: "provisioned d \<Longrightarrow> reachable d"
| step: "reachable d \<Longrightarrow> handle e r d = (resp, d', ms) \<Longrightarrow> reachable d'"

section \<open>Administrator accounts and the catalogue\<close>

definition admin_accounts :: "db \<Rightarrow> (row_id \<times> string) list" where
  "admin_accounts d = map (\<lambda>a. (a_id a, a_email a)) (admin_users d)"

section \<open>Sample requests\<close>

abbreviation mario_request :: request where
  "mario_request \<equiv> \<lparr>req_route = OrdersPOST, req_token = None, req_body = Some (JObj mario_order)\<rparr>"

section \<open>Properties\<close>

lemma db_inv_update_admins [simp]: "db_inv (update_admins P f d) \<longleftrightarrow> db_inv d"
  by (simp add: db_inv_def)

lemma auth_handlers_touch_admins:
  "snd (settings_password_PUT e b d) = d \<or> (\<exists>P f. snd (settings_password_PUT e b d) = update_admins P f d)"
  "snd (settings_email_PUT e b d) = d \<or> (\<exists>P f. snd (settings_email_PUT e b d) = update_admins P f d)"
  "snd (fix_password_POST e d) = d \<or> (\<exists>P f. snd (fix_password_POST e d) = update_admins P f d)"
  by (auto simp: settings_password_PUT_def settings_email_PUT_def fix_password_POST_def Let_def
      split: sum.splits if_splits)

lemma auth_handlers_db_inv:
  assumes "db_inv d"
  shows "db_inv (snd (settings_password_PUT e b d))" "db_inv (snd (settings_email_PUT e b d))"
    "db_inv (snd (fix_password_POST e d))"
  using auth_handlers_touch_admins assms by (metis db_inv_update_admins)+

lemma handle_keeps_db_inv:
  assumes "db_inv d" "handle e r d = (resp, d', ms)"
  shows "db_inv d'"
proof (cases "req_route r")
  case SettingsPasswordPUT
  then show ?thesis using assms auth_handlers_db_inv(1)
    by (auto simp: handle_def no_mail_def Let_def)
next
  case SettingsEmailPUT
  then show ?thesis using assms auth_handlers_db_inv(2)
    by (auto simp: handle_def no_mail_def Let_def)
next
  case FixPasswordPOST
  then show ?thesis using assms auth_handlers_db_inv(3)
    by (auto simp: handle_def no_mail_def Let_def)
next
  case OrdersPOST
  then show ?thesis using assms orders_POST_keeps_inv [of d e "req_body r"] by (simp add: handle_def Let_def)
next
  case ContactPOST
  then show ?thesis using assms contact_POST_keeps_inv [of d e "req_body r"] by (simp add: handle_def Let_def)
qed (use assms in \<open>auto simp: handle_def Let_def read_only_def no_mail_def admin_DELETE_db_inv
       dest: admin_orders_POST_db_inv admin_messages_POST_db_inv
       intro: admin_order_PUT_db_inv [OF prod.collapse [symmetric]] admin_message_PUT_db_inv [OF prod.collapse [symmetric]]
         admin_clients_POST_db_inv [OF prod.collapse [symmetric]] admin_client_PUT_db_inv [OF prod.collapse [symmetric]]\<close>)

lemma upsert_ignored_fixed [simp]:
  "admin_users (ignore_error d (upsert_client e cols d)) = admin_users d"
  "products (ignore_error d (upsert_client e cols d)) = products d"
  by (auto simp: ignore_error_def upsert_client_def guard_call_def Let_def split: sum.splits if_splits)

lemma intake_fixed:
  "admin_users (fst (snd (orders_POST e b d))) = admin_users d \<and> products (fst (snd (orders_POST e b d))) = products d"
  "admin_users (fst (snd (contact_POST e b d))) = admin_users d \<and> products (fst (snd (contact_POST e b d))) = products d"
proof -
  show "admin_users (fst (snd (orders_POST e b d))) = admin_users d \<and> products (fst (snd (orders_POST e b d))) = products d"
  proof (cases "orders_POST e b d" rule: prod_cases3)
    case (fields r d' ms)
    then show ?thesis
      by (cases rule: orders_POST_cases) (use fields in \<open>auto simp: orders_POST_accepted Let_def\<close>)
  qed
  show "admin_users (fst (snd (contact_POST e b d))) = admin_users d \<and> products (fst (snd (contact_POST e b d))) = products d"
  proof (cases "contact_POST e b d" rule: prod_cases3)
    case (fields r d' ms)
    then show ?thesis
      by (cases rule: contact_POST_cases) (use fields in \<open>auto simp: contact_POST_accepted Let_def\<close>)
  qed
qed

lemma admin_handlers_fixed:
  "admin_users (fst (snd (admin_orders_POST e b d))) = admin_users d \<and> products (fst (snd (admin_orders_POST e b d))) = products d"
  "admin_users (fst (snd (admin_messages_POST e b d))) = admin_users d \<and> products (fst (snd (admin_messages_POST e b d))) = products d"
  "admin_users (snd (admin_order_PUT e k b d)) = admin_users d \<and> products (snd (admin_order_PUT e k b d)) = products d"
  "admin_users (snd (admin_message_PUT e k b d)) = admin_users d \<and> products (snd (admin_message_PUT e k b d)) = products d"
  "admin_users (snd (admin_clients_POST e b d)) = admin_users d \<and> products (snd (admin_clients_POST e b d)) = products d"
  "admin_users (snd (admin_client_PUT e k b d)) = admin_users d \<and> products (snd (admin_client_PUT e k b d)) = products d"
  by (auto simp: admin_orders_POST_def admin_messages_POST_def admin_order_PUT_def admin_message_PUT_def
      admin_clients_POST_def admin_client_PUT_def insert_order_payload_def insert_message_payload_def
      insert_client_payload_def update_client_def insert_order_def insert_message_def guard_call_def Let_def
      update_single_Inr split: option.splits sum.splits if_splits jval.splits)

lemma admin_accounts_update_admins:
  "(\<And>a. a_id (f a) = a_id a) \<Longrightarrow> (\<And>a. a_email (f a) = a_email a) \<Longrightarrow>
   admin_accounts (update_admins P f d) = admin_accounts d"
  by (induction "admin_users d" arbitrary: d) (auto simp: admin_accounts_def update_admins_def)

lemma auth_handlers_fixed:
  "admin_accounts (snd (settings_password_PUT e b d)) = admin_accounts d \<and> products (snd (settings_password_PUT e b d)) = products d"
  "admin_accounts (snd (settings_email_PUT e b d)) = admin_accounts d \<and> products (snd (settings_email_PUT e b d)) = products d"
  "admin_accounts (snd (fix_password_POST e d)) = admin_accounts d \<and> products (snd (fix_password_POST e d)) = products d"
  by (auto simp: settings_password_PUT_def settings_email_PUT_def fix_password_POST_def Let_def
      admin_accounts_update_admins split: sum.splits if_splits)

lemma handle_fixed:
  "admin_accounts (fst (snd (handle e r d))) = admin_accounts d \<and> products (fst (snd (handle e r d))) = products d"
  by (cases "req_route r")
     (simp_all add: handle_def Let_def read_only_def no_mail_def admin_accounts_def intake_fixed
      admin_handlers_fixed auth_handlers_fixed [unfolded admin_accounts_def]
      admin_order_DELETE_def admin_message_DELETE_def admin_client_DELETE_def)

lemma provisioned_db_inv: "provisioned d \<Longrightarrow> db_inv d"
  by (simp add: provisioned_def db_inv_def keys_ok_def unique_emails_def)

lemma reachable_db_inv: "reachable d \<Longrightarrow> db_inv d"
  by (induction rule: reachable.induct) (auto simp: provisioned_db_inv intro: handle_keeps_db_inv)

lemma reachable_handle: "reachable d \<Longrightarrow> reachable (fst (snd (handle e r d)))"
  by (rule reachable.step [where resp = "fst (handle e r d)" and ms = "snd (snd (handle e r d))"]) simp_all

text \<open>
  C23: no sequence of requests creates, deletes or renames an administrator
  account or changes the catalogue: the ids and login emails of the admin rows
  and the product rows after a run are those before it.
\<close>

theorem run_fixed:
  "admin_accounts (snd (run rs d)) = admin_accounts d \<and> products (snd (run rs d)) = products d"
proof (induction rs arbitrary: d)
  case Nil
  then show ?case by simp
next
  case (Cons er rs)
  obtain e r where er: "er = (e, r)" by fastforce
  obtain resp d' ms where h: "handle e r d = (resp, d', ms)" by (cases "handle e r d") auto
  have "admin_accounts d' = admin_accounts d \<and> products d' = products d"
    using handle_fixed [of e r d] h by simp
  with Cons.IH [of d'] show ?case by (cases "run rs d'") (simp add: er h)
qed

end
