(* ===== verification/Pages.thy ===== *)
theory Pages
  imports Admin
begin

text \<open>
  The client side of the admin pages under \<open>src/app/admin/\<close>, as far as it changes
  state or computes what is shown: the messages page (\<open>messages/page.tsx\<close>:
  \<open>fetchMessages\<close>, \<open>filterMessages\<close>, \<open>handleStatusUpdate\<close>,
  \<open>openMessageDialog\<close>) and the search of the clients page (\<open>clients/page.tsx\<close>:
  \<open>fetchClients\<close>, \<open>filterClients\<close>). The page's React state is a record; each handler takes the
  page state and the database and returns both, calling the route handlers of
  \<open>Admin\<close> for its \<open>fetch\<close> calls. The state setters here set only their
  field: the messages page's effect that re-filters runs after the render, in
  \<open>MessagesPage\<close>, through the effect loop of \<open>ReactEffects\<close>. The clients
  page's search effect is called wherever its dependencies are set.
  Rendering (JSX) and the loading flag are not modelled.
\<close>

section \<open>The messages page\<close>

record msg_page =
  mp_messages :: "message_row list"
  mp_filtered :: "message_row list"
  mp_selected :: "message_row option"
  mp_dialog :: bool
  mp_status_filter :: string
  mp_type_filter :: string

text \<open>\<open>filterMessages\<close>: \<open>"all"\<close> disables a filter; \<open>===\<close> on the status and type.\<close>

definition filterMessages :: "string \<Rightarrow> string \<Rightarrow> message_row list \<Rightarrow> message_row list" where
  "filterMessages sf tf ms =
     (let f1 = (if sf \<noteq> ''all'' then filter (\<lambda>m. m_status m = JStr sf) ms else ms)
      in if tf \<noteq> ''all'' then filter (\<lambda>m. request_type m = JStr tf) f1 else f1)"

text \<open>The state setter \<open>setMessages\<close>.\<close>

definition setMessages :: "message_row list \<Rightarrow> msg_page \<Rightarrow> msg_page" where
  "setMessages ms p = p\<lparr>mp_messages := ms\<rparr>"

text \<open>\<open>fetchMessages\<close>: \<open>setMessages(data.messages || [])\<close>; an error body has no \<open>messages\<close>.\<close>

definition fetchMessages :: "env \<Rightarrow> db \<Rightarrow> msg_page \<Rightarrow> msg_page" where
  "fetchMessages e d p =
     (case admin_messages_GET e d of
        Response _ (BMessages ms) \<Rightarrow> setMessages ms p
      | _ \<Rightarrow> setMessages [] p)"

text \<open>\<open>response.ok\<close>: a status in 200--299.\<close>

definition response_ok :: "response \<Rightarrow> bool" where
  "response_ok r = (200 \<le> status r \<and> status r \<le> 299)"

definition handleStatusUpdate ::
  "env \<Rightarrow> row_id \<Rightarrow> string \<Rightarrow> msg_page \<times> db \<Rightarrow> msg_page \<times> db" where
  "handleStatusUpdate e k s pd =
     (let (p, d) = pd;
          (r, d') = admin_message_PUT e k (Some (JObj [(''status'', JStr s)])) d
      in if response_ok r then (fetchMessages e d' p, d') else (p, d'))"

definition openMessageDialog :: "env \<Rightarrow> message_row \<Rightarrow> msg_page \<times> db \<Rightarrow> msg_page \<times> db" where
  "openMessageDialog e m pd =
     (let (p, d) = pd;
          p1 = p\<lparr>mp_selected := Some m, mp_dialog := True\<rparr>
      in if m_status m = JStr ''Nuovo'' \<or> m_status m = JStr ''Non letto''
         then handleStatusUpdate e (m_id m) ''Letto'' (p1, d)
         else (p1, d))"

text \<open>The page's initial state: the \<open>useState\<close> initialisers.\<close>

definition initial_msg_page :: msg_page where
  "initial_msg_page = \<lparr>mp_messages = [], mp_filtered = [], mp_selected = None, mp_dialog = False,
     mp_status_filter = ''all'', mp_type_filter = ''all''\<rparr>"

section \<open>The clients page\<close>

record client_page =
  cp_clients :: "client list"
  cp_filtered :: "client list"
  cp_search :: string

text \<open>
  The search of \<open>filterClients\<close>, lines 70--75 of \<open>clients/page.tsx\<close>:
  \<open>client.name?.toLowerCase().includes(term)\<close> on an optional field (a null
  short-circuits to \<open>undefined\<close>, falsy) and \<open>client.email.toLowerCase()\<close> on
  the email, which throws when the email is null. A value that is not a string
  has no \<open>toLowerCase\<close> method: calling it throws.
\<close>

definition opt_includes :: "jval \<Rightarrow> string \<Rightarrow> js_error + bool" where
  "opt_includes v t =
     (case v of
        JNull \<Rightarrow> Inr False
      | JStr s \<Rightarrow> Inr (str_includes (js_lower s) (js_lower t))
      | _ \<Rightarrow> Inl (TypeError ''toLowerCase is not a function''))"

definition req_includes :: "jval \<Rightarrow> string \<Rightarrow> js_error + bool" where
  "req_includes v t =
     (case v of
        JNull \<Rightarrow> Inl (TypeError ''Cannot read properties of null (reading 'toLowerCase')'')
      | JStr s \<Rightarrow> Inr (str_includes (js_lower s) (js_lower t))
      | _ \<Rightarrow> Inl (TypeError ''toLowerCase is not a function''))"

text \<open>The predicate, its three disjuncts evaluated left to right with \<open>||\<close>.\<close>

definition client_matches :: "string \<Rightarrow> client \<Rightarrow> js_error + bool" where
  "client_matches t c =
     (case opt_includes (c_name c) t of
        Inl err \<Rightarrow> Inl err
      | Inr True \<Rightarrow> Inr True
      | Inr False \<Rightarrow>
          (case req_includes (c_email c) t of
             Inl err \<Rightarrow> Inl err
           | Inr True \<Rightarrow> Inr True
           | Inr False \<Rightarrow> opt_includes (c_phone c) t))"

text \<open>\<open>Array.prototype.filter\<close> with a callback that may throw.\<close>

fun js_filter :: "('a \<Rightarrow> js_error + bool) \<Rightarrow> 'a list \<Rightarrow> js_error + 'a list" where
  "js_filter P [] = Inr []"
| "js_filter P (x # xs) =
     (case P x of
        Inl err \<Rightarrow> Inl err
      | Inr b \<Rightarrow> (case js_filter P xs of
                   Inl err \<Rightarrow> Inl err
                 | Inr ys \<Rightarrow> Inr (if b then x # ys else ys)))"

definition filterClients :: "string \<Rightarrow> client list \<Rightarrow> js_error + client list" where
  "filterClients t cs = (if t = [] then Inr cs else js_filter (client_matches t) cs)"

text \<open>
  \<open>setSearchTerm\<close> and the effect on \<open>[clients, searchTerm]\<close>; an exception in
  the effect is an error of the page.
\<close>

definition setSearchTerm :: "string \<Rightarrow> client_page \<Rightarrow> js_error + client_page" where
  "setSearchTerm t p =
     (case filterClients t (cp_clients p) of
        Inl err \<Rightarrow> Inl err
      | Inr cs \<Rightarrow> Inr (p\<lparr>cp_search := t, cp_filtered := cs\<rparr>))"

definition fetchClients :: "env \<Rightarrow> db \<Rightarrow> client_page \<Rightarrow> js_error + client_page" where
  "fetchClients e d p =
     (let cs = (case admin_clients_GET e d of Response _ (BClients cs) \<Rightarrow> cs | _ \<Rightarrow> [])
      in case filterClients (cp_search p) cs of
           Inl err \<Rightarrow> Inl err
         | Inr fs \<Rightarrow> Inr (p\<lparr>cp_clients := cs, cp_filtered := fs\<rparr>))"

text \<open>
  What the search promises on rows whose columns have the types the page's
  \<open>Client\<close> interface declares (a string email, an optional string name and
  phone): the term, lower-cased, occurs in one of the three, lower-cased.
\<close>

definition is_str :: "jval \<Rightarrow> bool" where
  "is_str v = (case v of JStr _ \<Rightarrow> True | _ \<Rightarrow> False)"

definition well_typed_client :: "client \<Rightarrow> bool" where
  "well_typed_client c =
     (is_str (c_email c) \<and> (c_name c = JNull \<or> is_str (c_name c)) \<and> (c_phone c = JNull \<or> is_str (c_phone c)))"

definition search_hit :: "string \<Rightarrow> jval \<Rightarrow> bool" where
  "search_hit t v = (case v of JStr s \<Rightarrow> sublist (js_lower t) (js_lower s) | _ \<Rightarrow> False)"

section \<open>Sample data\<close>

abbreviation nuovo_msg :: message_row where
  "nuovo_msg \<equiv> \<lparr>m_id = 3, m_name = JStr ''Anna'', m_email = JStr ''anna@example.com'',
     request_type = JStr ''Altro'', m_message = JStr ''Ciao'', m_status = JStr ''Nuovo'',
     m_created = 900, m_updated = 900\<rparr>"

abbreviation inbox_db :: db where
  "inbox_db \<equiv> demo_db\<lparr>messages := [nuovo_msg], next_id := 4\<rparr>"

section \<open>Properties\<close>

lemma inbox_db_inv: "db_inv inbox_db"
  by (simp add: db_inv_def keys_ok_def unique_emails_def)

text \<open>
  C17: opening a message whose status is "Nuovo" or "Non letto" marks it read: the
  database afterwards is the one before with exactly the rows of that key changed,
  their status "Letto" and \<open>updated_at\<close> now, when the update succeeds.
\<close>

theorem openMessageDialog_marks_read:
  assumes "db_inv d" "x \<in> set (messages d)" "m_id x = m_id m"
    and "m_status m = JStr ''Nuovo'' \<or> m_status m = JStr ''Non letto''" "UpdateMessage \<notin> failing e"
  shows "snd (openMessageDialog e m (p, d)) =
           d\<lparr>messages := update_rows m_id (m_id m) (\<lambda>r. r\<lparr>m_status := JStr ''Letto'', m_updated := now e\<rparr>) (messages d)\<rparr>"
proof -
  note put = admin_message_PUT_status [OF assms(1-3) assms(5), of "JStr ''Letto''"]
  from assms(4) show ?thesis
    unfolding openMessageDialog_def handleStatusUpdate_def by (simp add: put Let_def response_ok_def status_def)
qed

lemma openMessageDialog_marks_read_witness:
  "snd (openMessageDialog demo_env nuovo_msg (initial_msg_page, inbox_db)) =
     demo_db\<lparr>messages := [nuovo_msg\<lparr>m_status := JStr ''Letto'', m_updated := 1000\<rparr>], next_id := 4\<rparr>"
  by (rule openMessageDialog_marks_read [OF inbox_db_inv, of nuovo_msg, THEN trans])
     (simp_all add: update_rows_def)

text \<open>
  C18: re-opening the message, as the page lists it after the first opening,
  changes nothing: the refreshed copy is "Letto", so no second update is sent.
\<close>

theorem openMessageDialog_reopen:
  assumes "db_inv d" "x \<in> set (messages d)" "m_id x = m_id m"
    and "m_status m = JStr ''Nuovo'' \<or> m_status m = JStr ''Non letto''"
    and "UpdateMessage \<notin> failing e" "SelectMessages \<notin> failing e"
  shows "\<forall>m' \<in> set (mp_messages (fst (openMessageDialog e m (p, d)))). m_id m' = m_id m \<longrightarrow>
           snd (openMessageDialog e' m' (openMessageDialog e m (p, d))) = snd (openMessageDialog e m (p, d))"
proof -
  let ?f = "\<lambda>r. r\<lparr>m_status := JStr ''Letto'', m_updated := now e\<rparr>"
  let ?d1 = "d\<lparr>messages := update_rows m_id (m_id m) ?f (messages d)\<rparr>"
  note put = admin_message_PUT_status [OF assms(1-3) assms(5), of "JStr ''Letto''"]
  have run: "openMessageDialog e m (p, d) =
      (fetchMessages e ?d1 (p\<lparr>mp_selected := Some m, mp_dialog := True\<rparr>), ?d1)"
    using assms(4) unfolding openMessageDialog_def handleStatusUpdate_def
    by (simp add: put Let_def response_ok_def status_def)
  have fetched: "mp_messages (fetchMessages e ?d1 q) = newest_first m_created (messages ?d1)" for q
    using assms(6) by (simp add: fetchMessages_def admin_messages_GET_def setMessages_def)
  have "m_status m' = JStr ''Letto''"
    if "m' \<in> set (update_rows m_id (m_id m) ?f (messages d))" "m_id m' = m_id m" for m'
    using update_rows_key_at [OF that] by auto
  then show ?thesis
    unfolding run by (simp add: fetched newest_first_def openMessageDialog_def Let_def)
qed

lemma openMessageDialog_reopen_witness:
  "nuovo_msg\<lparr>m_status := JStr ''Letto'', m_updated := 1000\<rparr>
     \<in> set (mp_messages (fst (openMessageDialog demo_env nuovo_msg (initial_msg_page, inbox_db))))
   \<and> snd (openMessageDialog demo_env (nuovo_msg\<lparr>m_status := JStr ''Letto'', m_updated := 1000\<rparr>)
          (openMessageDialog demo_env nuovo_msg (initial_msg_page, inbox_db)))
     = snd (openMessageDialog demo_env nuovo_msg (initial_msg_page, inbox_db))"
proof -
  have listed: "nuovo_msg\<lparr>m_status := JStr ''Letto'', m_updated := 1000\<rparr>
     \<in> set (mp_messages (fst (openMessageDialog demo_env nuovo_msg (initial_msg_page, inbox_db))))"
    by (simp add: openMessageDialog_def handleStatusUpdate_def admin_message_PUT_def update_cols_ok_def
        cols_known_def message_cols_def update_single_def guard_call_def update_rows_def patch_message_def
        col_or_def response_ok_def status_def fetchMessages_def admin_messages_GET_def setMessages_def
        newest_first_def Let_def)
  with openMessageDialog_reopen [OF inbox_db_inv, where m = nuovo_msg and e = demo_env and p = initial_msg_page]
  show ?thesis by simp
qed

lemma js_filter_Inl: "x \<in> set xs \<Longrightarrow> P x = Inl err \<Longrightarrow> \<exists>err'. js_filter P xs = Inl err'"
  by (induction xs) (auto split: sum.splits)

lemma js_filter_Inr: "(\<And>x. x \<in> set xs \<Longrightarrow> P x = Inr (Q x)) \<Longrightarrow> js_filter P xs = Inr (filter Q xs)"
  by (induction xs) auto

lemma client_matches_well_typed:
  "well_typed_client c \<Longrightarrow> client_matches t c =
     Inr (search_hit t (c_name c) \<or> search_hit t (c_email c) \<or> search_hit t (c_phone c))"
  by (auto simp: well_typed_client_def is_str_def search_hit_def client_matches_def opt_includes_def
      req_includes_def str_includes_sublist split: bool.splits jval.splits)

text \<open>
  C20: the client search throws a \<open>TypeError\<close> for every non-empty term as soon as
  the list holds a client whose email and name are null (\<open>client.email.toLowerCase()\<close>
  is called on null); the page's effect then fails.
\<close>

theorem filterClients_null_email:
  assumes "t \<noteq> []" "c \<in> set cs" "c_email c = JNull" "c_name c = JNull"
  shows "\<exists>err. filterClients t cs = Inl err"
  using assms js_filter_Inl [of c cs "client_matches t"]
  by (simp add: filterClients_def client_matches_def opt_includes_def req_includes_def)

lemma filterClients_null_email_witness:
  "\<exists>err. filterClients ''mario'' [known_client\<lparr>c_email := JNull, c_name := JNull\<rparr>] = Inl err"
  by (rule filterClients_null_email [where c = "known_client\<lparr>c_email := JNull, c_name := JNull\<rparr>"]) simp_all

text \<open>
  C21: on well-typed rows the search returns, in order, exactly the clients whose
  name, email or phone contains the term, ignoring case (all of them for the
  empty term).
\<close>

theorem filterClients_spec:
  assumes "\<forall>c\<in>set cs. well_typed_client c"
  shows "filterClients t cs = Inr (filter (\<lambda>c. t = [] \<or> search_hit t (c_name c) \<or> search_hit t (c_email c)
            \<or> search_hit t (c_phone c)) cs)"
  using assms by (auto simp: filterClients_def client_matches_well_typed intro!: js_filter_Inr)

lemma filterClients_spec_witness:
  "filterClients ''ROSSI'' [mario_client, known_client\<lparr>c_email := JStr ''anna@x.it'', c_name := JNull, c_phone := JNull\<rparr>]
     = Inr [mario_client]"
  by (rule filterClients_spec [THEN trans])
     (simp_all add: well_typed_client_def is_str_def search_hit_def lower_ascii_def ascii_upper_def
      shift_case_def char_eq_of_char sublist_code prefix_code)

end
