(* ===== verification/OrdersPage.thy ===== *)
theory OrdersPage
  imports Pages
begin

text \<open>
  The orders page of the administrator, \<open>src/app/admin/orders/page.tsx\<close>: the
  list of orders, the catalogue for the product and size selectors, and the
  dialog that creates or edits an order and submits it to \<open>/api/admin/orders\<close>.
  The page's React state is a record. The form is a record of the values
  \<open>JSON.stringify(formData)\<close> sends. Each input's \<open>onChange\<close> or
  \<open>onValueChange\<close> is an event of \<open>form_event\<close>, applied by \<open>form_step\<close>. A
  select offers only its items, so the events a user can cause are those of
  \<open>form_allowed\<close>, and the forms the user can reach from the new-order form
  are the inductive set \<open>form_reach\<close>. The handlers take the page and the
  database and call the route handlers of \<open>Admin\<close> for their requests.
\<close>

section \<open>The form\<close>

text \<open>
  \<open>formData\<close>. The fields hold JSON values: \<open>openEditDialog\<close> copies the
  columns of a stored order, which may be null or of any type.
\<close>

record order_form =
  fm_customer_name :: jval
  fm_customer_email :: jval
  fm_customer_phone :: jval
  fm_product_name :: jval
  fm_product_size :: jval
  fm_quantity :: jval
  fm_status :: jval
  fm_notes :: jval

text \<open>The initial value of the form and \<open>resetForm\<close>'s, lines 51--60 and 128--137.\<close>

definition initial_form :: order_form where
  "initial_form =
     \<lparr>fm_customer_name = JStr [], fm_customer_email = JStr [], fm_customer_phone = JStr [],
      fm_product_name = JStr [], fm_product_size = JStr [], fm_quantity = JNum 1,
      fm_status = JStr ''Appena ordinato'', fm_notes = JStr []\<rparr>"

text \<open>\<open>JSON.stringify(formData)\<close>: the keys in the order the object literal gives them.\<close>

definition form_json :: "order_form \<Rightarrow> jval" where
  "form_json f =
     JObj [(''customer_name'', fm_customer_name f), (''customer_email'', fm_customer_email f),
           (''customer_phone'', fm_customer_phone f), (''product_name'', fm_product_name f),
           (''product_size'', fm_product_size f), (''quantity'', fm_quantity f),
           (''status'', fm_status f), (''notes'', fm_notes f)]"

text \<open>The inputs of the dialog, lines 202--301.\<close>

datatype form_event =
    SetCustomerName string | SetCustomerEmail string | SetCustomerPhone string
  | ChooseProduct string | ChooseSize string | SetQuantity string
  | ChooseStatus string | SetNotes string

text \<open>
  \<open>setFormData({ ...formData, field: value })\<close>. Choosing a product clears the
  size. The quantity input stores \<open>Number.parseInt(e.target.value) || 1\<close>.
\<close>

fun form_step :: "order_form \<Rightarrow> form_event \<Rightarrow> order_form" where
  "form_step f (SetCustomerName s) = f\<lparr>fm_customer_name := JStr s\<rparr>"
| "form_step f (SetCustomerEmail s) = f\<lparr>fm_customer_email := JStr s\<rparr>"
| "form_step f (SetCustomerPhone s) = f\<lparr>fm_customer_phone := JStr s\<rparr>"
| "form_step f (ChooseProduct s) = f\<lparr>fm_product_name := JStr s, fm_product_size := JStr []\<rparr>"
| "form_step f (ChooseSize s) = f\<lparr>fm_product_size := JStr s\<rparr>"
| "form_step f (SetQuantity s) = f\<lparr>fm_quantity := JNum (quantity_of (Some (JStr s)))\<rparr>"
| "form_step f (ChooseStatus s) = f\<lparr>fm_status := JStr s\<rparr>"
| "form_step f (SetNotes s) = f\<lparr>fm_notes := JStr s\<rparr>"

text \<open>\<open>products.find((p) => p.name === formData.product_name)\<close>, line 166.\<close>

fun find_product :: "product list \<Rightarrow> jval \<Rightarrow> product option" where
  "find_product [] v = None"
| "find_product (q # qs) v = (if JStr (p_name q) = v then Some q else find_product qs v)"

text \<open>
  What the selects offer: a product of the loaded catalogue, a size of the selected
  product (the size select is disabled when none is selected), one of the three
  states. The text inputs take any string.
\<close>

definition order_states :: "string list" where
  "order_states = [''Appena ordinato'', ''Pagato'', ''Consegnato'']"

fun form_allowed :: "product list \<Rightarrow> order_form \<Rightarrow> form_event \<Rightarrow> bool" where
  "form_allowed ps f (ChooseProduct s) = (s \<in> set (map p_name ps))"
| "form_allowed ps f (ChooseSize s) =
     (case find_product ps (fm_product_name f) of None \<Rightarrow> False | Some q \<Rightarrow> s \<in> set (sizes q))"
| "form_allowed ps f (ChooseStatus s) = (s \<in> set order_states)"
| "form_allowed ps f _ = True"

inductive form_reach :: "product list \<Rightarrow> order_form \<Rightarrow> bool" for ps where
  start: "form_reach ps initial_form"
| input: "form_reach ps f \<Longrightarrow> form_allowed ps f ev \<Longrightarrow> form_reach ps (form_step f ev)"

text \<open>
  What the selects guarantee of a form: the size is empty or one of the sizes of
  the product the form names.
\<close>

definition size_consistent :: "product list \<Rightarrow> order_form \<Rightarrow> bool" where
  "size_consistent ps f =
     (fm_product_size f = JStr [] \<or>
      (case find_product ps (fm_product_name f) of
         None \<Rightarrow> False
       | Some q \<Rightarrow> fm_product_size f \<in> JStr ` set (sizes q)))"

section \<open>The page\<close>

record orders_page =
  op_orders :: "order_row list"
  op_products :: "product list"
  op_loading :: bool
  op_editing :: "order_row option"
  op_dialog :: bool
  op_form :: order_form

text \<open>\<open>fetchOrders\<close> and \<open>fetchProducts\<close>: \<open>data.orders || []\<close>; the loading flag clears.\<close>

definition fetchOrders :: "env \<Rightarrow> db \<Rightarrow> orders_page \<Rightarrow> orders_page" where
  "fetchOrders e d p =
     p\<lparr>op_orders := (case admin_orders_GET e d of Response _ (BOrders os) \<Rightarrow> os | _ \<Rightarrow> []),
       op_loading := False\<rparr>"

definition fetchProducts :: "env \<Rightarrow> db \<Rightarrow> orders_page \<Rightarrow> orders_page" where
  "fetchProducts e d p =
     p\<lparr>op_products := (case admin_products_GET e d of Response _ (BProducts ps) \<Rightarrow> ps | _ \<Rightarrow> [])\<rparr>"

definition resetForm :: "orders_page \<Rightarrow> orders_page" where
  "resetForm p = p\<lparr>op_form := initial_form, op_editing := None\<rparr>"

text \<open>The "Nuovo Ordine" button: \<open>onClick={resetForm}\<close> and the dialog trigger.\<close>

definition newOrder :: "orders_page \<Rightarrow> orders_page" where
  "newOrder p = (resetForm p)\<lparr>op_dialog := True\<rparr>"

text \<open>\<open>openEditDialog(order)\<close>: phone and notes fall back to \<open>""\<close> when falsy.\<close>

definition openEditDialog :: "order_row \<Rightarrow> orders_page \<Rightarrow> orders_page" where
  "openEditDialog od p =
     p\<lparr>op_editing := Some od,
       op_form := \<lparr>fm_customer_name = customer_name od, fm_customer_email = customer_email od,
         fm_customer_phone = (if truthy (Some (customer_phone od)) then customer_phone od else JStr []),
         fm_product_name = product_name od, fm_product_size = product_size od,
         fm_quantity = quantity od, fm_status = o_status od,
         fm_notes = (if truthy (Some (o_notes od)) then o_notes od else JStr [])\<rparr>,
       op_dialog := True\<rparr>"

text \<open>
  \<open>handleSubmit\<close>: \<open>PUT\<close> to the edited order or \<open>POST\<close> a new one; on
  \<open>response.ok\<close> the list is fetched again, the dialog closes and the form resets.
  The result carries the mails the request sent.
\<close>

definition handleSubmit :: "env \<Rightarrow> orders_page \<Rightarrow> db \<Rightarrow> orders_page \<times> db \<times> mail list" where
  "handleSubmit e p d =
     (let (r, d', ms) =
          (case op_editing p of
             Some od \<Rightarrow> (let (r, d') = admin_order_PUT e (o_id od) (Some (form_json (op_form p))) d in (r, d', []))
           | None \<Rightarrow> admin_orders_POST e (Some (form_json (op_form p))) d)
      in if response_ok r
         then (resetForm ((fetchOrders e d' p)\<lparr>op_dialog := False\<rparr>), d', ms)
         else (p, d', ms))"

text \<open>The status select of an order card: \<open>PUT { status }\<close>, then \<open>fetchOrders\<close> on success.\<close>

definition handleOrderStatusUpdate ::
  "env \<Rightarrow> row_id \<Rightarrow> string \<Rightarrow> orders_page \<Rightarrow> db \<Rightarrow> orders_page \<times> db" where
  "handleOrderStatusUpdate e k s p d =
     (let (r, d') = admin_order_PUT e k (Some (JObj [(''status'', JStr s)])) d
      in if response_ok r then (fetchOrders e d' p, d') else (p, d'))"

text \<open>\<open>getStatusColor\<close>: any other value is shown as "Appena ordinato" is.\<close>

definition order_status_color :: "jval \<Rightarrow> string" where
  "order_status_color s =
     (if s = JStr ''Pagato'' then ''bg-green-100 text-green-800''
      else if s = JStr ''Consegnato'' then ''bg-blue-100 text-blue-800''
      else ''bg-yellow-100 text-yellow-800'')"

text \<open>The text shown in place of an empty order list.\<close>

definition orders_empty_text :: "orders_page \<Rightarrow> string option" where
  "orders_empty_text p = (if op_orders p = [] then Some ''Inizia creando il primo ordine.'' else None)"

section \<open>Sample data\<close>

abbreviation olio_form :: order_form where
  "olio_form \<equiv> form_step (form_step initial_form (ChooseProduct ''Olio Extra Vergine'')) (ChooseSize ''1L'')"

abbreviation olio_page :: orders_page where
  "olio_page \<equiv> \<lparr>op_orders = [], op_products = [demo_product], op_loading = False, op_editing = None,
     op_dialog = True, op_form = olio_form\<rparr>"

section \<open>Properties\<close>

lemma find_product_Some: "find_product ps v = Some q \<Longrightarrow> q \<in> set ps \<and> v = JStr (p_name q)"
  by (induction ps) (auto split: if_splits)

lemma form_reach_size_consistent: "form_reach ps f \<Longrightarrow> size_consistent ps f"
proof (induction rule: form_reach.induct)
  case start
  then show ?case by (simp add: size_consistent_def initial_form_def)
next
  case (input f ev)
  then show ?case
    by (cases ev) (auto simp: size_consistent_def split: option.splits)
qed

lemma upsert_ignored_orders [simp]: "orders (ignore_error d (upsert_client e cols d)) = orders d"
  by (auto simp: ignore_error_def upsert_client_def guard_call_def Let_def split: sum.splits if_splits)

lemma handleSubmit_new_order:
  assumes "op_editing p = None" "InsertOrder \<notin> failing e"
  shows "\<exists>r. orders (fst (snd (handleSubmit e p d))) = orders d @ [r]
           \<and> product_name r = fm_product_name (op_form p) \<and> product_size r = fm_product_size (op_form p)
           \<and> quantity r = fm_quantity (op_form p) \<and> o_status r = fm_status (op_form p)"
  using assms
  unfolding handleSubmit_def admin_orders_POST_def insert_order_payload_def form_json_def
  by (simp add:
      cols_known_def order_cols_def insert_order_def guard_call_def patch_order_def col_or_def Let_def
      split: prod.splits)

text \<open>
  C25: an order created through the page's dialog names a product of the catalogue
  and one of that product's sizes, whenever a size was chosen: the selects keep the
  size consistent with the product (\<open>form_reach\<close>, by rule induction), and the
  route stores the form's values. The route itself checks neither.
\<close>

theorem orders_page_new_order_catalogue:
  assumes "form_reach ps (op_form p)" "set ps \<subseteq> set (products d)" "op_editing p = None"
    and "fm_product_size (op_form p) \<noteq> JStr []" "InsertOrder \<notin> failing e"
  shows "\<exists>r q. orders (fst (snd (handleSubmit e p d))) = orders d @ [r] \<and> q \<in> set (products d)
           \<and> product_name r = JStr (p_name q) \<and> product_size r \<in> JStr ` set (sizes q)"
proof -
  obtain r where r: "orders (fst (snd (handleSubmit e p d))) = orders d @ [r]"
      "product_name r = fm_product_name (op_form p)" "product_size r = fm_product_size (op_form p)"
    using handleSubmit_new_order [OF assms(3,5)] by blast
  obtain q where q: "find_product ps (fm_product_name (op_form p)) = Some q"
      "fm_product_size (op_form p) \<in> JStr ` set (sizes q)"
    using form_reach_size_consistent [OF assms(1)] assms(4)
    by (auto simp: size_consistent_def split: option.splits)
  have "q \<in> set (products d)" "fm_product_name (op_form p) = JStr (p_name q)"
    using find_product_Some [OF q(1)] assms(2) by auto
  with q(2) r show ?thesis by metis
qed

lemma olio_form_reach: "form_reach [demo_product] (op_form olio_page)"
  unfolding orders_page.select_convs
  by (intro form_reach.input form_reach.start) (simp_all add: initial_form_def)

lemma orders_page_new_order_catalogue_witness:
  "\<exists>r q. orders (fst (snd (handleSubmit demo_env olio_page demo_db))) = orders demo_db @ [r]
     \<and> q \<in> set (products demo_db) \<and> product_name r = JStr (p_name q) \<and> product_size r \<in> JStr ` set (sizes q)"
  by (rule orders_page_new_order_catalogue [OF olio_form_reach]) (simp_all add: initial_form_def)

end
