(* ===== verification/FormValidation.thy ===== *)
theory FormValidation
  imports Prelude
begin

text \<open>
  The browser's constraint validation of the admin forms' inputs. An input with
  \<open>required\<close> refuses the empty value; an input with \<open>type="email"\<close> refuses a
  value that is not a valid e-mail address of the HTML standard: a local part of
  \<open>atext\<close> characters and dots, an \<open>@\<close>, and dot-separated labels of letters,
  digits and inner hyphens, each at most 63 long. A form whose inputs fail these
  checks is not submitted, so its \<open>onSubmit\<close> handler does not run. The login,
  settings and clients pages use them.
\<close>

definition is_alnum :: "char \<Rightarrow> bool" where
  "is_alnum c = (let n = (of_char c :: nat)
                 in (48 \<le> n \<and> n \<le> 57) \<or> (65 \<le> n \<and> n \<le> 90) \<or> (97 \<le> n \<and> n \<le> 122))"

definition email_local_char :: "char \<Rightarrow> bool" where
  "email_local_char c = (is_alnum c \<or> c \<in> set ''.!#$%&'*+/=?^_`{|}~-'')"

definition email_label :: "string \<Rightarrow> bool" where
  "email_label l =
     (l \<noteq> [] \<and> length l \<le> 63 \<and> is_alnum (hd l) \<and> is_alnum (last l)
      \<and> list_all (\<lambda>c. is_alnum c \<or> c = CHR ''-'') l)"

fun split_dots :: "string \<Rightarrow> string list" where
  "split_dots [] = [[]]"
| "split_dots (c # cs) =
     (if c = CHR ''.'' then [] # split_dots cs
      else (case split_dots cs of l # ls \<Rightarrow> (c # l) # ls | [] \<Rightarrow> [[c]]))"

definition html_email_valid :: "string \<Rightarrow> bool" where
  "html_email_valid s =
     (let local = takeWhile (\<lambda>c. c \<noteq> CHR ''@'') s; rest = dropWhile (\<lambda>c. c \<noteq> CHR ''@'') s
      in local \<noteq> [] \<and> list_all email_local_char local \<and> rest \<noteq> []
         \<and> list_all email_label (split_dots (tl rest)))"

section \<open>Lemmas\<close>

text \<open>\<open>split_dots\<close> keeps every other character, in order, and makes one label per dot plus one.\<close>

lemma split_dots_concat: "concat (split_dots s) = filter (\<lambda>c. c \<noteq> CHR ''.'') s"
  by (induction s rule: split_dots.induct) (auto split: list.splits)

lemma split_dots_length: "length (split_dots s) = Suc (length (filter (\<lambda>c. c = CHR ''.'') s))"
  by (induction s rule: split_dots.induct) (auto split: list.splits)

text \<open>A valid address has an \<open>@\<close> and no space: a value such as \<open>not an address\<close> is refused.\<close>

lemma space_not_local: "\<not> email_local_char CHR '' ''"
  by (simp add: email_local_char_def is_alnum_def)

lemma space_not_label: "email_label l \<Longrightarrow> CHR '' '' \<notin> set l"
  by (auto simp: email_label_def list_all_iff is_alnum_def)

lemma html_email_valid_no_space:
  assumes "html_email_valid s"
  shows "CHR ''@'' \<in> set s \<and> CHR '' '' \<notin> set s"
proof -
  let ?local = "takeWhile (\<lambda>c. c \<noteq> CHR ''@'') s" and ?rest = "dropWhile (\<lambda>c. c \<noteq> CHR ''@'') s"
  have v: "list_all email_local_char ?local" "?rest \<noteq> []" "list_all email_label (split_dots (tl ?rest))"
    using assms by (simp_all add: html_email_valid_def Let_def)
  have at: "hd ?rest = CHR ''@''"
    using v(2) hd_dropWhile [of "\<lambda>c. c \<noteq> CHR ''@''" s] by simp
  have split: "s = ?local @ hd ?rest # tl ?rest"
    using v(2) takeWhile_dropWhile_id [of "\<lambda>c. c \<noteq> CHR ''@''" s] by simp
  have "CHR '' '' \<notin> set ?local"
    using v(1) space_not_local unfolding list_all_iff by blast
  moreover have "CHR '' '' \<notin> set (concat (split_dots (tl ?rest)))"
    using v(3) space_not_label unfolding list_all_iff by auto
  then have "CHR '' '' \<notin> set (tl ?rest)"
    by (auto simp: split_dots_concat)
  moreover have "set s = set ?local \<union> insert (hd ?rest) (set (tl ?rest))"
    by (subst split) simp
  ultimately show ?thesis
    using at by simp
qed

end
