(* ===== verification/LoginPage.thy ===== *)
theory LoginPage
  imports Auth Pages FormValidation
begin

text \<open>
  The browser side of the administrator's session: the login page
  (\<open>src/app/admin/login/page.tsx\<close>: \<open>handleLogin\<close>, \<open>testAuth\<close>,
  \<open>fixPassword\<close>, and the form's submit with its validation) and the sidebar (\<open>src/components/admin/sidebar.tsx\<close>: the
  navigation and \<open>handleLogout\<close>). The browser's state is the \<open>admin-token\<close>
  cookie with its expiry time and the current location. The login page's state
  is a record. Each handler calls the route handlers of \<open>Auth\<close> for its
  \<open>fetch\<close>.
\<close>

section \<open>The browser\<close>

record browser =
  cookie :: "(token \<times> timestamp) option"
  location :: string

text \<open>A cookie set with \<open>max-age\<close> lives until that many seconds after it was set.\<close>

definition cookie_max_age :: nat where
  "cookie_max_age = 86400"

definition cookie_token :: "browser \<Rightarrow> timestamp \<Rightarrow> token option" where
  "cookie_token b t = (case cookie b of Some (tok, x) \<Rightarrow> if t < x then Some tok else None | None \<Rightarrow> None)"

section \<open>The login page\<close>

record login_page =
  lp_email :: string
  lp_password :: string
  lp_error :: "string option"
  lp_loading :: bool

text \<open>The initial state: the form is pre-filled with the fixed account, lines 13--16.\<close>

definition initial_login_page :: login_page where
  "initial_login_page =
     \<lparr>lp_email = ''oliodivaleria@server.com'', lp_password = ''662002'', lp_error = None,
      lp_loading = False\<rparr>"

text \<open>\<open>data.error\<close> of a response body, \<open>undefined\<close> when the body has none.\<close>

fun body_error :: "body \<Rightarrow> string option" where
  "body_error (BError s) = Some s"
| "body_error (BErrorDetails s _) = Some s"
| "body_error _ = None"

definition response_body :: "response \<Rightarrow> body" where
  "response_body r = (case r of Response _ b \<Rightarrow> b)"

text \<open>\<open>data.error || fallback\<close>: the empty string is falsy too.\<close>

definition error_text :: "response \<Rightarrow> string \<Rightarrow> string" where
  "error_text r fallback =
     (case body_error (response_body r) of Some s \<Rightarrow> if s = [] then fallback else s | None \<Rightarrow> fallback)"

text \<open>
  \<open>handleLogin\<close>: post the form; a failure shows \<open>data.error || "Login failed"\<close>;
  a success stores the token in the cookie for a day and goes to the dashboard.
\<close>

definition handleLogin :: "env \<Rightarrow> login_page \<Rightarrow> browser \<Rightarrow> db \<Rightarrow> login_page \<times> browser" where
  "handleLogin e p b d =
     (let r = login_POST e (Some (JObj [(''email'', JStr (lp_email p)), (''password'', JStr (lp_password p))])) d;
          p0 = p\<lparr>lp_error := None\<rparr>
      in if \<not> response_ok r
         then (p0\<lparr>lp_error := Some (error_text r ''Login failed''),
                   lp_loading := False\<rparr>, b)
         else (case response_body r of
                 BLogin _ tok _ \<Rightarrow>
                   (p0\<lparr>lp_loading := False\<rparr>,
                    b\<lparr>cookie := Some (tok, now e + cookie_max_age), location := ''/admin/dashboard''\<rparr>)
               | _ \<Rightarrow> (p0\<lparr>lp_loading := False\<rparr>, b)))"

text \<open>
  The login form's submit: the e-mail input is \<open>type="email" required\<close>, the
  password input \<open>required\<close>, and the submit button is disabled while a login is
  in flight. A submit the browser refuses does not reach \<open>handleLogin\<close>.
\<close>

definition submitLoginForm :: "env \<Rightarrow> login_page \<Rightarrow> browser \<Rightarrow> db \<Rightarrow> login_page \<times> browser" where
  "submitLoginForm e p b d =
     (if lp_loading p \<or> \<not> html_email_valid (lp_email p) \<or> lp_password p = [] then (p, b)
      else handleLogin e p b d)"

text \<open>\<open>String(bool)\<close> inside a template literal.\<close>

definition js_bool :: "bool \<Rightarrow> string" where
  "js_bool v = (if v then ''true'' else ''false'')"

text \<open>
  \<open>testAuth\<close>: the message the page shows for each answer of
  \<open>/api/admin/test-auth\<close>. Its database-error answer carries the suggestion
  "Make sure to run the database script first"; the \<open>catch\<close> answer carries none.
\<close>

definition testAuth :: "env \<Rightarrow> login_page \<Rightarrow> db \<Rightarrow> login_page" where
  "testAuth e p d =
     (case response_body (test_auth_GET e d) of
        BErrorDetails err _ \<Rightarrow>
          p\<lparr>lp_error := Some (''Test failed: '' @ err @ ''. '' @ ''Make sure to run the database script first'')\<rparr>
      | BError err \<Rightarrow> p\<lparr>lp_error := Some (''Test failed: '' @ err @ ''. '')\<rparr>
      | BTestAuth msg _ _ valid _ \<Rightarrow>
          p\<lparr>lp_error := Some (''Test passed: '' @ msg @ ''. Password test: '' @ js_bool valid)\<rparr>
      | _ \<Rightarrow> p)"

text \<open>\<open>fixPassword\<close>: \<open>POST /api/admin/fix-password\<close> and the message it shows.\<close>

definition fixPassword :: "env \<Rightarrow> login_page \<Rightarrow> db \<Rightarrow> login_page \<times> db" where
  "fixPassword e p d =
     (let (r, d') = fix_password_POST e d
      in case response_body r of
           BError err \<Rightarrow> (p\<lparr>lp_error := Some (''Fix failed: '' @ err), lp_loading := False\<rparr>, d')
         | BFixed _ valid _ \<Rightarrow>
             (p\<lparr>lp_error := Some (''Password fixed successfully! Hash test: '' @ js_bool valid),
                lp_loading := False\<rparr>, d')
         | _ \<Rightarrow> (p\<lparr>lp_loading := False\<rparr>, d'))"

section \<open>The sidebar\<close>

definition navigation :: "(string \<times> string) list" where
  "navigation =
     [(''Analisi vendite'', ''/admin/dashboard''), (''Ordini'', ''/admin/orders''),
      (''Messaggi'', ''/admin/messages''), (''Clienti'', ''/admin/clients''),
      (''Impostazioni'', ''/admin/settings'')]"

text \<open>The highlighted entry: \<open>pathname === item.href\<close>.\<close>

definition active_items :: "string \<Rightarrow> string list" where
  "active_items path = map fst (filter (\<lambda>it. snd it = path) navigation)"

text \<open>\<open>handleLogout\<close>: the cookie is expired (1970) and the login page opens.\<close>

definition handleLogout :: "browser \<Rightarrow> browser" where
  "handleLogout b = b\<lparr>cookie := None, location := ''/admin/login''\<rparr>"

section \<open>Sample data\<close>

abbreviation demo_login_page :: login_page where
  "demo_login_page \<equiv> initial_login_page\<lparr>lp_email := ''admin@x.com'', lp_password := ''right1''\<rparr>"

abbreviation fresh_browser :: browser where
  "fresh_browser \<equiv> \<lparr>cookie = None, location = ''/admin/login''\<rparr>"

section \<open>Properties\<close>

lemma login_POST_ok:
  "response_ok (login_POST e body d) \<Longrightarrow>
   \<exists>aid em pub. login_POST e body d = Response 200 (BLogin ''Login successful'' (jwt_sign aid em (jwt_secret e) (now e)) pub)"
  by (auto simp: login_POST_def authenticateAdmin_def response_ok_def status_def internal_error_def Let_def
      split: sum.splits option.splits if_splits)

text \<open>
  C26: the session cookie lives exactly as long as the token it carries: after a
  successful login the cookie holds the token until the instant its
  verification starts to fail, 24 hours after the login, and not a second longer.
\<close>

theorem handleLogin_cookie_lifetime:
  assumes "response_ok (login_POST e (Some (JObj [(''email'', JStr (lp_email p)), (''password'', JStr (lp_password p))])) d)"
  shows "\<exists>tok. cookie (snd (handleLogin e p b d)) = Some (tok, now e + cookie_max_age)
           \<and> (\<forall>t. cookie_token (snd (handleLogin e p b d)) t =
                   (if verifyAdminToken (e\<lparr>now := t\<rparr>) tok = None then None else Some tok))"
proof -
  obtain aid em pub where r: "login_POST e (Some (JObj [(''email'', JStr (lp_email p)), (''password'', JStr (lp_password p))])) d
      = Response 200 (BLogin ''Login successful'' (jwt_sign aid em (jwt_secret e) (now e)) pub)"
    using login_POST_ok [OF assms] by blast
  show ?thesis
    by (simp add: handleLogin_def r response_ok_def status_def response_body_def cookie_token_def
        verifyAdminToken_at cookie_max_age_def token_lifetime_def)
qed

lemma handleLogin_cookie_lifetime_witness:
  "response_ok (login_POST demo_env (Some (JObj [(''email'', JStr (lp_email demo_login_page)),
      (''password'', JStr (lp_password demo_login_page))])) demo_db)
   \<and> (\<exists>tok. cookie (snd (handleLogin demo_env demo_login_page fresh_browser demo_db)) = Some (tok, now demo_env + cookie_max_age)
       \<and> (\<forall>t. cookie_token (snd (handleLogin demo_env demo_login_page fresh_browser demo_db)) t =
               (if verifyAdminToken (demo_env\<lparr>now := t\<rparr>) tok = None then None else Some tok)))"
proof
  show ok: "response_ok (login_POST demo_env (Some (JObj [(''email'', JStr (lp_email demo_login_page)),
      (''password'', JStr (lp_password demo_login_page))])) demo_db)"
    by (simp add: login_simps bcrypt_compare_def bcrypt_key_bytes_def response_ok_def status_def initial_login_page_def)
  then show "\<exists>tok. cookie (snd (handleLogin demo_env demo_login_page fresh_browser demo_db)) = Some (tok, now demo_env + cookie_max_age)
       \<and> (\<forall>t. cookie_token (snd (handleLogin demo_env demo_login_page fresh_browser demo_db)) t =
               (if verifyAdminToken (demo_env\<lparr>now := t\<rparr>) tok = None then None else Some tok))"
    by (rule handleLogin_cookie_lifetime)
qed

lemma fixed_admin_email_valid: "html_email_valid fixed_admin_email"
  unfolding fixed_admin_email_def by code_simp

text \<open>
  C27: from the login page as it loads, pressing "fix password" and then submitting
  the login form (which the browser's validation lets through)
  always ends on the dashboard with a cookie whose token verifies to the fixed
  account: the pre-filled credentials and the unauthenticated reset together
  give anyone a session, whatever the stored password was.
\<close>

theorem login_page_fix_then_login:
  assumes "filter (\<lambda>a. a_email a = fixed_admin_email) (admin_users d) = [a]"
    and "SelectAdmin \<notin> failing e" "UpdateAdmin \<notin> failing e"
  shows "location (snd (submitLoginForm e (fst (fixPassword e initial_login_page d)) b (snd (fixPassword e initial_login_page d))))
           = ''/admin/dashboard''
         \<and> (\<exists>tok x. cookie (snd (submitLoginForm e (fst (fixPassword e initial_login_page d)) b
                                    (snd (fixPassword e initial_login_page d)))) = Some (tok, x)
              \<and> verifyAdminToken e tok = Some \<lparr>adminId = a_id a, claim_email = fixed_admin_email, iat = now e,
                                                exp = now e + token_lifetime\<rparr>)"
proof -
  have form: "lp_email (fst (fixPassword e initial_login_page d)) = fixed_admin_email"
      "lp_password (fst (fixPassword e initial_login_page d)) = fixed_password"
      "snd (fixPassword e initial_login_page d) = snd (fix_password_POST e d)"
      "\<not> lp_loading (fst (fixPassword e initial_login_page d))"
    by (auto simp: fixPassword_def initial_login_page_def fixed_admin_email_def fixed_password_def
        split: prod.splits body.splits)
  have submit: "submitLoginForm e (fst (fixPassword e initial_login_page d)) b (snd (fixPassword e initial_login_page d))
      = handleLogin e (fst (fixPassword e initial_login_page d)) b (snd (fixPassword e initial_login_page d))"
    using form fixed_admin_email_valid by (simp add: submitLoginForm_def fixed_password_def)
  have v: "verifyAdminToken e (jwt_sign (a_id a) fixed_admin_email (jwt_secret e) (now e)) =
      Some \<lparr>adminId = a_id a, claim_email = fixed_admin_email, iat = now e, exp = now e + token_lifetime\<rparr>"
    using verifyAdminToken_at [where e = e and t = "now e"] by (simp add: token_lifetime_def)
  show ?thesis
    unfolding submit using login_after_fix_password [OF assms] v
    by (simp add: handleLogin_def form response_ok_def status_def response_body_def)
qed

lemma login_page_fix_then_login_witness:
  "location (snd (submitLoginForm demo_env (fst (fixPassword demo_env initial_login_page
        (demo_db\<lparr>admin_users := [demo_admin\<lparr>a_email := fixed_admin_email\<rparr>]\<rparr>))) fresh_browser
        (snd (fixPassword demo_env initial_login_page (demo_db\<lparr>admin_users := [demo_admin\<lparr>a_email := fixed_admin_email\<rparr>]\<rparr>)))))
     = ''/admin/dashboard''
   \<and> (\<exists>tok x. cookie (snd (submitLoginForm demo_env (fst (fixPassword demo_env initial_login_page
        (demo_db\<lparr>admin_users := [demo_admin\<lparr>a_email := fixed_admin_email\<rparr>]\<rparr>))) fresh_browser
        (snd (fixPassword demo_env initial_login_page (demo_db\<lparr>admin_users := [demo_admin\<lparr>a_email := fixed_admin_email\<rparr>]\<rparr>)))))
        = Some (tok, x)
      \<and> verifyAdminToken demo_env tok = Some \<lparr>adminId = 1, claim_email = fixed_admin_email, iat = 1000,
                                              exp = 1000 + token_lifetime\<rparr>)"
  using login_page_fix_then_login [where a = "demo_admin\<lparr>a_email := fixed_admin_email\<rparr>" and e = demo_env and b = fresh_browser]
  by simp

end
