(* ===== verification/SettingsPage.thy ===== *)
theory SettingsPage
  imports LoginPage
begin

text \<open>
  The administrator's settings page (\<open>src/app/admin/settings/page.tsx\<close>): the
  password form and the notification e-mail form. The page's state is a record;
  \<open>fetchAdminSettings\<close>, \<open>handlePasswordUpdate\<close> and \<open>handleEmailUpdate\<close> call
  the settings routes of \<open>Auth\<close> for their \<open>fetch\<close>. The browser's own form
  validation (\<open>required\<close>, \<open>minLength\<close>, \<open>type="email"\<close>) decides whether a
  submit reaches the handler at all.
\<close>

section \<open>The page state\<close>

datatype message_type = MsgSuccess | MsgError

record settings_page =
  sp_loading :: bool
  sp_message :: "(message_type \<times> string) option"
  sp_current :: string
  sp_new :: string
  sp_confirm :: string
  sp_notification :: jval

definition initial_settings_page :: settings_page where
  "initial_settings_page =
     \<lparr>sp_loading = False, sp_message = None, sp_current = [], sp_new = [], sp_confirm = [],
      sp_notification = JStr []\<rparr>"

section \<open>The handlers\<close>

text \<open>
  \<open>fetchAdminSettings\<close>: the form takes \<open>data.admin.notification_email\<close>, which
  is \<open>null\<close> when the row has none.
\<close>

definition fetchAdminSettings :: "env \<Rightarrow> settings_page \<Rightarrow> db \<Rightarrow> settings_page" where
  "fetchAdminSettings e p d =
     (case response_body (settings_GET e d) of
        BAdmin (AdminPub _ _ n) \<Rightarrow>
          p\<lparr>sp_notification := (case n of Some m \<Rightarrow> JStr m | None \<Rightarrow> JNull)\<rparr>
      | _ \<Rightarrow> p)"

text \<open>
  \<open>handlePasswordUpdate\<close>: a confirmation that differs from the new password is
  refused before any request; otherwise the two passwords are sent and the answer
  shown; a success clears the form.
\<close>

definition handlePasswordUpdate :: "env \<Rightarrow> settings_page \<Rightarrow> db \<Rightarrow> settings_page \<times> db" where
  "handlePasswordUpdate e p d =
     (let p0 = p\<lparr>sp_loading := True, sp_message := None\<rparr>
      in if sp_new p \<noteq> sp_confirm p
         then (p0\<lparr>sp_message := Some (MsgError, ''Le nuove password non corrispondono''),
                  sp_loading := False\<rparr>, d)
         else (let (r, d') = settings_password_PUT e
                      (Some (JObj [(''currentPassword'', JStr (sp_current p)),
                                   (''newPassword'', JStr (sp_new p))])) d
               in if response_ok r
                  then (p0\<lparr>sp_message := Some (MsgSuccess, ''Password aggiornata con successo''),
                           sp_current := [], sp_new := [], sp_confirm := [], sp_loading := False\<rparr>, d')
                  else (p0\<lparr>sp_message := Some (MsgError,
                             error_text r ''Errore nell'aggiornamento della password''),
                           sp_loading := False\<rparr>, d')))"

definition handleEmailUpdate :: "env \<Rightarrow> settings_page \<Rightarrow> db \<Rightarrow> settings_page \<times> db" where
  "handleEmailUpdate e p d =
     (let p0 = p\<lparr>sp_loading := True, sp_message := None\<rparr>;
          (r, d') = settings_email_PUT e (Some (JObj [(''notificationEmail'', sp_notification p)])) d
      in if response_ok r
         then (p0\<lparr>sp_message := Some (MsgSuccess, ''Email di notifica aggiornata con successo''),
                  sp_loading := False\<rparr>, d')
         else (p0\<lparr>sp_message := Some (MsgError, error_text r ''Errore nell'aggiornamento dell'email''),
                  sp_loading := False\<rparr>, d'))"

section \<open>The browser's form validation\<close>

text \<open>
  The password inputs are \<open>required\<close>; the new password and its confirmation
  carry \<open>minLength={6}\<close>. A form that fails these checks is not submitted.
\<close>

definition password_form_valid :: "settings_page \<Rightarrow> bool" where
  "password_form_valid p =
     (sp_current p \<noteq> [] \<and> 6 \<le> length (sp_new p) \<and> 6 \<le> length (sp_confirm p))"

definition submitPasswordForm :: "env \<Rightarrow> settings_page \<Rightarrow> db \<Rightarrow> settings_page \<times> db" where
  "submitPasswordForm e p d =
     (if sp_loading p \<or> \<not> password_form_valid p then (p, d) else handlePasswordUpdate e p d)"

text \<open>
  The e-mail input is \<open>type="email"\<close> and \<open>required\<close>: a submit needs a
  valid e-mail address (\<open>html_email_valid\<close> of \<open>FormValidation\<close>). A \<open>null\<close>
  value shows as an empty input.
\<close>

definition submitEmailForm :: "env \<Rightarrow> settings_page \<Rightarrow> db \<Rightarrow> settings_page \<times> db" where
  "submitEmailForm e p d =
     (case sp_notification p of
        JStr s \<Rightarrow> if sp_loading p \<or> \<not> html_email_valid s then (p, d) else handleEmailUpdate e p d
      | _ \<Rightarrow> (p, d))"

section \<open>Sample data\<close>

abbreviation demo_settings_page :: settings_page where
  "demo_settings_page \<equiv> initial_settings_page\<lparr>sp_current := ''right1'', sp_new := ''olio2026'',
                                               sp_confirm := ''olio2026''\<rparr>"

section \<open>Properties\<close>

subsection \<open>Shared lemmas\<close>

text \<open>The password form on its success branch.\<close>

lemma handlePasswordUpdate_run:
  assumes "sp_new p = sp_confirm p" "sp_current p \<noteq> []" "sp_new p \<noteq> []"
    and "admin_users d = [a]" "SelectAdmin \<notin> failing e" "UpdateAdmin \<notin> failing e"
    and "bcrypt_compare (Some (JStr (sp_current p))) (password_hash a) = Inr True"
  shows "handlePasswordUpdate e p d =
           (p\<lparr>sp_loading := False, sp_message := Some (MsgSuccess, ''Password aggiornata con successo''),
              sp_current := [], sp_new := [], sp_confirm := []\<rparr>,
            d\<lparr>admin_users := [a\<lparr>password_hash := BHash 10 (salt e) (take bcrypt_key_bytes (sp_new p)),
                                 a_updated := now e\<rparr>]\<rparr>)"
proof -
  have "settings_password_PUT e (Some (JObj [(''currentPassword'', JStr (sp_current p)),
                                   (''newPassword'', JStr (sp_new p))])) d =
           (Response 200 (BMessage ''Password aggiornata con successo''),
            update_admins (\<lambda>x. a_id x = a_id a)
              (\<lambda>x. x\<lparr>password_hash := BHash 10 (salt e) (take bcrypt_key_bytes (sp_new p)), a_updated := now e\<rparr>) d)"
    using assms by (intro settings_password_PUT_run) simp_all
  moreover have "update_admins (\<lambda>x. a_id x = a_id a)
              (\<lambda>x. x\<lparr>password_hash := BHash 10 (salt e) (take bcrypt_key_bytes (sp_new p)), a_updated := now e\<rparr>) d
       = d\<lparr>admin_users := [a\<lparr>password_hash := BHash 10 (salt e) (take bcrypt_key_bytes (sp_new p)),
                                 a_updated := now e\<rparr>]\<rparr>"
    using assms(4) by (simp add: update_admins_def)
  ultimately show ?thesis
    using assms(1) by (simp add: handlePasswordUpdate_def response_ok_def status_def)
qed

text \<open>A login against a single admin row succeeds exactly when bcrypt accepts the password.\<close>

lemma login_single_admin:
  assumes "admin_users d = [a]" "a_email a \<noteq> []" "pw \<noteq> []" "SelectAdmin \<notin> failing e"
  shows "status (login_POST e (Some (JObj [(''email'', JStr (a_email a)), (''password'', JStr pw)])) d) =
           (if bcrypt_compare (Some (JStr pw)) (password_hash a) = Inr True then 200 else 401)"
  using assms by (auto simp: login_simps status_def)

subsection \<open>The password form\<close>

text \<open>
  C28: when the new password and its confirmation differ, the page shows
  "Le nuove password non corrispondono", sends no request and leaves the database
  as it was.
\<close>

theorem handlePasswordUpdate_mismatch:
  assumes "sp_new p \<noteq> sp_confirm p"
  shows "handlePasswordUpdate e p d =
           (p\<lparr>sp_loading := False, sp_message := Some (MsgError, ''Le nuove password non corrispondono'')\<rparr>, d)"
  using assms by (simp add: handlePasswordUpdate_def)

theorem handlePasswordUpdate_mismatch_witness:
  "handlePasswordUpdate demo_env (demo_settings_page\<lparr>sp_confirm := ''olio2025''\<rparr>) demo_db =
     (demo_settings_page\<lparr>sp_confirm := ''olio2025'', sp_loading := False,
        sp_message := Some (MsgError, ''Le nuove password non corrispondono'')\<rparr>, demo_db)"
  using handlePasswordUpdate_mismatch [of "demo_settings_page\<lparr>sp_confirm := ''olio2025''\<rparr>" demo_env demo_db]
  by (simp add: initial_settings_page_def)

text \<open>
  C29: a password change through the settings page, with the right current
  password and a matching confirmation, reports success and clears the form;
  afterwards the login accepts the new password and, unless the two passwords share
  their first 72 bytes, refuses the old one with 401.
\<close>

theorem settings_page_password_login:
  assumes "sp_new p = sp_confirm p" "sp_current p \<noteq> []" "sp_new p \<noteq> []"
    and "admin_users d = [a]" "a_email a \<noteq> []" "SelectAdmin \<notin> failing e" "UpdateAdmin \<notin> failing e"
    and "bcrypt_compare (Some (JStr (sp_current p))) (password_hash a) = Inr True"
  shows "sp_message (fst (handlePasswordUpdate e p d)) = Some (MsgSuccess, ''Password aggiornata con successo'')
         \<and> status (login_POST e (Some (JObj [(''email'', JStr (a_email a)), (''password'', JStr (sp_new p))]))
                     (snd (handlePasswordUpdate e p d))) = 200
         \<and> (take bcrypt_key_bytes (sp_current p) \<noteq> take bcrypt_key_bytes (sp_new p) \<longrightarrow>
              status (login_POST e (Some (JObj [(''email'', JStr (a_email a)), (''password'', JStr (sp_current p))]))
                        (snd (handlePasswordUpdate e p d))) = 401)"
proof -
  let ?a' = "a\<lparr>password_hash := BHash 10 (salt e) (take bcrypt_key_bytes (sp_new p)), a_updated := now e\<rparr>"
  have run: "handlePasswordUpdate e p d =
           (p\<lparr>sp_loading := False, sp_message := Some (MsgSuccess, ''Password aggiornata con successo''),
              sp_current := [], sp_new := [], sp_confirm := []\<rparr>, d\<lparr>admin_users := [?a']\<rparr>)"
    using assms(1-4,6-8) by (rule handlePasswordUpdate_run)
  have "\<And>pw. pw \<noteq> [] \<Longrightarrow> status (login_POST e (Some (JObj [(''email'', JStr (a_email a)), (''password'', JStr pw)]))
                  (d\<lparr>admin_users := [?a']\<rparr>)) =
           (if take bcrypt_key_bytes pw = take bcrypt_key_bytes (sp_new p) then 200 else 401)"
    using login_single_admin [where d = "d\<lparr>admin_users := [?a']\<rparr>" and a = ?a'] assms(5,6)
    by (simp add: bcrypt_compare_string)
  with run assms(2,3) show ?thesis by simp
qed

theorem settings_page_password_login_witness:
  "sp_message (fst (handlePasswordUpdate demo_env demo_settings_page demo_db)) =
       Some (MsgSuccess, ''Password aggiornata con successo'')
   \<and> status (login_POST demo_env (Some (JObj [(''email'', JStr ''admin@x.com''), (''password'', JStr ''olio2026'')]))
               (snd (handlePasswordUpdate demo_env demo_settings_page demo_db))) = 200
   \<and> status (login_POST demo_env (Some (JObj [(''email'', JStr ''admin@x.com''), (''password'', JStr ''right1'')]))
               (snd (handlePasswordUpdate demo_env demo_settings_page demo_db))) = 401"
  using settings_page_password_login [of demo_settings_page demo_db demo_admin demo_env]
  by (simp add: initial_settings_page_def bcrypt_compare_string bcrypt_key_bytes_def)

subsection \<open>The notification e-mail form\<close>

text \<open>
  C30: the e-mail form round-trips: after a successful update, reloading the
  page's settings (\<open>fetchAdminSettings\<close>) shows the address that was sent.
\<close>

theorem settings_page_email_roundtrip:
  assumes "sp_notification p = JStr m" "m \<noteq> []"
    and "admin_users d = [a]" "SelectAdmin \<notin> failing e" "UpdateAdmin \<notin> failing e"
  shows "sp_message (fst (handleEmailUpdate e p d)) = Some (MsgSuccess, ''Email di notifica aggiornata con successo'')
         \<and> sp_notification (fetchAdminSettings e (fst (handleEmailUpdate e p d)) (snd (handleEmailUpdate e p d))) = JStr m"
proof -
  have "settings_email_PUT e (Some (JObj [(''notificationEmail'', JStr m)])) d =
           (Response 200 (BMessage ''Email di notifica aggiornata con successo''),
            d\<lparr>admin_users := [a\<lparr>notification_email := Some m, a_updated := now e\<rparr>]\<rparr>)"
    using assms(2-) by (intro settings_email_PUT_run) simp_all
  then show ?thesis
    using assms(1,4) by (simp add: handleEmailUpdate_def fetchAdminSettings_def settings_GET_def
        select_single_def guard_call_def response_ok_def status_def response_body_def admin_pub_of_def)
qed

theorem settings_page_email_roundtrip_witness:
  "sp_message (fst (handleEmailUpdate demo_env (demo_settings_page\<lparr>sp_notification := JStr ''ordini@olio.it''\<rparr>) demo_db))
       = Some (MsgSuccess, ''Email di notifica aggiornata con successo'')
   \<and> sp_notification (fetchAdminSettings demo_env
        (fst (handleEmailUpdate demo_env (demo_settings_page\<lparr>sp_notification := JStr ''ordini@olio.it''\<rparr>) demo_db))
        (snd (handleEmailUpdate demo_env (demo_settings_page\<lparr>sp_notification := JStr ''ordini@olio.it''\<rparr>) demo_db)))
     = JStr ''ordini@olio.it''"
  using settings_page_email_roundtrip [of "demo_settings_page\<lparr>sp_notification := JStr ''ordini@olio.it''\<rparr>"
      "''ordini@olio.it''" demo_db demo_admin demo_env]
  by simp


text \<open>What the e-mail route does to the database: nothing, or it sets the one admin row's address.\<close>

lemma settings_email_PUT_db:
  "snd (settings_email_PUT e (Some (JObj [(''notificationEmail'', JStr s)])) d) = d
   \<or> (\<exists>a. admin_users d = [a] \<and> snd (settings_email_PUT e (Some (JObj [(''notificationEmail'', JStr s)])) d)
              = d\<lparr>admin_users := [a\<lparr>notification_email := Some s, a_updated := now e\<rparr>]\<rparr>)"
  by (auto simp: settings_email_PUT_def select_single_def guard_call_def single_Inr_iff update_admins_def
      split: sum.splits)

lemma ordini_valid: "html_email_valid ''ordini@olio.it''"
  by code_simp

text \<open>
  C24: the page only stores addresses the browser accepts: a submit of the e-mail
  form either leaves the database as it was or sets the one admin row's
  notification address to the typed value, which then has an \<open>@\<close> and no
  space (although \<open>PUT /api/admin/settings/email\<close> stores any non-empty
  string).
\<close>

theorem settings_page_email_checked:
  assumes "submitEmailForm e p d = (p', d')"
  shows "d' = d \<or> (\<exists>s a. sp_notification p = JStr s \<and> CHR ''@'' \<in> set s \<and> CHR '' '' \<notin> set s
                         \<and> admin_users d = [a]
                         \<and> d' = d\<lparr>admin_users := [a\<lparr>notification_email := Some s, a_updated := now e\<rparr>]\<rparr>)"
proof (cases "sp_notification p")
  case (JStr s)
  show ?thesis
  proof (cases "sp_loading p \<or> \<not> html_email_valid s")
    case True
    with JStr assms show ?thesis by (simp add: submitEmailForm_def)
  next
    case False
    then have v: "html_email_valid s" by simp
    have "d' = snd (settings_email_PUT e (Some (JObj [(''notificationEmail'', JStr s)])) d)"
      using assms JStr False by (auto simp: submitEmailForm_def handleEmailUpdate_def Let_def split: prod.splits if_splits)
    then show ?thesis
      using settings_email_PUT_db [of e s d] html_email_valid_no_space [OF v] JStr by auto
  qed
qed (use assms in \<open>simp_all add: submitEmailForm_def\<close>)

theorem settings_page_email_checked_witness:
  "snd (submitEmailForm demo_env (demo_settings_page\<lparr>sp_notification := JStr ''ordini@olio.it''\<rparr>) demo_db) = demo_db
   \<or> (\<exists>s a. sp_notification (demo_settings_page\<lparr>sp_notification := JStr ''ordini@olio.it''\<rparr>) = JStr s
          \<and> CHR ''@'' \<in> set s \<and> CHR '' '' \<notin> set s \<and> admin_users demo_db = [a]
          \<and> snd (submitEmailForm demo_env (demo_settings_page\<lparr>sp_notification := JStr ''ordini@olio.it''\<rparr>) demo_db)
              = demo_db\<lparr>admin_users := [a\<lparr>notification_email := Some s, a_updated := now demo_env\<rparr>]\<rparr>)"
  by (rule settings_page_email_checked [of demo_env "demo_settings_page\<lparr>sp_notification := JStr ''ordini@olio.it''\<rparr>"
        demo_db "fst (submitEmailForm demo_env (demo_settings_page\<lparr>sp_notification := JStr ''ordini@olio.it''\<rparr>) demo_db)"])
     simp

end
