(* ===== verification/ClientsPage.thy ===== *)
theory ClientsPage
  imports SettingsPage
begin

text \<open>
  The editing side of the clients page (\<open>src/app/admin/clients/page.tsx\<close>): the
  new/edit dialog with its form, \<open>handleSubmit\<close>, \<open>handleDelete\<close>,
  \<open>resetForm\<close> and \<open>openEditDialog\<close>. The list and its search are
  \<open>client_page\<close>, \<open>fetchClients\<close> and \<open>filterClients\<close> of \<open>Pages\<close>; the
  handlers call the client routes of \<open>Admin\<close>. The e-mail input is
  \<open>type="email" required\<close>, validated by \<open>html_email_valid\<close> of
  \<open>FormValidation\<close>. The names carry the prefix \<open>clients_\<close> where the orders page
  has a handler of the same name.
\<close>

section \<open>The dialog state\<close>

text \<open>
  The form holds what the inputs hold. \<open>openEditDialog\<close> copies the row's
  values, so a field may hold \<open>null\<close> (an e-mail) or another JSON value.
\<close>

record client_form =
  cf_name :: jval
  cf_email :: jval
  cf_phone :: jval

definition blank_client_form :: client_form where
  "blank_client_form = \<lparr>cf_name = JStr [], cf_email = JStr [], cf_phone = JStr []\<rparr>"

record clients_screen =
  cs_page :: client_page
  cs_loading :: bool
  cs_editing :: "client option"
  cs_dialog :: bool
  cs_form :: client_form

text \<open>\<open>x || ""\<close>.\<close>

definition or_empty :: "jval \<Rightarrow> jval" where
  "or_empty v = (if truthy (Some v) then v else JStr [])"

text \<open>\<open>JSON.stringify(formData)\<close>: the keys in the order of the initialiser.\<close>

definition client_form_json :: "client_form \<Rightarrow> jval" where
  "client_form_json f = JObj [(''name'', cf_name f), (''email'', cf_email f), (''phone'', cf_phone f)]"

section \<open>The handlers\<close>

definition clients_resetForm :: "clients_screen \<Rightarrow> clients_screen" where
  "clients_resetForm s = s\<lparr>cs_form := blank_client_form, cs_editing := None\<rparr>"

definition clients_openEditDialog :: "client \<Rightarrow> clients_screen \<Rightarrow> clients_screen" where
  "clients_openEditDialog c s =
     s\<lparr>cs_editing := Some c,
       cs_form := \<lparr>cf_name = or_empty (c_name c), cf_email = c_email c, cf_phone = or_empty (c_phone c)\<rparr>,
       cs_dialog := True\<rparr>"

text \<open>
  \<open>await fetchClients()\<close> and the search effect that follows it; an exception of
  the search (\<open>Inl\<close>) is uncaught.
\<close>

definition reloadClients :: "env \<Rightarrow> db \<Rightarrow> clients_screen \<Rightarrow> js_error + clients_screen" where
  "reloadClients e d s =
     (case fetchClients e d (cs_page s) of
        Inl err \<Rightarrow> Inl err
      | Inr cp \<Rightarrow> Inr (s\<lparr>cs_page := cp, cs_loading := False\<rparr>))"

text \<open>
  \<open>handleSubmit\<close>: \<open>PUT /api/admin/clients/[id]\<close> when editing, \<open>POST\<close>
  otherwise; on success reload, close the dialog and reset the form. A refusal is
  not reported: the dialog stays as it was.
\<close>

definition clients_handleSubmit :: "env \<Rightarrow> clients_screen \<Rightarrow> db \<Rightarrow> (js_error + clients_screen) \<times> db" where
  "clients_handleSubmit e s d =
     (let body = Some (client_form_json (cs_form s));
          (r, d') = (case cs_editing s of
                       Some c \<Rightarrow> admin_client_PUT e (c_id c) body d
                     | None \<Rightarrow> admin_clients_POST e body d)
      in if response_ok r
         then (case reloadClients e d' s of
                 Inl err \<Rightarrow> (Inl err, d')
               | Inr s' \<Rightarrow> (Inr (clients_resetForm (s'\<lparr>cs_dialog := False\<rparr>)), d'))
         else (Inr s, d'))"

text \<open>\<open>handleDelete\<close>: \<open>confirm(...)\<close> is the argument \<open>confirmed\<close>.\<close>

definition clients_handleDelete ::
  "env \<Rightarrow> bool \<Rightarrow> row_id \<Rightarrow> clients_screen \<Rightarrow> db \<Rightarrow> (js_error + clients_screen) \<times> db" where
  "clients_handleDelete e confirmed k s d =
     (if \<not> confirmed then (Inr s, d)
      else (let (r, d') = admin_client_DELETE e k d
            in if response_ok r then (reloadClients e d' s, d') else (Inr s, d')))"

text \<open>The form's submit: the browser refuses an e-mail field that is not a valid address.\<close>

definition clients_submitForm :: "env \<Rightarrow> clients_screen \<Rightarrow> db \<Rightarrow> (js_error + clients_screen) \<times> db" where
  "clients_submitForm e s d =
     (case cf_email (cs_form s) of
        JStr m \<Rightarrow> if html_email_valid m then clients_handleSubmit e s d else (Inr s, d)
      | _ \<Rightarrow> (Inr s, d))"

section \<open>The list's summary\<close>

text \<open>
  The three cards above the list: all clients, those with a phone and those with a
  name (\<open>clients.filter((c) => c.phone).length\<close>, truthiness), and the text shown
  in place of an empty list.
\<close>

definition clients_stats :: "client list \<Rightarrow> nat \<times> nat \<times> nat" where
  "clients_stats cs =
     (length cs, length (filter (\<lambda>c. truthy (Some (c_phone c))) cs),
      length (filter (\<lambda>c. truthy (Some (c_name c))) cs))"

definition clients_empty_text :: "client_page \<Rightarrow> string option" where
  "clients_empty_text p =
     (if cp_filtered p \<noteq> [] then None
      else if cp_clients p = [] then Some ''Non ci sono clienti registrati.''
      else Some ''Nessun cliente corrisponde alla ricerca.'')"

section \<open>Sample data\<close>

abbreviation nameless_client :: client where
  "nameless_client \<equiv> \<lparr>c_id = 7, c_email = JStr ''anna@olio.it'', c_phone = JStr ''333 1234'', c_name = JNull,
                       c_created = 100, c_updated = 100\<rparr>"

abbreviation clients_screen0 :: clients_screen where
  "clients_screen0 \<equiv> \<lparr>cs_page = \<lparr>cp_clients = [], cp_filtered = [], cp_search = []\<rparr>, cs_loading = True,
                       cs_editing = None, cs_dialog = False, cs_form = blank_client_form\<rparr>"

section \<open>Properties\<close>

subsection \<open>Shared lemmas\<close>

text \<open>\<open>PUT /api/admin/clients/[id]\<close> with the dialog's three fields, on its success branch.\<close>

lemma admin_client_PUT_form:
  assumes "filter (\<lambda>x. c_id x = k) (clients d) = [c]"
    and "\<not> email_taken em (filter (\<lambda>x. c_id x \<noteq> k) (clients d))"
    and "UpdateClient \<notin> failing e"
  shows "admin_client_PUT e k (Some (JObj [(''name'', nm), (''email'', em), (''phone'', ph)])) d =
           (Response 200 (BClient (c\<lparr>c_email := em, c_phone := ph, c_name := nm, c_updated := now e\<rparr>)),
            d\<lparr>clients := map (\<lambda>x. if c_id x = k then x\<lparr>c_email := em, c_phone := ph, c_name := nm, c_updated := now e\<rparr> else x)
                             (clients d)\<rparr>)"
proof -
  have "\<not> (\<exists>x\<in>set (clients d). c_id x = k \<and> email_taken em (filter (\<lambda>x. c_id x \<noteq> k) (clients d)))"
    using assms(2) by blast
  moreover have "filter (\<lambda>r. c_id r = k)
      (map (\<lambda>x. if c_id x = k then x\<lparr>c_email := em, c_phone := ph, c_name := nm, c_updated := now e\<rparr> else x) (clients d))
      = [c\<lparr>c_email := em, c_phone := ph, c_name := nm, c_updated := now e\<rparr>]"
    using filter_map_if_same [where P = "\<lambda>x. c_id x = k" and xs = "clients d"
        and f = "\<lambda>x. x\<lparr>c_email := em, c_phone := ph, c_name := nm, c_updated := now e\<rparr>"] assms(1)
    by simp
  ultimately show ?thesis
    using assms(3)
    by (simp add: admin_client_PUT_def update_client_def update_single_def update_rows_def guard_call_def
        merge_client_def col_or_def update_cols_ok_def cols_known_def client_cols_def Let_def)
qed

lemma anna_valid: "html_email_valid ''anna@olio.it''"
  by code_simp

subsection \<open>Editing a client\<close>

text \<open>
  C34: opening a client in the edit dialog and saving it unchanged rewrites the
  row with the values the form showed: the e-mail is kept, and so are a non-empty
  name and phone, but a \<open>null\<close> (or any falsy) name or phone becomes the empty
  string (\<open>client.name || ""\<close>), and \<open>updated_at\<close> is refreshed; no other row
  changes.
\<close>

theorem clients_edit_roundtrip:
  assumes "filter (\<lambda>x. c_id x = c_id c) (clients d) = [c]"
    and "filter (\<lambda>x. c_email x = c_email c) (clients d) = [c]"
    and "c_email c = JStr m" "html_email_valid m" "UpdateClient \<notin> failing e"
  shows "snd (clients_submitForm e (clients_openEditDialog c s) d) =
           d\<lparr>clients := map (\<lambda>x. if c_id x = c_id c
                                 then x\<lparr>c_name := or_empty (c_name x), c_phone := or_empty (c_phone x),
                                        c_updated := now e\<rparr>
                                 else x) (clients d)\<rparr>"
proof -
  let ?f = "\<lambda>x. x\<lparr>c_email := c_email c, c_phone := or_empty (c_phone c), c_name := or_empty (c_name c), c_updated := now e\<rparr>"
  have free: "\<not> email_taken (c_email c) (filter (\<lambda>x. c_id x \<noteq> c_id c) (clients d))"
    using filter_singleton_unique [OF assms(2)] by (auto simp: email_taken_def)
  have put: "admin_client_PUT e (c_id c) (Some (client_form_json (cs_form (clients_openEditDialog c s)))) d =
      (Response 200 (BClient (?f c)), d\<lparr>clients := map (\<lambda>x. if c_id x = c_id c then ?f x else x) (clients d)\<rparr>)"
    unfolding clients_openEditDialog_def client_form_json_def
    using admin_client_PUT_form [OF assms(1) free assms(5)] by simp
  have "map (\<lambda>x. if c_id x = c_id c then ?f x else x) (clients d) =
        map (\<lambda>x. if c_id x = c_id c then x\<lparr>c_name := or_empty (c_name x), c_phone := or_empty (c_phone x),
                                        c_updated := now e\<rparr> else x) (clients d)"
  proof (rule map_cong [OF refl])
    fix x assume "x \<in> set (clients d)"
    then show "(if c_id x = c_id c then ?f x else x) =
        (if c_id x = c_id c then x\<lparr>c_name := or_empty (c_name x), c_phone := or_empty (c_phone x),
                                        c_updated := now e\<rparr> else x)"
      using filter_singleton_unique [OF assms(1), of x] by auto
  qed
  with put assms(3,4) show ?thesis
    by (simp add: clients_submitForm_def clients_handleSubmit_def clients_openEditDialog_def response_ok_def status_def
        split: sum.splits)
qed

theorem clients_edit_roundtrip_witness:
  "snd (clients_submitForm demo_env (clients_openEditDialog nameless_client clients_screen0)
          (demo_db\<lparr>clients := [nameless_client]\<rparr>)) =
     demo_db\<lparr>clients := [nameless_client\<lparr>c_name := JStr [], c_updated := 1000\<rparr>]\<rparr>"
  using clients_edit_roundtrip [of nameless_client "demo_db\<lparr>clients := [nameless_client]\<rparr>" "''anna@olio.it''" demo_env clients_screen0]
    anna_valid
  by (simp add: or_empty_def)

subsection \<open>Refused creation\<close>

text \<open>
  C35: creating a client whose e-mail already belongs to a client fails on the
  unique constraint, and the page reports nothing: the dialog stays open with the
  form as typed and the database is unchanged.
\<close>

theorem clients_create_refused:
  assumes "cs_editing s = None" "cf_email (cs_form s) = JStr m" "html_email_valid m"
    and "c \<in> set (clients d)" "c_email c = JStr m"
  shows "clients_submitForm e s d = (Inr s, d)"
proof -
  have "email_taken (JStr m) (clients d)" using assms(4,5) by (auto simp: email_taken_def)
  then have post: "admin_clients_POST e (Some (client_form_json (cs_form s))) d =
      (Response 500 (BError ''Errore nella creazione del cliente''), d)"
    using assms(2)
    by (simp add: admin_clients_POST_def insert_client_payload_def client_form_json_def cols_known_def client_cols_def
        guard_call_def new_client_def col_or_def Let_def)
  then show ?thesis
    using assms(1-3)
    by (simp add: clients_submitForm_def clients_handleSubmit_def response_ok_def status_def post)
qed

theorem clients_create_refused_witness:
  "clients_submitForm demo_env
     (clients_screen0\<lparr>cs_form := \<lparr>cf_name = JStr ''Anna'', cf_email = JStr ''anna@olio.it'', cf_phone = JStr []\<rparr>\<rparr>)
     (demo_db\<lparr>clients := [nameless_client]\<rparr>)
   = (Inr (clients_screen0\<lparr>cs_form := \<lparr>cf_name = JStr ''Anna'', cf_email = JStr ''anna@olio.it'', cf_phone = JStr []\<rparr>\<rparr>),
      demo_db\<lparr>clients := [nameless_client]\<rparr>)"
  using anna_valid
  by (intro clients_create_refused [where m = "''anna@olio.it''" and c = nameless_client]) simp_all

subsection \<open>Deleting a client\<close>

lemma reloadClients_clients:
  "reloadClients e d s = Inr s' \<Longrightarrow>
     set (cp_clients (cs_page s')) \<subseteq> set (clients d) \<and> cs_dialog s' = cs_dialog s \<and> cs_form s' = cs_form s"
  by (auto simp: reloadClients_def fetchClients_def admin_clients_GET_def Let_def newest_first_def
      split: sum.splits if_splits)

text \<open>
  C36: deleting a client asks first: without confirmation nothing happens; with it,
  and when the delete succeeds, exactly the rows with that key leave the clients
  table and the reloaded list no longer shows the client, while the dialog and
  its form stay as they were.
\<close>

theorem clients_delete_confirmed:
  assumes "DeleteClient \<notin> failing e"
  shows "clients_handleDelete e False k s d = (Inr s, d)
         \<and> snd (clients_handleDelete e True k s d) = d\<lparr>clients := filter (\<lambda>c. c_id c \<noteq> k) (clients d)\<rparr>
         \<and> (\<forall>s'. fst (clients_handleDelete e True k s d) = Inr s' \<longrightarrow>
                 k \<notin> c_id ` set (cp_clients (cs_page s')) \<and> cs_dialog s' = cs_dialog s \<and> cs_form s' = cs_form s)"
proof -
  let ?d' = "d\<lparr>clients := filter (\<lambda>c. c_id c \<noteq> k) (clients d)\<rparr>"
  have run: "clients_handleDelete e True k s d = (reloadClients e ?d' s, ?d')"
    using assms by (simp add: clients_handleDelete_def admin_client_DELETE_def delete_rows_def response_ok_def status_def)
  have "k \<notin> c_id ` set (cp_clients (cs_page s')) \<and> cs_dialog s' = cs_dialog s \<and> cs_form s' = cs_form s"
    if "reloadClients e ?d' s = Inr s'" for s'
    using reloadClients_clients [OF that] by auto
  moreover have "clients_handleDelete e False k s d = (Inr s, d)"
    by (simp add: clients_handleDelete_def)
  ultimately show ?thesis
    by (simp add: run)
qed

theorem clients_delete_confirmed_witness:
  "clients_handleDelete demo_env False 7 clients_screen0 (demo_db\<lparr>clients := [nameless_client]\<rparr>)
     = (Inr clients_screen0, demo_db\<lparr>clients := [nameless_client]\<rparr>)
   \<and> snd (clients_handleDelete demo_env True 7 clients_screen0 (demo_db\<lparr>clients := [nameless_client]\<rparr>))
     = demo_db\<lparr>clients := []\<rparr>
   \<and> (\<exists>s'. fst (clients_handleDelete demo_env True 7 clients_screen0 (demo_db\<lparr>clients := [nameless_client]\<rparr>)) = Inr s'
          \<and> 7 \<notin> c_id ` set (cp_clients (cs_page s')) \<and> cs_dialog s' = False \<and> cs_form s' = blank_client_form)"
proof -
  have "\<exists>s'. fst (clients_handleDelete demo_env True 7 clients_screen0 (demo_db\<lparr>clients := [nameless_client]\<rparr>)) = Inr s'"
    by (simp add: clients_handleDelete_def admin_client_DELETE_def reloadClients_def fetchClients_def
        admin_clients_GET_def filterClients_def response_ok_def status_def delete_rows_def Let_def)
  then show ?thesis
    using clients_delete_confirmed [of demo_env 7 clients_screen0 "demo_db\<lparr>clients := [nameless_client]\<rparr>"]
    by auto
qed

subsection \<open>The summary cards\<close>

text \<open>
  Re-saving a client as the edit dialog shows it changes no summary card:
  \<open>x || ""\<close> keeps the truthiness the cards count, although it replaces a
  \<open>null\<close> by the empty string.
\<close>

lemma truthy_or_empty: "truthy (Some (or_empty v)) = truthy (Some v)"
  by (simp add: or_empty_def)

lemma clients_stats_resave:
  "clients_stats (map (\<lambda>x. if c_id x = k then x\<lparr>c_name := or_empty (c_name x), c_phone := or_empty (c_phone x),
                                                   c_updated := t\<rparr> else x) cs) = clients_stats cs"
  by (induction cs) (auto simp: clients_stats_def truthy_or_empty)


end
