(* ===== verification/Dashboard.thy ===== *)
theory Dashboard
  imports Db Complex_Main "HOL-Library.Multiset"
begin

text \<open>
  The sales dashboard (\<open>src/app/admin/dashboard/page.tsx\<close>), a server component
  that reads the four tables and renders statistics: the totals, the orders of the
  last seven days, the orders per status and the messages per request type with
  their percentages, and the products ranked by the quantity sold. The page is a
  function \<open>AdminDashboard\<close> of the environment and the database to a record of
  the values it renders. Percentages are exact rationals (the page's floating-point
  division is not modelled). The sum of quantities is JavaScript's \<open>+\<close>
  (\<open>js_plus\<close>); the ranking is \<open>Array.prototype.sort\<close> with the comparator
  \<open>b.quantity - a.quantity\<close>, a stable sort, modelled when every sum is a number
  (the integer column the page expects), and \<open>None\<close> otherwise, where a
  comparator returning \<open>NaN\<close> leaves the order to the implementation.
\<close>

section \<open>JavaScript's addition\<close>

text \<open>
  \<open>a + b\<close>: when either operand is a string, an array or an object its
  primitive is a string and the result is the concatenation of the two
  \<open>String\<close>s; otherwise both are converted to numbers (\<open>null\<close> is 0,
  \<open>true\<close> is 1).
\<close>

fun js_stringy :: "jval \<Rightarrow> bool" where
  "js_stringy (JStr _) = True"
| "js_stringy (JArr _) = True"
| "js_stringy (JObj _) = True"
| "js_stringy _ = False"

fun js_to_num :: "jval \<Rightarrow> int" where
  "js_to_num (JNum n) = n"
| "js_to_num (JBool b) = (if b then 1 else 0)"
| "js_to_num _ = 0"

definition js_plus :: "jval \<Rightarrow> jval \<Rightarrow> jval" where
  "js_plus a b =
     (if js_stringy a \<or> js_stringy b then JStr (js_string a @ js_string b)
      else JNum (js_to_num a + js_to_num b))"

section \<open>The statistics\<close>

text \<open>\<open>result.data || []\<close>: a failed query reads as an empty table.\<close>

definition rows_or_empty :: "env \<Rightarrow> db_call \<Rightarrow> 'a list \<Rightarrow> 'a list" where
  "rows_or_empty e c rows = (if c \<in> failing e then [] else rows)"

record product_stat =
  ps_name :: string
  ps_orders :: nat
  ps_quantity :: jval

definition product_stat_of :: "order_row list \<Rightarrow> product \<Rightarrow> product_stat" where
  "product_stat_of os p =
     (let pos = filter (\<lambda>od. product_name od = JStr (p_name p)) os
      in \<lparr>ps_name = p_name p, ps_orders = length pos,
          ps_quantity = foldl (\<lambda>sum od. js_plus sum (quantity od)) (JNum 0) pos\<rparr>)"

fun stat_number :: "jval \<Rightarrow> int option" where
  "stat_number (JNum n) = Some n"
| "stat_number _ = None"

text \<open>
  \<open>productStats.sort((a, b) => b.quantity - a.quantity)\<close>: a stable sort by
  decreasing quantity, defined when every quantity is a number.
\<close>

definition stat_key :: "product_stat \<Rightarrow> int" where
  "stat_key s = (case stat_number (ps_quantity s) of Some n \<Rightarrow> - n | None \<Rightarrow> 0)"

definition rank_products :: "product_stat list \<Rightarrow> product_stat list option" where
  "rank_products ss =
     (if list_all (\<lambda>s. stat_number (ps_quantity s) \<noteq> None) ss
      then Some (sort_key stat_key ss) else None)"

definition week_seconds :: nat where
  "week_seconds = 7 * 86400"

text \<open>
  \<open>count / total * 100\<close>, and 0 for an empty table, in exact rationals. The page
  computes it in doubles: rounding is monotone, so a value still lies between 0
  and 100, but the values of a panel need not add up to 100, and no property
  below depends on their sum.
\<close>

definition percentage :: "nat \<Rightarrow> nat \<Rightarrow> rat" where
  "percentage c n = (if 0 < n then of_nat c / of_nat n * 100 else 0)"

definition order_statuses :: "string list" where
  "order_statuses = [''Appena ordinato'', ''Pagato'', ''Consegnato'']"

definition request_types :: "string list" where
  "request_types =
     [''Informazioni generali'', ''Ordini e consegna'', ''Collaborazioni'', ''Visita in azienda'', ''Altro'']"

definition breakdown :: "('a \<Rightarrow> jval) \<Rightarrow> 'a list \<Rightarrow> string list \<Rightarrow> (string \<times> nat \<times> rat) list" where
  "breakdown field rows labels =
     map (\<lambda>l. let c = length (filter (\<lambda>r. field r = JStr l) rows) in (l, c, percentage c (length rows))) labels"

record dashboard =
  total_orders :: nat
  total_messages :: nat
  total_clients :: nat
  recent_orders :: nat
  status_rows :: "(string \<times> nat \<times> rat) list"
  type_rows :: "(string \<times> nat \<times> rat) list"
  product_rows :: "product_stat list option"
  no_sales_data :: bool

definition AdminDashboard :: "env \<Rightarrow> db \<Rightarrow> dashboard" where
  "AdminDashboard e d =
     (let os = rows_or_empty e SelectOrders (orders d);
          ms = rows_or_empty e SelectMessages (messages d);
          cs = rows_or_empty e SelectClients (clients d);
          ps = rows_or_empty e SelectProducts (products d);
          stats = map (product_stat_of os) ps;
          since = now e - week_seconds
      in \<lparr>total_orders = length os, total_messages = length ms, total_clients = length cs,
          recent_orders = length (filter (\<lambda>od. since \<le> o_created od) os),
          status_rows = breakdown o_status os order_statuses,
          type_rows = breakdown request_type ms request_types,
          product_rows = map_option (take 10) (rank_products stats),
          no_sales_data = (stats = [])\<rparr>)"

text \<open>
  The ranking as rendered: the first ten products with their position
  (\<open>index + 1\<close>), name, \<open>"<n> ordini"\<close> and \<open>"<quantity> pz"\<close>, the quantity
  printed by \<open>String\<close>; and the note shown when there are no products at all.
\<close>

definition product_list_view :: "dashboard \<Rightarrow> (string \<times> string \<times> string \<times> string) list option" where
  "product_list_view db =
     map_option (\<lambda>rows. map (\<lambda>(i, s). (nat_dec (Suc i), ps_name s, nat_dec (ps_orders s) @ '' ordini'',
                                          js_string (ps_quantity s) @ '' pz'')) (enumerate 0 rows))
       (product_rows db)"

definition no_sales_text :: "dashboard \<Rightarrow> string option" where
  "no_sales_text db = (if no_sales_data db then Some ''Nessun dato di vendita disponibile'' else None)"

section \<open>Sample data\<close>

abbreviation sale_row :: "row_id \<Rightarrow> string \<Rightarrow> int \<Rightarrow> string \<Rightarrow> order_row" where
  "sale_row i p q st \<equiv>
     \<lparr>o_id = i, customer_name = JStr ''Mario'', customer_email = JStr ''mario@x.it'', customer_phone = JNull,
      product_name = JStr p, product_size = JStr ''1L'', quantity = JNum q, o_status = JStr st,
      o_notes = JNull, o_created = 500, o_updated = 500\<rparr>"

abbreviation sales_db :: db where
  "sales_db \<equiv> demo_db\<lparr>products := [demo_product, \<lparr>p_id = 5, p_name = ''Olive in salamoia'', sizes = [''250g'']\<rparr>],
                      orders := [sale_row 3 ''Olio Extra Vergine'' 2 ''Pagato'',
                                 sale_row 4 ''Olive in salamoia'' 5 ''Consegnato'',
                                 sale_row 6 ''Olio Extra Vergine'' 1 ''Spedito'']\<rparr>"

section \<open>Properties\<close>

subsection \<open>Shared lemmas\<close>

lemma foldl_js_plus_numbers:
  "list_all (\<lambda>od. \<exists>n. quantity od = JNum n) os \<Longrightarrow>
   foldl (\<lambda>sum od. js_plus sum (quantity od)) (JNum a) os = JNum (a + sum_list (map (\<lambda>od. js_to_num (quantity od)) os))"
  by (induction os arbitrary: a) (auto simp: js_plus_def algebra_simps)

lemma breakdown_counts:
  "distinct ls \<Longrightarrow>
   sum_list (map (\<lambda>l. length (filter (\<lambda>r. f r = JStr l) rows)) ls) = length (filter (\<lambda>r. f r \<in> JStr ` set ls) rows)"
proof (induction ls)
  case Nil then show ?case by simp
next
  case (Cons l ls)
  have "length (filter (\<lambda>r. f r \<in> JStr ` set (l # ls)) rows) =
        length (filter (\<lambda>r. f r = JStr l) rows) + length (filter (\<lambda>r. f r \<in> JStr ` set ls) rows)"
    using Cons.prems by (induction rows) auto
  with Cons show ?case by simp
qed

lemma percentage_bounds: "c \<le> t \<Longrightarrow> 0 \<le> percentage c t \<and> percentage c t \<le> 100"
proof (cases "0 < t")
  case True
  assume "c \<le> t"
  then have "rat_of_nat c * 100 \<le> 100 * rat_of_nat t" by simp
  with True show ?thesis by (simp add: percentage_def pos_divide_le_eq)
qed (simp add: percentage_def)

lemma breakdown_bounds:
  "list_all (\<lambda>(l, c, pc). 0 \<le> pc \<and> pc \<le> 100) (breakdown f rows ls)"
  by (auto simp: breakdown_def list_all_iff Let_def intro!: percentage_bounds)

lemma breakdown_sum:
  "distinct ls \<Longrightarrow> sum_list (map (\<lambda>(l, c, pc). c) (breakdown f rows ls)) =
     length (filter (\<lambda>r. f r \<in> JStr ` set ls) rows)"
  by (simp add: breakdown_def Let_def comp_def case_prod_beta breakdown_counts)

lemma length_filter_eq_length_iff: "length (filter P xs) = length xs \<longleftrightarrow> list_all P xs"
  by (auto simp: list_all_iff dest: length_filter_less)

lemma product_stat_quantity:
  "list_all (\<lambda>od. \<exists>n. quantity od = JNum n) os \<Longrightarrow>
   ps_quantity (product_stat_of os p) =
     JNum (sum_list (map (\<lambda>od. js_to_num (quantity od)) (filter (\<lambda>od. product_name od = JStr (p_name p)) os)))"
  by (simp add: product_stat_of_def Let_def foldl_js_plus_numbers list_all_iff)

lemma sort_key_all_equal: "list_all (\<lambda>x. f x = k) xs \<Longrightarrow> sort_key f xs = xs"
  using sort_key_stable [of f k xs] by (simp add: list_all_iff)

lemma ps_name_product_stat_of [simp]: "ps_name (product_stat_of os p) = p_name p"
  by (simp add: product_stat_of_def Let_def)

lemma stats_numbers:
  assumes "list_all (\<lambda>od. \<exists>n. quantity od = JNum n) os" "s \<in> set (map (product_stat_of os) ps)"
  shows "ps_quantity s = JNum (sum_list (map (\<lambda>od. js_to_num (quantity od))
                  (filter (\<lambda>od. product_name od = JStr (ps_name s)) os)))"
  using assms(2) product_stat_quantity [OF assms(1)] by auto

lemma stat_key_iff:
  "ps_quantity s = JNum m \<Longrightarrow> (ps_quantity s = JNum n) = (stat_key s = - n)"
  by (simp add: stat_key_def)

subsection \<open>Percentages\<close>

text \<open>
  C31: the two breakdown panels: every bar's percentage lies between 0 and 100,
  the recent orders are among all orders, and the status counts add up to the
  number of orders exactly when each order has one of the three statuses the
  page lists; an order with any other status (which
  \<open>PUT /api/admin/orders/[id]\<close> accepts) is in no bar.
\<close>

theorem dashboard_status_breakdown:
  "list_all (\<lambda>(l, c, pc). 0 \<le> pc \<and> pc \<le> 100) (status_rows (AdminDashboard e d) @ type_rows (AdminDashboard e d))
   \<and> recent_orders (AdminDashboard e d) \<le> total_orders (AdminDashboard e d)
   \<and> (sum_list (map (\<lambda>(l, c, pc). c) (status_rows (AdminDashboard e d))) = total_orders (AdminDashboard e d)
      \<longleftrightarrow> list_all (\<lambda>od. o_status od \<in> JStr ` set order_statuses) (rows_or_empty e SelectOrders (orders d)))"
proof -
  let ?os = "rows_or_empty e SelectOrders (orders d)"
  have rows: "status_rows (AdminDashboard e d) = breakdown o_status ?os order_statuses"
      "type_rows (AdminDashboard e d) = breakdown request_type (rows_or_empty e SelectMessages (messages d)) request_types"
      "total_orders (AdminDashboard e d) = length ?os"
      "recent_orders (AdminDashboard e d) = length (filter (\<lambda>od. now e - week_seconds \<le> o_created od) ?os)"
    by (simp_all add: AdminDashboard_def Let_def)
  have "distinct order_statuses" by (simp add: order_statuses_def)
  then show ?thesis
    using breakdown_bounds [of o_status ?os order_statuses] breakdown_bounds [of request_type]
    by (simp add: rows breakdown_sum length_filter_eq_length_iff)
qed

subsection \<open>Product ranking\<close>

text \<open>
  C32: when every order's quantity is a number, the ranking is the first ten of a
  permutation of the catalogue's statistics, sorted by decreasing quantity, with
  products of equal quantity in catalogue order (the sort is stable), and each
  product's quantity is the sum of the quantities of its orders.
\<close>

theorem dashboard_product_ranking:
  assumes "SelectOrders \<notin> failing e" "SelectProducts \<notin> failing e"
    and "list_all (\<lambda>od. \<exists>n. quantity od = JNum n) (orders d)"
  shows "\<exists>rows. product_rows (AdminDashboard e d) = Some (take 10 rows)
           \<and> mset rows = mset (map (product_stat_of (orders d)) (products d))
           \<and> sorted_wrt (\<lambda>a b. js_to_num (ps_quantity b) \<le> js_to_num (ps_quantity a)) rows
           \<and> (\<forall>q. filter (\<lambda>s. ps_quantity s = q) rows
                  = filter (\<lambda>s. ps_quantity s = q) (map (product_stat_of (orders d)) (products d)))
           \<and> list_all (\<lambda>s. ps_quantity s = JNum (sum_list (map (\<lambda>od. js_to_num (quantity od))
                  (filter (\<lambda>od. product_name od = JStr (ps_name s)) (orders d))))) rows"
proof -
  let ?stats = "map (product_stat_of (orders d)) (products d)"
  note q = stats_numbers [OF assms(3)]
  have num: "\<exists>m. ps_quantity s = JNum m" if "s \<in> set ?stats" for s
    using q [OF that] by blast
  have key: "stat_key s = - js_to_num (ps_quantity s)" if "s \<in> set ?stats" for s
    using num [OF that] by (auto simp: stat_key_def)
  have rank: "rank_products ?stats = Some (sort_key stat_key ?stats)"
    unfolding rank_products_def list_all_iff using num by fastforce
  have dash: "product_rows (AdminDashboard e d) = Some (take 10 (sort_key stat_key ?stats))"
    using assms(1,2) rank by (simp add: AdminDashboard_def Let_def rows_or_empty_def)
  have "sorted_wrt (\<lambda>a b. stat_key a \<le> stat_key b) (sort_key stat_key ?stats)"
    using sorted_sort_key [of stat_key ?stats] by (simp add: sorted_wrt_map)
  then have sorted: "sorted_wrt (\<lambda>a b. js_to_num (ps_quantity b) \<le> js_to_num (ps_quantity a)) (sort_key stat_key ?stats)"
    by (rule sorted_wrt_mono_rel [rotated]) (simp add: key)
  have stable: "filter (\<lambda>s. ps_quantity s = v) (sort_key stat_key ?stats) = filter (\<lambda>s. ps_quantity s = v) ?stats" for v
  proof (cases "\<exists>n. v = JNum n")
    case True
    then obtain n where v: "v = JNum n" by blast
    have "filter (\<lambda>s. ps_quantity s = v) xs = filter (\<lambda>s. stat_key s = - n) xs" if "set xs \<subseteq> set ?stats" for xs
    proof (rule filter_cong [OF refl])
      fix s assume "s \<in> set xs"
      with that obtain m where "ps_quantity s = JNum m" using num by blast
      then show "(ps_quantity s = v) = (stat_key s = - n)" unfolding v by (rule stat_key_iff)
    qed
    then show ?thesis using sort_key_stable [of stat_key "- n" ?stats] by simp
  next
    case False
    then have "filter (\<lambda>s. ps_quantity s = v) xs = []" if "set xs \<subseteq> set ?stats" for xs
      using that num by (fastforce simp: filter_empty_conv)
    then show ?thesis by simp
  qed
  show ?thesis
    by (rule exI [of _ "sort_key stat_key ?stats"]) (simp add: dash sorted stable list_all_iff q)
qed

theorem dashboard_product_ranking_witness:
  "\<exists>rows. product_rows (AdminDashboard demo_env sales_db) = Some (take 10 rows)
     \<and> mset rows = mset (map (product_stat_of (orders sales_db)) (products sales_db))
     \<and> sorted_wrt (\<lambda>a b. js_to_num (ps_quantity b) \<le> js_to_num (ps_quantity a)) rows
     \<and> (\<forall>q. filter (\<lambda>s. ps_quantity s = q) rows
            = filter (\<lambda>s. ps_quantity s = q) (map (product_stat_of (orders sales_db)) (products sales_db)))
     \<and> list_all (\<lambda>s. ps_quantity s = JNum (sum_list (map (\<lambda>od. js_to_num (quantity od))
            (filter (\<lambda>od. product_name od = JStr (ps_name s)) (orders sales_db))))) rows"
  by (rule dashboard_product_ranking) simp_all

subsection \<open>Failed reads\<close>

text \<open>
  C33: when the orders query fails, the dashboard does not report an error: it
  shows no orders, no recent orders, and every product with zero sales, in
  catalogue order.
\<close>

theorem dashboard_orders_read_failure:
  assumes "SelectOrders \<in> failing e"
  shows "total_orders (AdminDashboard e d) = 0 \<and> recent_orders (AdminDashboard e d) = 0
         \<and> product_rows (AdminDashboard e d) =
             Some (take 10 (map (\<lambda>p. \<lparr>ps_name = p_name p, ps_orders = 0, ps_quantity = JNum 0\<rparr>)
                             (rows_or_empty e SelectProducts (products d))))"
proof -
  have empty: "product_stat_of [] = (\<lambda>p. \<lparr>ps_name = p_name p, ps_orders = 0, ps_quantity = JNum 0\<rparr>)"
    by (simp add: product_stat_of_def fun_eq_iff)
  have "sort_key stat_key (map (product_stat_of []) ps) = map (product_stat_of []) ps" for ps
    by (rule sort_key_all_equal [where k = 0]) (simp add: list_all_iff stat_key_def empty)
  moreover have "rank_products (map (product_stat_of []) ps) = Some (sort_key stat_key (map (product_stat_of []) ps))" for ps
    by (simp add: rank_products_def list_all_iff empty)
  ultimately have "product_rows (AdminDashboard e d) =
      Some (take 10 (map (product_stat_of []) (rows_or_empty e SelectProducts (products d))))"
    using assms by (simp add: AdminDashboard_def Let_def rows_or_empty_def [of e SelectOrders])
  then show ?thesis
    using assms by (simp add: empty) (simp add: AdminDashboard_def Let_def rows_or_empty_def)
qed

theorem dashboard_orders_read_failure_witness:
  "total_orders (AdminDashboard (demo_env\<lparr>failing := {SelectOrders}\<rparr>) sales_db) = 0
   \<and> recent_orders (AdminDashboard (demo_env\<lparr>failing := {SelectOrders}\<rparr>) sales_db) = 0
   \<and> product_rows (AdminDashboard (demo_env\<lparr>failing := {SelectOrders}\<rparr>) sales_db) =
       Some (take 10 (map (\<lambda>p. \<lparr>ps_name = p_name p, ps_orders = 0, ps_quantity = JNum 0\<rparr>)
                       (rows_or_empty (demo_env\<lparr>failing := {SelectOrders}\<rparr>) SelectProducts (products sales_db))))"
  by (rule dashboard_orders_read_failure) simp

subsection \<open>The rendered ranking\<close>

text \<open>
  On the sample shop the page lists the olives first (5 pieces in one order), then
  the oil (3 pieces in two orders): the ranking is by quantity, not by number of
  orders, and the order with an unlisted status still counts.
\<close>

lemma product_list_view_sales:
  "product_list_view (AdminDashboard demo_env sales_db) =
     Some [(''1'', ''Olive in salamoia'', ''1 ordini'', ''5 pz''), (''2'', ''Olio Extra Vergine'', ''2 ordini'', ''3 pz'')]"
proof -
  have "product_rows (AdminDashboard demo_env sales_db) =
      Some [\<lparr>ps_name = ''Olive in salamoia'', ps_orders = 1, ps_quantity = JNum 5\<rparr>,
            \<lparr>ps_name = ''Olio Extra Vergine'', ps_orders = 2, ps_quantity = JNum 3\<rparr>]"
    by (simp add: AdminDashboard_def Let_def rows_or_empty_def product_stat_of_def js_plus_def
        rank_products_def stat_key_def)
  then show ?thesis
    by (simp add: product_list_view_def nat_dec_def dec_digits.simps int_dec_def digit_char_eq_iff)
qed


end
