(* ===== verification/ReactEffects.thy ===== *)
theory ReactEffects
  imports Prelude
begin

text \<open>
  React's \<open>useEffect\<close>, as the pages under \<open>src/app/admin/\<close> use it
  (\<open>useEffect(() => { ... }, [deps])\<close>). After a render React compares each
  effect's dependency array with the one it saw when the effect last ran, runs the
  effects whose dependencies changed (all of them after the first render), in the
  order they are declared, and renders again when they set state. An effect is its
  dependency array, a function of the rendered state, and its body, which reads the
  rendered state (the closure of that render) and updates the current one. The
  loop stops when no dependency changed: it need not stop, so it is a
  \<^theory_text>\<open>partial_function (option)\<close>, whose \<open>None\<close> is a page that re-renders
  for ever.
\<close>

type_synonym ('s, 'k) effect = "('s \<Rightarrow> 'k) \<times> ('s \<Rightarrow> 's \<Rightarrow> 's)"

text \<open>The dependency arrays of a render: \<open>Some\<close> array for each effect.\<close>

definition effect_deps :: "('s, 'k) effect list \<Rightarrow> 's \<Rightarrow> 'k option list" where
  "effect_deps effs s = map (\<lambda>eff. Some (fst eff s)) effs"

text \<open>
  One commit: every effect whose array differs from the one it last ran with
  (\<open>None\<close>: never ran) runs against the rendered state \<open>s\<close>; the state updates
  are applied in order.
\<close>

definition run_due :: "('s, 'k) effect list \<Rightarrow> 'k option list \<Rightarrow> 's \<Rightarrow> 's" where
  "run_due effs seen s =
     fold (\<lambda>(eff, l) acc. if l = Some (fst eff s) then acc else snd eff s acc) (zip effs seen) s"

partial_function (option) settle :: "('s, 'k) effect list \<Rightarrow> 'k option list \<Rightarrow> 's \<Rightarrow> 's option" where
  "settle effs seen s =
     (if effect_deps effs s = seen then Some s
      else settle effs (effect_deps effs s) (run_due effs seen s))"

text \<open>The first render: no effect has run.\<close>

definition mount :: "('s, 'k) effect list \<Rightarrow> 's \<Rightarrow> 's option" where
  "mount effs s = settle effs (replicate (length effs) None) s"

text \<open>\<open>useEffect(() => setCount(count + 1), [count])\<close>, for the example below.\<close>

abbreviation counter_effect :: "(nat, nat) effect list" where
  "counter_effect \<equiv> [(\<lambda>n. n, \<lambda>r acc. Suc r)]"

section \<open>Lemmas\<close>

lemma settle_stable: "effect_deps effs s = seen \<Longrightarrow> settle effs seen s = Some s"
  by (simp add: settle.simps)

lemma settle_step:
  "effect_deps effs s \<noteq> seen \<Longrightarrow> settle effs seen s = settle effs (effect_deps effs s) (run_due effs seen s)"
  by (subst settle.simps) simp

text \<open>
  Effects whose bodies leave every dependency array as it was settle in one
  commit: the loop ends at the second render.
\<close>

lemma run_due_keeps_deps:
  assumes "\<And>eff r s. eff \<in> set effs \<Longrightarrow> effect_deps effs (snd eff r s) = effect_deps effs s"
  shows "effect_deps effs (run_due effs seen s) = effect_deps effs s"
proof -
  have "effect_deps effs (fold (\<lambda>(eff, l) acc. if l = Some (fst eff r) then acc else snd eff r acc) ps acc)
        = effect_deps effs acc" if "set (map fst ps) \<subseteq> set effs" for ps acc r
    using that assms [of "(a, b)" for a b, simplified] by (induction ps arbitrary: acc) auto
  moreover have "set (map fst (zip effs seen)) \<subseteq> set effs"
    by (auto dest: set_zip_leftD)
  ultimately show ?thesis
    unfolding run_due_def by blast
qed

lemma settle_one_commit:
  assumes "\<And>eff r s. eff \<in> set effs \<Longrightarrow> effect_deps effs (snd eff r s) = effect_deps effs s"
  shows "settle effs seen s = Some (if effect_deps effs s = seen then s else run_due effs seen s)"
  using run_due_keeps_deps [OF assms] by (simp add: settle_stable settle_step)

section \<open>A page that never settles\<close>

text \<open>
  The loop need not end: an effect that sets the state its own dependency array
  reads (\<open>useEffect(() => setCount(count + 1), [count])\<close>) re-renders for ever.
\<close>

lemma counter_effect_no_return:
  assumes ret: "settle effs seen s = Some r"
  shows "effs = counter_effect \<longrightarrow> (seen = [None] \<or> (\<exists>k. seen = [Some k] \<and> k < s)) \<longrightarrow> False"
proof (rule settle.raw_induct [where P = "\<lambda>effs seen s r. effs = counter_effect \<longrightarrow>
        (seen = [None] \<or> (\<exists>k. seen = [Some k] \<and> k < s)) \<longrightarrow> False", OF _ ret])
  fix f :: "(nat, nat) effect list \<Rightarrow> nat option list \<Rightarrow> nat \<Rightarrow> nat option" and effs seen s r
  assume IH: "\<And>effs seen s r. f effs seen s = Some r \<Longrightarrow> effs = counter_effect \<longrightarrow>
      (seen = [None] \<or> (\<exists>k. seen = [Some k] \<and> k < s)) \<longrightarrow> False"
    and eq: "(if effect_deps effs s = seen then Some s
             else f effs (effect_deps effs s) (run_due effs seen s)) = Some r"
  show "effs = counter_effect \<longrightarrow> (seen = [None] \<or> (\<exists>k. seen = [Some k] \<and> k < s)) \<longrightarrow> False"
  proof (intro impI)
    assume c: "effs = counter_effect" and seen: "seen = [None] \<or> (\<exists>k. seen = [Some k] \<and> k < s)"
    then have "effect_deps effs s \<noteq> seen" by (auto simp: effect_deps_def)
    moreover have "run_due effs seen s = Suc s"
      using c seen by (auto simp: run_due_def)
    ultimately have "f counter_effect [Some s] (Suc s) = Some r"
      using eq c by (simp add: effect_deps_def)
    then show False using IH by blast
  qed
qed

lemma settle_counter_diverges: "mount counter_effect 0 = None"
  using counter_effect_no_return [of counter_effect "[None]" 0] unfolding mount_def
  by (cases "settle counter_effect [None] 0") auto

end
