(* ===== verification/MessagesPage.thy ===== *)
theory MessagesPage
  imports Pages ReactEffects
begin

text \<open>
  The messages page (\<open>src/app/admin/messages/page.tsx\<close>) as an event-driven
  state machine. Its state and handlers (\<open>msg_page\<close>, \<open>fetchMessages\<close>,
  \<open>filterMessages\<close>, \<open>handleStatusUpdate\<close>, \<open>openMessageDialog\<close>) are in
  \<open>Pages\<close>, where each setter sets only its field. This theory gives the page's
  two effects to the effect loop of \<open>ReactEffects\<close>; adds the selects, the
  dialog, the colours and the empty-list text; and defines a step of the page as
  an event's handler followed by the commit, in which React runs the effects whose
  dependency arrays changed, and the page's reachable states from the events its
  controls allow.
\<close>

section \<open>The effects\<close>

text \<open>
  \<open>useEffect(fetchMessages, [])\<close> and
  \<open>useEffect(filterMessages, [messages, statusFilter, typeFilter])\<close>. The first
  starts a request whose answer arrives later (the event \<open>MessagesLoaded\<close>), so
  it changes no state during the commit.
\<close>

datatype msg_deps = MountDeps | FilterDeps "message_row list" string string

definition msg_effects :: "(msg_page, msg_deps) effect list" where
  "msg_effects =
     [(\<lambda>p. MountDeps, \<lambda>r acc. acc),
      (\<lambda>p. FilterDeps (mp_messages p) (mp_status_filter p) (mp_type_filter p),
       \<lambda>r acc. acc\<lparr>mp_filtered := filterMessages (mp_status_filter r) (mp_type_filter r) (mp_messages r)\<rparr>)]"

section \<open>Selects, colours and texts\<close>

definition message_statuses :: "string list" where
  "message_statuses = [''Nuovo'', ''Non letto'', ''Letto'']"

definition status_filter_options :: "string list" where
  "status_filter_options = ''all'' # message_statuses"

definition type_filter_options :: "string list" where
  "type_filter_options =
     [''all'', ''Informazioni generali'', ''Ordini e consegna'', ''Collaborazioni'', ''Visita in azienda'', ''Altro'']"

definition getStatusColor :: "string \<Rightarrow> string" where
  "getStatusColor s =
     (if s = ''Nuovo'' then ''bg-red-100 text-red-800''
      else if s = ''Non letto'' then ''bg-yellow-100 text-yellow-800''
      else if s = ''Letto'' then ''bg-green-100 text-green-800''
      else ''bg-gray-100 text-gray-800'')"

definition getTypeColor :: "string \<Rightarrow> string" where
  "getTypeColor t =
     (if t = ''Informazioni generali'' then ''bg-blue-100 text-blue-800''
      else if t = ''Ordini e consegna'' then ''bg-green-100 text-green-800''
      else if t = ''Collaborazioni'' then ''bg-purple-100 text-purple-800''
      else if t = ''Visita in azienda'' then ''bg-orange-100 text-orange-800''
      else ''bg-gray-100 text-gray-800'')"

text \<open>The text shown in place of an empty list.\<close>

definition empty_list_text :: "msg_page \<Rightarrow> string option" where
  "empty_list_text p =
     (if mp_filtered p \<noteq> [] then None
      else if mp_messages p = [] then Some ''Non ci sono messaggi da visualizzare.''
      else Some ''Nessun messaggio corrisponde ai filtri selezionati.'')"

text \<open>The two filter selects: \<open>onValueChange={setStatusFilter}\<close>, \<open>onValueChange={setTypeFilter}\<close>.\<close>

definition setStatusFilter :: "string \<Rightarrow> msg_page \<Rightarrow> msg_page" where
  "setStatusFilter sf p = p\<lparr>mp_status_filter := sf\<rparr>"

definition setTypeFilter :: "string \<Rightarrow> msg_page \<Rightarrow> msg_page" where
  "setTypeFilter tf p = p\<lparr>mp_type_filter := tf\<rparr>"

section \<open>Events\<close>

text \<open>
  What the user and the network do to the page: a listing arrives, a filter is
  chosen, a card is clicked, a status is chosen in a card's or the dialog's select,
  the dialog is closed (\<open>onOpenChange(false)\<close>).
\<close>

datatype msg_event =
    MessagesLoaded
  | ChooseStatusFilter string
  | ChooseTypeFilter string
  | OpenMessage message_row
  | ChooseStatus row_id string
  | CloseDialog

text \<open>The handler of an event: the state it sets and the requests it sends.\<close>

definition msg_handle :: "env \<Rightarrow> msg_event \<Rightarrow> msg_page \<times> db \<Rightarrow> msg_page \<times> db" where
  "msg_handle e ev pd =
     (case ev of
        MessagesLoaded \<Rightarrow> (fetchMessages e (snd pd) (fst pd), snd pd)
      | ChooseStatusFilter sf \<Rightarrow> (setStatusFilter sf (fst pd), snd pd)
      | ChooseTypeFilter tf \<Rightarrow> (setTypeFilter tf (fst pd), snd pd)
      | OpenMessage m \<Rightarrow> openMessageDialog e m pd
      | ChooseStatus k s \<Rightarrow> handleStatusUpdate e k s pd
      | CloseDialog \<Rightarrow> ((fst pd)\<lparr>mp_dialog := False\<rparr>, snd pd))"

text \<open>
  A step of the page: the handler, then the render and the commit. The effects
  last ran with the arrays of the rendered state \<open>p\<close> (a commit ends only when
  no array changed), so React compares the new state's arrays with those of
  \<open>p\<close>; \<open>None\<close> is a page that re-renders for ever.
\<close>

definition msg_step :: "env \<Rightarrow> msg_event \<Rightarrow> msg_page \<times> db \<Rightarrow> (msg_page \<times> db) option" where
  "msg_step e ev pd =
     (let (p', d') = msg_handle e ev pd
      in map_option (\<lambda>p''. (p'', d')) (settle msg_effects (effect_deps msg_effects (fst pd)) p'))"

text \<open>
  The events the rendered page offers: the selects' options, a card of the
  filtered list, a status select of a listed card or of the open dialog.
\<close>

fun msg_allowed :: "msg_page \<Rightarrow> msg_event \<Rightarrow> bool" where
  "msg_allowed p (ChooseStatusFilter sf) = (sf \<in> set status_filter_options)"
| "msg_allowed p (ChooseTypeFilter tf) = (tf \<in> set type_filter_options)"
| "msg_allowed p (OpenMessage m) = (m \<in> set (mp_filtered p))"
| "msg_allowed p (ChooseStatus k s) =
     (s \<in> set message_statuses
      \<and> (k \<in> set (map m_id (mp_filtered p)) \<or> (mp_dialog p \<and> map_option m_id (mp_selected p) = Some k)))"
| "msg_allowed p _ = True"

text \<open>
  The page's reachable states: the first render of the initial state over a
  database \<open>d0\<close>, then any allowed event, each in its own request environment.
\<close>

inductive msg_reach :: "db \<Rightarrow> msg_page \<times> db \<Rightarrow> bool" for d0 where
  init: "mount msg_effects initial_msg_page = Some p \<Longrightarrow> msg_reach d0 (p, d0)"
| step: "msg_reach d0 (p, d) \<Longrightarrow> msg_allowed p ev \<Longrightarrow> msg_step e ev (p, d) = Some pd' \<Longrightarrow> msg_reach d0 pd'"

text \<open>Every stored message has one of the three statuses.\<close>

definition statuses_valid :: "db \<Rightarrow> bool" where
  "statuses_valid d = list_all (\<lambda>m. m_status m \<in> JStr ` set message_statuses) (messages d)"

text \<open>
  The page's consistency: the shown list is the listing filtered by the two
  selects, and an open dialog has a message.
\<close>

definition msg_page_ok :: "msg_page \<Rightarrow> bool" where
  "msg_page_ok p =
     (mp_filtered p = filterMessages (mp_status_filter p) (mp_type_filter p) (mp_messages p)
      \<and> (if mp_dialog p then mp_selected p \<noteq> None else True))"

section \<open>Sample data\<close>

text \<open>The inbox of \<open>Pages\<close> after the listing arrives and after its message is opened.\<close>

abbreviation loaded_inbox :: "msg_page \<times> db" where
  "loaded_inbox \<equiv> the (msg_step demo_env MessagesLoaded (initial_msg_page, inbox_db))"

abbreviation opened_inbox :: "msg_page \<times> db" where
  "opened_inbox \<equiv> the (msg_step demo_env (OpenMessage nuovo_msg) loaded_inbox)"

section \<open>Properties\<close>

subsection \<open>Shared lemmas\<close>

lemma msg_effects_keep_deps:
  "eff \<in> set msg_effects \<Longrightarrow> effect_deps msg_effects (snd eff r s) = effect_deps msg_effects s"
  by (auto simp: msg_effects_def effect_deps_def)

lemma msg_settle:
  "settle msg_effects seen s =
     Some (if effect_deps msg_effects s = seen then s else run_due msg_effects seen s)"
  by (rule settle_one_commit) (rule msg_effects_keep_deps)

text \<open>
  The commit after an event: when the listing or a filter changed, the filter
  effect runs once on the new state; the fetch effect, whose array is empty,
  never runs again.
\<close>

lemma msg_commit:
  "settle msg_effects (effect_deps msg_effects p) p' =
     Some (if effect_deps msg_effects p' = effect_deps msg_effects p then p'
           else p'\<lparr>mp_filtered := filterMessages (mp_status_filter p') (mp_type_filter p') (mp_messages p')\<rparr>)"
  unfolding msg_settle by (simp add: run_due_def effect_deps_def msg_effects_def)

lemma msg_step_eq:
  "msg_step e ev (p, d) =
     Some (let p' = fst (msg_handle e ev (p, d))
           in if effect_deps msg_effects p' = effect_deps msg_effects p then p'
              else p'\<lparr>mp_filtered := filterMessages (mp_status_filter p') (mp_type_filter p') (mp_messages p')\<rparr>,
           snd (msg_handle e ev (p, d)))"
  by (simp add: msg_step_def msg_commit split: prod.split)

lemma mount_initial: "mount msg_effects initial_msg_page = Some initial_msg_page"
  unfolding mount_def msg_settle
  by (simp add: effect_deps_def msg_effects_def run_due_def initial_msg_page_def filterMessages_def)

lemma fetchMessages_fields [simp]:
  "mp_status_filter (fetchMessages e d p) = mp_status_filter p"
  "mp_type_filter (fetchMessages e d p) = mp_type_filter p"
  "mp_dialog (fetchMessages e d p) = mp_dialog p"
  "mp_selected (fetchMessages e d p) = mp_selected p"
  "mp_filtered (fetchMessages e d p) = mp_filtered p"
  by (simp_all add: fetchMessages_def setMessages_def split: response.splits body.splits)

lemma handleStatusUpdate_cases:
  "fst (handleStatusUpdate e k s (p, d)) = p \<or> fst (handleStatusUpdate e k s (p, d)) = fetchMessages e (snd (handleStatusUpdate e k s (p, d))) p"
  by (auto simp: handleStatusUpdate_def split: prod.splits)

lemma handleStatusUpdate_db:
  "snd (handleStatusUpdate e k s (p, d)) = snd (admin_message_PUT e k (Some (JObj [(''status'', JStr s)])) d)"
  by (auto simp: handleStatusUpdate_def split: prod.splits)

text \<open>No handler sets the shown list; only the filter effect does.\<close>

lemma msg_handle_filtered: "mp_filtered (fst (msg_handle e ev (p, d))) = mp_filtered p"
proof (cases ev)
  case (OpenMessage m)
  then show ?thesis
    using handleStatusUpdate_cases [of e "m_id m" "''Letto''" "p\<lparr>mp_selected := Some m, mp_dialog := True\<rparr>" d]
    by (auto simp: msg_handle_def openMessageDialog_def Let_def)
next
  case (ChooseStatus k st)
  then show ?thesis using handleStatusUpdate_cases [of e k st p d] by (auto simp: msg_handle_def)
qed (simp_all add: msg_handle_def setStatusFilter_def setTypeFilter_def)

lemma msg_handle_dialog:
  assumes "if mp_dialog p then mp_selected p \<noteq> None else True"
  shows "if mp_dialog (fst (msg_handle e ev (p, d))) then mp_selected (fst (msg_handle e ev (p, d))) \<noteq> None else True"
proof (cases ev)
  case (OpenMessage m)
  then show ?thesis
    using handleStatusUpdate_cases [of e "m_id m" "''Letto''" "p\<lparr>mp_selected := Some m, mp_dialog := True\<rparr>" d]
    by (auto simp: msg_handle_def openMessageDialog_def Let_def)
next
  case (ChooseStatus k st)
  then show ?thesis using assms handleStatusUpdate_cases [of e k st p d] by (auto simp: msg_handle_def)
qed (use assms in \<open>simp_all add: msg_handle_def setStatusFilter_def setTypeFilter_def\<close>)

lemma msg_step_ok:
  assumes "msg_page_ok p" "msg_step e ev (p, d) = Some (p'', d')"
  shows "msg_page_ok p''"
proof -
  let ?p' = "fst (msg_handle e ev (p, d))"
  have p'': "p'' = (if effect_deps msg_effects ?p' = effect_deps msg_effects p then ?p'
           else ?p'\<lparr>mp_filtered := filterMessages (mp_status_filter ?p') (mp_type_filter ?p') (mp_messages ?p')\<rparr>)"
    using assms(2) by (simp add: msg_step_eq Let_def)
  have dialog: "if mp_dialog ?p' then mp_selected ?p' \<noteq> None else True"
    using assms(1) by (intro msg_handle_dialog) (simp add: msg_page_ok_def)
  show ?thesis
  proof (cases "effect_deps msg_effects ?p' = effect_deps msg_effects p")
    case True
    then have "mp_messages ?p' = mp_messages p" "mp_status_filter ?p' = mp_status_filter p"
        "mp_type_filter ?p' = mp_type_filter p"
      by (simp_all add: effect_deps_def msg_effects_def)
    with True assms(1) dialog show ?thesis
      by (simp add: p'' msg_page_ok_def msg_handle_filtered)
  next
    case False
    with dialog show ?thesis by (simp add: p'' msg_page_ok_def)
  qed
qed

lemma message_PUT_keeps_statuses:
  assumes "st \<in> set message_statuses" "statuses_valid d"
  shows "statuses_valid (snd (admin_message_PUT e k (Some (JObj [(''status'', JStr st)])) d))"
proof (cases "update_single e UpdateMessage m_id k
                (\<lambda>r. (patch_message [(''status'', JStr st)] r)\<lparr>m_updated := now e\<rparr>) (messages d)")
  case (Inl err)
  then show ?thesis using assms(2)
    by (simp add: admin_message_PUT_def update_cols_ok_def cols_known_def message_cols_def)
next
  case (Inr rrs)
  then obtain r rs where u: "update_single e UpdateMessage m_id k
                (\<lambda>r. (patch_message [(''status'', JStr st)] r)\<lparr>m_updated := now e\<rparr>) (messages d) = Inr (r, rs)"
    by (cases rrs) auto
  then have "rs = update_rows m_id k (\<lambda>x. x\<lparr>m_status := JStr st, m_updated := now e\<rparr>) (messages d)"
    by (simp add: update_single_Inr patch_message_status)
  with u assms show ?thesis
    by (auto simp: admin_message_PUT_def update_cols_ok_def cols_known_def message_cols_def
        statuses_valid_def update_rows_def list_all_iff)
qed

lemma msg_handle_statuses:
  "statuses_valid d \<Longrightarrow> msg_allowed p ev \<Longrightarrow> statuses_valid (snd (msg_handle e ev (p, d)))"
proof (cases ev)
  case (OpenMessage m)
  then show "statuses_valid d \<Longrightarrow> ?thesis"
    by (simp add: msg_handle_def openMessageDialog_def Let_def handleStatusUpdate_db message_PUT_keeps_statuses
        message_statuses_def)
next
  case (ChooseStatus k st)
  then show "statuses_valid d \<Longrightarrow> msg_allowed p ev \<Longrightarrow> ?thesis"
    by (simp add: msg_handle_def handleStatusUpdate_db message_PUT_keeps_statuses)
qed (simp_all add: msg_handle_def)

lemma filter_perm_singleton: "mset ys = mset xs \<Longrightarrow> filter P xs = [a] \<Longrightarrow> filter P ys = [a]"
  by (metis mset_filter mset_single_iff)

lemma loaded_inbox_eq:
  "loaded_inbox = (initial_msg_page\<lparr>mp_messages := [nuovo_msg], mp_filtered := [nuovo_msg]\<rparr>, inbox_db)"
  by (simp add: msg_step_eq Let_def msg_handle_def fetchMessages_def admin_messages_GET_def newest_first_def
      setMessages_def effect_deps_def msg_effects_def initial_msg_page_def filterMessages_def)

lemma opened_inbox_reach: "msg_reach inbox_db opened_inbox"
proof -
  have r0: "msg_reach inbox_db (initial_msg_page, inbox_db)"
    by (rule msg_reach.init) (rule mount_initial)
  have r1: "msg_reach inbox_db loaded_inbox"
    by (rule msg_reach.step [OF r0, of MessagesLoaded demo_env]) (simp_all add: msg_step_eq)
  have "msg_allowed (fst loaded_inbox) (OpenMessage nuovo_msg)"
    unfolding loaded_inbox_eq by simp
  then show ?thesis
    using msg_reach.step [of inbox_db "fst loaded_inbox" "snd loaded_inbox" "OpenMessage nuovo_msg" demo_env] r1
    by (simp add: msg_step_eq)
qed

lemma msg_reach_ok: "msg_reach d0 (p, d) \<Longrightarrow> msg_page_ok p"
proof (induction "(p, d)" arbitrary: p d rule: msg_reach.induct)
  case (init p)
  then show ?case using mount_initial
    by (simp add: msg_page_ok_def initial_msg_page_def filterMessages_def)
next
  case (step p d ev e)
  then show ?case by (metis msg_step_ok)
qed

lemma filterMessages_Nil_iff:
  "filterMessages sf tf ms = [] \<longleftrightarrow>
     (\<forall>m \<in> set ms. \<not> ((sf = ''all'' \<or> m_status m = JStr sf) \<and> (tf = ''all'' \<or> request_type m = JStr tf)))"
  by (auto simp: filterMessages_def Let_def filter_empty_conv)

subsection \<open>The page as a state machine\<close>

text \<open>
  C38: in every state the page reaches by the events its controls offer, the
  shown list is the listing filtered by the two selects, although no handler sets
  it: the filter effect's dependency array names all three values it reads, so
  the commit after each event re-runs it whenever one of them changed. Every
  event's commit settles, and an open dialog has a selected message.
\<close>

theorem msg_reach_page_ok:
  assumes "msg_reach d0 (p, d)"
  shows "msg_page_ok p \<and> (\<forall>e ev. \<exists>pd'. msg_step e ev (p, d) = Some pd')"
  using msg_reach_ok [OF assms] by (simp add: msg_step_eq)

theorem msg_reach_page_ok_witness:
  "msg_reach inbox_db opened_inbox \<and> msg_page_ok (fst opened_inbox)
   \<and> (\<forall>e ev. \<exists>pd'. msg_step e ev opened_inbox = Some pd')"
  using opened_inbox_reach msg_reach_page_ok [of inbox_db "fst opened_inbox" "snd opened_inbox"] by simp

text \<open>
  C37: in every reachable state the text in place of the list tells the two empty
  cases apart: "Non ci sono messaggi" exactly when the listing is empty, "Nessun
  messaggio corrisponde ai filtri" exactly when there are messages but none has
  the chosen status and type, and no text when some message matches.
\<close>

theorem msg_reach_empty_text:
  assumes "msg_reach d0 (p, d)"
  shows "empty_list_text p =
           (if mp_messages p = [] then Some ''Non ci sono messaggi da visualizzare.''
            else if (\<exists>m \<in> set (mp_messages p).
                       (mp_status_filter p = ''all'' \<or> m_status m = JStr (mp_status_filter p))
                       \<and> (mp_type_filter p = ''all'' \<or> request_type m = JStr (mp_type_filter p)))
            then None
            else Some ''Nessun messaggio corrisponde ai filtri selezionati.'')"
proof -
  have "mp_filtered p = filterMessages (mp_status_filter p) (mp_type_filter p) (mp_messages p)"
    using msg_reach_ok [OF assms] by (simp add: msg_page_ok_def)
  then show ?thesis
    using filterMessages_Nil_iff [of "mp_status_filter p" "mp_type_filter p" "mp_messages p"]
    by (auto simp: empty_list_text_def)
qed

theorem msg_reach_empty_text_witness:
  "msg_reach inbox_db opened_inbox
   \<and> empty_list_text (fst opened_inbox) =
       (if mp_messages (fst opened_inbox) = [] then Some ''Non ci sono messaggi da visualizzare.''
        else if (\<exists>m \<in> set (mp_messages (fst opened_inbox)).
                   (mp_status_filter (fst opened_inbox) = ''all'' \<or> m_status m = JStr (mp_status_filter (fst opened_inbox)))
                   \<and> (mp_type_filter (fst opened_inbox) = ''all''
                      \<or> request_type m = JStr (mp_type_filter (fst opened_inbox))))
        then None
        else Some ''Nessun messaggio corrisponde ai filtri selezionati.'')"
  using opened_inbox_reach msg_reach_empty_text [of inbox_db "fst opened_inbox" "snd opened_inbox"] by simp

text \<open>
  C39: the page only writes the three message statuses: if every stored message
  had one of them at the start, every message has one in every reachable state
  (although \<open>PUT /api/admin/messages/[id]\<close> accepts any status).
\<close>

theorem msg_reach_statuses_valid:
  "msg_reach d0 pd \<Longrightarrow> statuses_valid d0 \<Longrightarrow> statuses_valid (snd pd)"
proof (induction rule: msg_reach.induct)
  case (init p)
  then show ?case by simp
next
  case (step p d ev e pd')
  then show ?case by (auto simp: msg_step_eq msg_handle_statuses)
qed

theorem msg_reach_statuses_valid_witness:
  "msg_reach inbox_db opened_inbox \<and> statuses_valid inbox_db \<and> statuses_valid (snd opened_inbox)"
proof -
  have v: "statuses_valid inbox_db" by (simp add: statuses_valid_def message_statuses_def)
  show ?thesis using msg_reach_statuses_valid [OF opened_inbox_reach v] opened_inbox_reach v by simp
qed

text \<open>
  C40: opening a new or unread message marks it read in the listing, but the
  dialog keeps the message as it was clicked: its badge and its status select
  still show the old status while the list shows \<open>Letto\<close>.
\<close>

theorem openMessageDialog_stale_selection:
  assumes "db_inv d" "x \<in> set (messages d)" "m_id x = m_id m"
    and "m_status m = JStr ''Nuovo'' \<or> m_status m = JStr ''Non letto''"
    and "UpdateMessage \<notin> failing e" "SelectMessages \<notin> failing e"
  shows "mp_selected (fst (openMessageDialog e m (p, d))) = Some m
         \<and> mp_dialog (fst (openMessageDialog e m (p, d)))
         \<and> filter (\<lambda>y. m_id y = m_id m) (mp_messages (fst (openMessageDialog e m (p, d))))
             = [x\<lparr>m_status := JStr ''Letto'', m_updated := now e\<rparr>]"
proof -
  let ?rs = "update_rows m_id (m_id m) (\<lambda>x. x\<lparr>m_status := JStr ''Letto'', m_updated := now e\<rparr>) (messages d)"
  note put = admin_message_PUT_status [OF assms(1-3) assms(5), of "JStr ''Letto''"]
  have "distinct (map m_id (messages d))" using assms(1) by (simp add: db_inv_def keys_ok_def)
  then have "filter (\<lambda>y. m_id y = m_id m) ?rs = [x\<lparr>m_status := JStr ''Letto'', m_updated := now e\<rparr>]"
    using assms(2,3) by (intro filter_key_update_rows) simp_all
  then have "filter (\<lambda>y. m_id y = m_id m) (newest_first m_created ?rs) = [x\<lparr>m_status := JStr ''Letto'', m_updated := now e\<rparr>]"
    by (rule filter_perm_singleton [OF newest_first_mset])
  with assms(4,6) show ?thesis
    unfolding openMessageDialog_def handleStatusUpdate_def
    by (simp add: put Let_def response_ok_def status_def fetchMessages_def admin_messages_GET_def setMessages_def)
qed

theorem openMessageDialog_stale_selection_witness:
  "mp_selected (fst (openMessageDialog demo_env nuovo_msg (initial_msg_page, inbox_db))) = Some nuovo_msg
   \<and> mp_dialog (fst (openMessageDialog demo_env nuovo_msg (initial_msg_page, inbox_db)))
   \<and> filter (\<lambda>y. m_id y = 3) (mp_messages (fst (openMessageDialog demo_env nuovo_msg (initial_msg_page, inbox_db))))
       = [nuovo_msg\<lparr>m_status := JStr ''Letto'', m_updated := 1000\<rparr>]"
  using openMessageDialog_stale_selection [OF inbox_db_inv, of nuovo_msg nuovo_msg demo_env initial_msg_page]
  by simp

end
