(* ===== verification/Spec2Isabelle.thy ===== *)
theory Spec2Isabelle
  imports Routes OrdersPage ClientsPage Dashboard MessagesPage
begin

text \<open>
  \<^bold>\<open>A verification model of the Olio di Valeria back office.\<close>

  The program (\<open>src/\<close>) is a Next.js application. Its route handlers under
  \<open>src/app/api/\<close> read a JSON body, query a Supabase (PostgreSQL) database and
  answer JSON. Two public routes take orders and contact messages
  (\<open>api/orders\<close>, \<open>api/contact\<close>). An administrator logs in
  (\<open>api/admin/auth/login\<close>, \<open>src/lib/auth.ts\<close>), manages the credentials
  (\<open>api/admin/settings/*\<close>) and edits orders, messages and clients through CRUD
  routes (\<open>api/admin/{orders,messages,clients,products}\<close>). New orders and messages
  notify the administrator by e-mail (\<open>src/lib/email.tsx\<close>). The pages under
  \<open>src/app/admin/\<close> are React clients of these routes.

  \<^bold>\<open>Theories.\<close>
  \<^item> \<open>Prelude\<close>: type names, fact collections, generic list lemmas.
  \<^item> \<open>Json\<close>: JavaScript values (\<open>jval\<close>) and the language semantics the code
    relies on: destructuring, truthiness, \<open>String()\<close>, \<open>Number.parseInt\<close>, object
    spread, \<open>JSON.stringify\<close> dropping \<open>undefined\<close>, \<open>toLowerCase\<close> and
    \<open>includes\<close>.
  \<^item> \<open>Crypto\<close>: \<open>bcryptjs\<close> and \<open>jsonwebtoken\<close>, idealised (from the spec):
    bcrypt reads the first 72 bytes; a token is its claims and an HMAC tag.
  \<^item> \<open>Db\<close>: the tables as records in a \<open>db\<close> record, the request environment
    \<open>env\<close> (clock, salt, environment variables, mail delivery, the set of database
    calls that fail), \<open>.single()\<close>, inserts with a key counter, the e-mail upsert,
    and the table invariant \<open>db_inv\<close> (distinct keys below the counter, one client
    per non-null e-mail).
  \<^item> \<open>Http\<close>: responses, one body constructor per JSON shape.
  \<^item> \<open>Auth\<close>: \<open>authenticateAdmin\<close>, \<open>verifyAdminToken\<close>, the login, settings and
    maintenance routes (\<open>fix-password\<close>, \<open>debug\<close>, \<open>test-auth\<close>).
  \<^item> \<open>Notify\<close>: the notification dispatcher and its templates; the shared
    body \<open>notify_via\<close> takes the transport factory, and the code's \<open>notify\<close>
    passes \<open>createTransporter\<close>.
  \<^item> \<open>Intake\<close>: \<open>POST/GET /api/orders\<close> and \<open>POST /api/contact\<close>.
  \<^item> \<open>Admin\<close>: the admin CRUD routes; updates are \<open>{...updateData, updated_at}\<close>
    through \<open>.single()\<close>.
  \<^item> \<open>Pages\<close>: the messages page (filters, status update, open-and-mark-read)
    and the clients page search.
  \<^item> \<open>OrdersPage\<close>: the orders page (\<open>admin/orders/page.tsx\<close>): its form as a
    record, the input events as \<open>form_step\<close>, the inductive set \<open>form_reach\<close> of
    forms the selects allow, and \<open>handleSubmit\<close> over the order routes.
  \<^item> \<open>LoginPage\<close>: the browser (the \<open>admin-token\<close> cookie with its expiry, the
    location), the login page (\<open>handleLogin\<close>, \<open>testAuth\<close>, \<open>fixPassword\<close>)
    and the sidebar (\<open>components/admin/sidebar.tsx\<close>).
  \<^item> \<open>FormValidation\<close>: the browser's constraint validation the admin forms rely
    on: \<open>required\<close> and the HTML standard's valid e-mail address for
    \<open>type="email"\<close> (no space, one \<open>@\<close>, dot-separated labels).
  \<^item> \<open>SettingsPage\<close>: the settings page's password and e-mail forms, with their
    validation (\<open>required\<close>, \<open>minLength\<close>, \<open>type="email"\<close>).
  \<^item> \<open>ClientsPage\<close>: the clients page's new/edit dialog and delete button.
  \<^item> \<open>Dashboard\<close>: the sales dashboard (\<open>admin/dashboard/page.tsx\<close>) as a
    function from the environment and the database to the values it renders.
  \<^item> \<open>ReactEffects\<close>: React's \<open>useEffect\<close>: dependency arrays, the commit
    that runs the effects whose arrays changed, and the render loop \<open>settle\<close>, a
    \<^theory_text>\<open>partial_function (option)\<close> because a page may re-render for ever.
  \<^item> \<open>MessagesPage\<close>: the messages page's two effects, its selects, colours and
    empty-list text; a step \<open>msg_step\<close> is the event's handler
    (\<open>msg_handle\<close>, whose setters set only their field) followed by the
    commit of \<open>settle\<close>, which runs the filter effect when its dependency array
    changed; the inductive set \<open>msg_reach\<close> of the states its controls reach
    (\<open>msg_allowed\<close>).
  \<^item> \<open>Routes\<close>: the dispatcher \<open>handle\<close> from a request (route, cookie, body) to
    its handler; \<open>run\<close> over a sequence of requests; the inductive set
    \<open>reachable\<close> of databases from the provisioned one.

  Each handler is a function of the environment, the body and the database that
  returns the response, the new database and the mails delivered. Every
  \<open>if (...) return\<close> of the code is a branch, and so is every \<open>catch\<close> and every
  failing database call. A handler's name is that of its file and method
  (\<open>orders_POST\<close> is \<open>POST\<close> in \<open>api/orders/route.ts\<close>).

  \<^bold>\<open>What is proved.\<close>
  \<^item> Authentication: 401 exactly when no admin row accepts the password. A login
    token verifies for 24 hours. The password change is guarded and rehashes. The
    unauthenticated \<open>fix-password\<close> resets the password. The e-mail route
    stores any non-empty string.
  \<^item> Intake: rejections on the validation branches and on a failed insert; the
    stored order and message rows, field by field; one client per e-mail after an
    order and the merge of its phone; the response does not depend on the upsert
    or the notification.
  \<^item> Notifications: none is ever sent, because \<open>createTransporter\<close> is not a
    nodemailer function; with a transport that is created, the shared body sends
    one mail to the configured address exactly when it should.
  \<^item> Admin routes: updates accept any status; creation skips validation;
    duplicate client e-mails are refused; listings are permutations, newest first.
  \<^item> Pages: opening a message marks it read, and re-opening does nothing. The
    client search meets its case-insensitive substring specification on
    well-typed rows. It throws on a null e-mail.
  \<^item> Orders page: a new order built from any sequence of form inputs the selects
    allow names a catalogue product and one of its sizes.
  \<^item> Login page: the cookie lives exactly as long as its token verifies; the
    pre-filled form, which the browser's validation lets through, and the
    fix-password button give any visitor a session.
  \<^item> Settings page: a mismatched confirmation sends nothing; a password change
    through the page makes the new password log in and the old one fail (unless
    both share their first 72 bytes); the e-mail form round-trips, and through
    the page only an address with an \<open>@\<close> and no space is stored.
  \<^item> Clients page: saving an unchanged client turns a \<open>null\<close> name or phone into
    the empty string; a refused creation is not reported; a delete needs the
    confirmation and removes exactly the rows of its key.
  \<^item> Dashboard: percentages lie in [0, 100], and the status counts add up to the
    number of orders exactly when every order has a listed status; the ranking is a stable sort by decreasing quantity of
    the per-product sums; a failed orders query shows as an empty shop.
  \<^item> Messages page: in every reachable state the shown list is the listing
    filtered by both selects, because the filter effect's dependency array names
    all three values it reads, and every event's commit settles; the empty-list
    text tells its two cases apart; through the page the stored statuses stay
    among the three; the open dialog keeps a stale status after marking its
    message read.
  \<^item> Across components: no request sequence changes the admin accounts or the
    catalogue.

  \<^bold>\<open>Bounds and fuel.\<close> Every function of the model but one is total by
  structural or size-measured recursion, because the code has no loop that is not
  a traversal of a finite list or string. The exception is React's render loop
  (\<open>settle\<close>): it is a \<^theory_text>\<open>partial_function (option)\<close>, since an effect that
  sets its own dependency re-renders for ever (\<open>settle_counter_diverges\<close>). For
  the messages page it is proved to return after at most one commit, because its
  filter effect sets no value its dependency arrays read. Timestamps are natural
  numbers of seconds. JavaScript numbers in the model are unbounded integers: the
  code handles only integer quantities and keys, and the model agrees with
  JavaScript's doubles on safe integers (below 2^53 in magnitude, where
  \<open>String\<close> prints decimal digits); no property depends on larger values. The
  dashboard's percentages are exact rationals: the page's doubles keep each value
  in [0, 100] (rounding is monotone), and no property depends on their sum.
  The cookie's lifetime (86400 s) and the token's are the constants of the code.

  \<^bold>\<open>Pages.\<close> A React page is a record of its state; each handler is a function
  from the environment, the page and the database to the new page and database, and
  calls the route handler its \<open>fetch\<close> reaches. Requests are served at once
  (no interleaving of a handler's \<open>await\<close>s with other requests), and the
  browser's form validation decides whether a submit reaches its handler.

  \<^bold>\<open>Not modelled.\<close>
  \<^item> Rendering (JSX) and styles, beyond the texts and counts the pages compute
    (empty-list texts, the clients' summary cards, the dashboard's ranking lines).
  \<^item> The sidebar's rendering: \<open>AdminSidebar\<close> is imported by no file, so its
    navigation and logout are modelled as functions but never reached from a page. The static home page \<open>src/app/page.tsx\<close> is
    not modelled: it has no state, calls no route, and only links to the login page.
  \<^item> The \<open>catch\<close> branches of the pages that only log. Every modelled route
    answers JSON, so they are not reached.
  \<^item> The effects of the clients and orders pages are called inline wherever their
    dependencies are set; only the messages page's are given to the effect loop.
  \<^item> Reference identity of JavaScript arrays in dependency arrays: they are
    compared by value.
  \<^item> \<open>next.config.mjs\<close> (build flags only). Its \<open>ignoreBuildErrors\<close> is why the
    mistyped \<open>createTransporter\<close> builds.
  \<^item> The Supabase client library and the SQL schema, which are not in the
    repository. Column types are not checked (values are stored as sent), and
    writes to \<open>id\<close> and \<open>created_at\<close> are refused as unknown columns. The
    unique constraint on the clients' e-mail is assumed, so \<open>db_inv\<close> is kept
    by the database model itself and is a hypothesis of the properties, not one
    of them.
  \<^item> Authentication of the admin routes: no handler reads the \<open>admin-token\<close>
    cookie, so the dispatcher passes none; the absence of the spec's 401 is a
    finding, not a theorem.
  \<^item> Unicode case mapping beyond the Latin letters.
  \<^item> Concurrency between requests: requests are served one after the other.
\<close>

end
